theory Spec2Isabelle
  imports Main "HOL-Library.AList"
begin

section \<open>JavaScript values and built-ins used by custom-main.js\<close>

text \<open>
  Strings are lists of characters with codes below 256: the strings of a page written in
  Latin-1. The values \<open>JSON.parse\<close> returns follow. A number is kept as the text that
  \<open>Number::toString\<close> gives for it (\<open>2\<close>, \<open>-3\<close>, \<open>12.5\<close>, \<open>1e+21\<close>, \<open>Infinity\<close>):
  the code applies only ToBoolean and ToString to a parsed number, and both are functions
  of that text (0 and \<open>-0\<close> print as \<open>0\<close>; \<open>JSON.parse\<close> returns no \<open>NaN\<close>). An object
  is the association list of its own properties.
\<close>

datatype json =
    JNull
  | JBool bool
  | JNum string
  | JStr string
  | JArr "json list"
  | JObj "(string \<times> json) list"

text \<open>
  A Number that \<open>parseInt\<close> returned: \<open>None\<close> is \<open>NaN\<close>, \<open>Some n\<close> the integer the digits
  denote. The engine's Number is the double nearest to that integer: the integer itself
  up to \<open>Number.MAX_SAFE_INTEGER\<close>, which is as far as the model of these numbers is exact.
\<close>

type_synonym num = "int option"

definition safeInteger :: "int \<Rightarrow> bool" where
  "safeInteger n = (\<bar>n\<bar> \<le> 9007199254740991)"

definition safeNum :: "num \<Rightarrow> bool" where
  "safeNum x = (case x of Some n \<Rightarrow> safeInteger n | None \<Rightarrow> True)"

text \<open>ToBoolean on a parsed JSON value.\<close>

fun truthy :: "json \<Rightarrow> bool" where
  "truthy JNull = False"
| "truthy (JBool b) = b"
| "truthy (JNum t) = (t \<noteq> ''0'')"
| "truthy (JStr s) = (s \<noteq> [])"
| "truthy (JArr xs) = True"
| "truthy (JObj kvs) = True"

subsection \<open>Decimal digits\<close>

definition is_digit :: "char \<Rightarrow> bool" where
  "is_digit c = (48 \<le> (of_char c :: nat) \<and> (of_char c :: nat) \<le> 57)"

definition digit_val :: "char \<Rightarrow> nat" where
  "digit_val c = of_char c - 48"

definition digit_char :: "nat \<Rightarrow> char" where
  "digit_char n = char_of (48 + n)"

text \<open>
  \<open>Number::toString\<close> for a natural number and for an integer, below \<open>10^21\<close> in magnitude
  (from there on the engine writes an exponent).
\<close>

fun digits_of :: "nat \<Rightarrow> string" where
  "digits_of n = (if n < 10 then [digit_char n] else digits_of (n div 10) @ [digit_char (n mod 10)])"

declare digits_of.simps [simp del]

definition show_int :: "int \<Rightarrow> string" where
  "show_int i = (if i < 0 then CHR ''-'' # digits_of (nat (- i)) else digits_of (nat i))"

subsection \<open>parseInt(s, 10)\<close>

text \<open>
  The white space \<open>parseInt\<close> skips, among the characters below 256: TAB, LF, VT, FF, CR,
  space and the no-break space.
\<close>

definition is_space :: "char \<Rightarrow> bool" where
  "is_space c = ((of_char c :: nat) \<in> {9, 10, 11, 12, 13, 32, 160})"

definition digits_value :: "string \<Rightarrow> nat" where
  "digits_value ds = foldl (\<lambda>acc c. 10 * acc + digit_val c) 0 ds"

text \<open>
  \<open>parseInt(s, 10)\<close>: skip leading white space, read an optional sign, then the longest run
  of decimal digits; no digit gives \<open>NaN\<close>. With the radix given as 10 no \<open>0x\<close> prefix is
  read. The result is the integer the digits denote (\<open>mathInt\<close> with its sign), which the
  engine then rounds to a double: see \<open>safeNum\<close>.
\<close>

definition parse_digits :: "string \<Rightarrow> nat option" where
  "parse_digits s = (let ds = takeWhile is_digit s in if ds = [] then None else Some (digits_value ds))"

definition parseInt10 :: "string \<Rightarrow> num" where
  "parseInt10 s =
     (case dropWhile is_space s of
        [] \<Rightarrow> None
      | c # r \<Rightarrow>
          if c = CHR ''-'' then map_option (\<lambda>n. - int n) (parse_digits r)
          else if c = CHR ''+'' then map_option int (parse_digits r)
          else map_option int (parse_digits (c # r)))"

subsection \<open>ToString and property access\<close>

fun join_comma :: "string list \<Rightarrow> string" where
  "join_comma [] = []"
| "join_comma [x] = x"
| "join_comma (x # y # ys) = x @ CHR '','' # join_comma (y # ys)"

text \<open>
  ToString on a parsed JSON value; \<open>None\<close>: it throws a TypeError. An object that has a
  property \<open>toString\<close> of its own has no callable \<open>toString\<close> (a JSON value is not a
  function) and its \<open>valueOf\<close> returns no primitive, so the conversion throws; any other
  object prints as \<open>[object Object]\<close>. \<open>Array.prototype.join\<close> writes \<open>null\<close> as the empty
  string and converts the other elements, so it throws when one of them does.
\<close>

fun toString :: "json \<Rightarrow> string option" where
  "toString JNull = Some ''null''"
| "toString (JBool b) = Some (if b then ''true'' else ''false'')"
| "toString (JNum t) = Some t"
| "toString (JStr s) = Some s"
| "toString (JArr xs) =
     map_option join_comma (those (map (\<lambda>x. if x = JNull then Some [] else toString x) xs))"
| "toString (JObj kvs) = (if map_of kvs ''toString'' = None then Some ''[object Object]'' else None)"

text \<open>\<open>parseInt(v, 10)\<close> on a value: ToString first, so \<open>None\<close> is the TypeError again.\<close>

definition parseInt :: "json \<Rightarrow> num option" where
  "parseInt v = map_option parseInt10 (toString v)"

text \<open>The index a property key denotes in an array or string of length \<open>n\<close>.\<close>

definition index_of_key :: "string \<Rightarrow> nat \<Rightarrow> nat option" where
  "index_of_key k n = find (\<lambda>i. digits_of i = k) [0..<n]"

text \<open>
  \<open>v[k]\<close> for a value that is not null: \<open>None\<close> is \<open>undefined\<close>. Own properties only;
  a member inherited from a prototype is a function or an object without a \<open>toString\<close> of
  its own, whose \<open>parseInt\<close> is \<open>NaN\<close>, so that the readers below, which all default on
  \<open>NaN\<close>, treat it as they treat \<open>undefined\<close>.
\<close>

fun getProp :: "json \<Rightarrow> string \<Rightarrow> json option" where
  "getProp (JObj kvs) k = map_of kvs k"
| "getProp (JArr xs) k =
     (if k = ''length'' then Some (JNum (show_int (int (length xs))))
      else map_option (\<lambda>i. xs ! i) (index_of_key k (length xs)))"
| "getProp (JStr s) k =
     (if k = ''length'' then Some (JNum (show_int (int (length s))))
      else map_option (\<lambda>i. JStr [s ! i]) (index_of_key k (length s)))"
| "getProp v k = None"

text \<open>\<open>x || d\<close> on numbers: \<open>NaN\<close> and 0 are falsy.\<close>

definition num_or :: "num \<Rightarrow> int \<Rightarrow> int" where
  "num_or x d = (case x of None \<Rightarrow> d | Some n \<Rightarrow> if n = 0 then d else n)"

section \<open>The host page\<close>

text \<open>
  What the engine, the browser and the theme provide. Prices are Numbers of the engine,
  of a type \<open>'n\<close> about which nothing is assumed: \<open>Number_of n\<close> is the Number with the
  integer value \<open>n\<close> (for a safe integer \<open>n\<close>), \<open>Number_add\<close> and \<open>Number_mul\<close> are \<open>+\<close> and
  \<open>*\<close> on Numbers, \<open>Number_gt0 x\<close> is \<open>x > 0\<close>. Then \<open>JSON.parse\<close> (\<open>None\<close> when it
  throws), \<open>parseFloat\<close>, the money format behind \<open>formatPrice\<close>, \<open>encodeURIComponent\<close>,
  \<open>this.querySelector\<close> on a selector built at run time (it throws a SyntaxError on a
  selector that does not parse), the routes of \<open>window.theme\<close>, whether a \<open>cart-element\<close>
  with a \<open>getCart\<close> method is on the page, and the messages of the engine's TypeErrors
  for reading a property of \<open>null\<close> and for an object without a primitive value.
  Each of them is total here: a call returns.
\<close>

datatype dom_error = SyntaxError

record 'n host =
  Number_of :: "int \<Rightarrow> 'n"
  Number_add :: "'n \<Rightarrow> 'n \<Rightarrow> 'n"
  Number_mul :: "'n \<Rightarrow> 'n \<Rightarrow> 'n"
  Number_gt0 :: "'n \<Rightarrow> bool"
  JSON_parse :: "string \<Rightarrow> json option"
  parseFloat :: "string \<Rightarrow> 'n"
  formatMoney :: "'n \<Rightarrow> string"
  encodeURIComponent :: "string \<Rightarrow> string"
  this_querySelector :: "string \<Rightarrow> dom_error + nat option"
  routes_root :: "string option"
  routes_shop_url :: "string option"
  cartElement_getCart :: bool
  typeError_message :: string
  toPrimitiveError_message :: string

section \<open>The cart-add URL\<close>

definition endsWith :: "string \<Rightarrow> string \<Rightarrow> bool" where
  "endsWith s suffix = (length suffix \<le> length s \<and> drop (length s - length suffix) s = suffix)"

text \<open>\<open>window.theme?.routes?.root || window.theme?.routes?.shop_url || "/"\<close>\<close>

definition rootUrl :: "'n host \<Rightarrow> string" where
  "rootUrl h =
     (case routes_root h of
        Some r \<Rightarrow> if r \<noteq> [] then r
                  else (case routes_shop_url h of Some u \<Rightarrow> if u \<noteq> [] then u else ''/'' | None \<Rightarrow> ''/'')
      | None \<Rightarrow> (case routes_shop_url h of Some u \<Rightarrow> if u \<noteq> [] then u else ''/'' | None \<Rightarrow> ''/''))"

definition normalizedRoot :: "string \<Rightarrow> string" where
  "normalizedRoot r = (if endsWith r ''/'' then r else r @ ''/'')"

definition addToCartUrl :: "string \<Rightarrow> string" where
  "addToCartUrl r = normalizedRoot r @ ''cart/add.js''"


section \<open>The page: checkboxes, form and price display\<close>

text \<open>
  An add-on checkbox with the \<open>data-*\<close> attributes the code reads (\<open>None\<close>: the attribute
  is absent). \<open>countSpan\<close> is the text of the \<open>[data-additional-product-count]\<close> span in the
  checkbox's label inside a \<open>product-form-checkboxes\<close> element, when there is one.
  Console output is not part of the model.
\<close>

record checkbox =
  cb_id :: string
  cb_name :: string
  cb_value :: string
  checked :: bool
  additionalProductPrice :: "string option"
  additionalProductId :: "string option"
  additionalProductVariantId :: "string option"
  additionalProductFormattedPrice :: "string option"
  additionalProductCountForVariant :: "string option"
  currentVariantTitle :: "string option"
  mainProductPrice :: "string option"
  countSpan :: "string option"

record button =
  disabled :: bool
  classList :: "string list"

record error_container =
  ec_textContent :: string
  ec_role :: "string option"
  ec_classList :: "string list"

text \<open>
  The form: its named controls in document order (name, value), its submit control and its
  \<open>[data-cart-errors-container]\<close>. \<open>querySelector\<close> by name finds the first control.
\<close>

record form =
  inputs :: "(string \<times> string) list"
  submitButton :: "button option"
  errorContainer :: "error_container option"

record price_el =
  pe_textContent :: string
  pe_withPatternProduct :: bool

text \<open>
  An item \<open>{id, quantity}\<close> of the request. Both are Numbers that \<open>parseInt\<close> returned
  (the quantity after \<open>|| 1\<close>, so it is never \<open>NaN\<close>), kept as the integers read.
\<close>

record item =
  item_id :: num
  quantity :: int

text \<open>What \<open>fetch\<close> is called with: the URL and the body \<open>{items, sections_url}\<close>.\<close>

record request =
  url :: string
  items :: "item list"
  sections_url :: string

record 'n pattern_change =
  isChecked :: bool
  pc_mainProductPrice :: 'n
  patternProductPrice :: 'n
  patternProductPriceBase :: 'n
  pc_countMultiplier :: int
  totalPrice :: 'n
  patternProductId :: "string option"
  formattedPrice :: string
  pc_currentVariantTitle :: string

datatype target = OnThis | OnDocument

text \<open>
  The custom events the controller dispatches, and the three calls it makes to refresh the
  cart (\<open>cartElement.getCart()\<close>, \<open>updateCartSections\<close>, \<open>fetchCartSections\<close>), in order.
\<close>

datatype 'n event =
    PatternChange "'n pattern_change"
  | CheckboxChange string bool string
  | CartRefresh
  | CartAdd json json
  | CartAddError string
  | GetCart
  | UpdateCartSections json
  | FetchCartSections string

datatype listener = PatternListener | GenericListener

record submit_event =
  defaultPrevented :: bool
  propagationStopped :: bool
  immediatePropagationStopped :: bool

text \<open>
  The controller and the part of the document it reads and writes. Checkboxes are DOM nodes
  shared by reference between the fields, so they live in a store \<open>elements\<close> and the fields
  hold their addresses. \<open>checkboxes\<close> is the JavaScript \<open>Map\<close> (insertion order kept,
  \<open>set\<close> on a bound key replaces its value in place). \<open>variantScript\<close> is the text of the
  \<open>[data-selected-variant]\<close> script found in \<open>variant-selects\<close> or else in \<open>product-form\<close>;
  \<open>priceElements\<close> are the price nodes the selectors of \<open>updatePriceDisplay\<close> find;
  \<open>form\<close> is the enclosing form or else the first \<open>form[action*="/cart/add"]\<close>.
\<close>

record 'n state =
  elements :: "nat \<Rightarrow> checkbox"
  ownCheckboxes :: "nat list"
  checkboxes :: "(string \<times> nat) list"
  patternProductCheckbox :: "nat option"
  patternNeedleCheckboxes :: "nat list option"
  currentVariantPrice :: 'n
  listeners :: "(nat \<times> listener) list"
  form :: "form option"
  variantScript :: "string option"
  priceElements :: "price_el list"
  events :: "(target \<times> 'n event) list"

section \<open>Quantity multiplier and prices\<close>

text \<open>\<open>a || ""\<close> and the truth value of a \<open>dataset\<close> entry.\<close>

definition or_empty :: "string option \<Rightarrow> string" where
  "or_empty a = (case a of Some s \<Rightarrow> s | None \<Rightarrow> [])"

definition present :: "string option \<Rightarrow> bool" where
  "present a = (case a of Some s \<Rightarrow> s \<noteq> [] | None \<Rightarrow> False)"

text \<open>\<open>parseFloat(a || 0)\<close>: \<open>parseFloat(0)\<close> is 0.\<close>

definition parseFloat_or0 :: "'n host \<Rightarrow> string option \<Rightarrow> 'n" where
  "parseFloat_or0 h a = (if present a then parseFloat h (or_empty a) else Number_of h 0)"

text \<open>
  The body of the \<open>try\<close> block that \<open>getCheckboxPrice\<close>, \<open>buildPatternProductItem\<close>,
  \<open>handlePatternProductChange\<close> and \<open>updateInitialCountForCheckbox\<close> each repeat, after
  \<open>JSON.parse\<close>:
  \<open>if (sizeCountObject && currentVariantTitle && sizeCountObject[currentVariantTitle])
     count = parseInt(sizeCountObject[currentVariantTitle], 10) || 1\<close>, from the default 1.
  \<open>None\<close>: \<open>parseInt\<close> threw.
\<close>

definition countFromObject :: "json \<Rightarrow> string \<Rightarrow> int option" where
  "countFromObject sizeCountObject title =
     (if truthy sizeCountObject \<and> title \<noteq> [] then
        (case getProp sizeCountObject title of
           Some v \<Rightarrow> if truthy v then map_option (\<lambda>x. num_or x 1) (parseInt v) else Some 1
         | None \<Rightarrow> Some 1)
      else Some 1)"

text \<open>
  The multiplier as the first three of them compute it: 1 without size count data, and 1
  when \<open>JSON.parse\<close> or \<open>parseInt\<close> throws (the \<open>catch\<close> only warns, and the assignment has
  not happened).
\<close>

definition countMultiplier :: "'n host \<Rightarrow> checkbox \<Rightarrow> int" where
  "countMultiplier h cb =
     (if present (additionalProductCountForVariant cb) then
        (case JSON_parse h (or_empty (additionalProductCountForVariant cb)) of
           Some sizeCountObject \<Rightarrow>
             (case countFromObject sizeCountObject (or_empty (currentVariantTitle cb)) of
                Some c \<Rightarrow> c
              | None \<Rightarrow> 1)
         | None \<Rightarrow> 1)
      else 1)"

text \<open>\<open>additionalProductPrice * countMultiplier\<close>\<close>

definition getCheckboxPrice :: "'n host \<Rightarrow> checkbox \<Rightarrow> 'n" where
  "getCheckboxPrice h cb =
     Number_mul h (parseFloat_or0 h (additionalProductPrice cb)) (Number_of h (countMultiplier h cb))"

definition updateCurrentVariantPrice_fallback :: "'n host \<Rightarrow> 'n state \<Rightarrow> 'n state" where
  "updateCurrentVariantPrice_fallback h s =
     (case patternProductCheckbox s of
        Some a \<Rightarrow> s\<lparr>currentVariantPrice := parseFloat_or0 h (mainProductPrice (elements s a))\<rparr>
      | None \<Rightarrow> s)"

text \<open>
  With a variant script: \<open>parseInt(variantData.price, 10) || 0\<close> when the data and its
  price are truthy; the fallback of the \<open>catch\<close> when \<open>JSON.parse\<close> or \<open>parseInt\<close> throws.
\<close>

definition updateCurrentVariantPrice :: "'n host \<Rightarrow> 'n state \<Rightarrow> 'n state" where
  "updateCurrentVariantPrice h s =
     (case variantScript s of
        Some text \<Rightarrow>
          (case JSON_parse h text of
             Some variantData \<Rightarrow>
               (if truthy variantData then
                  (case getProp variantData ''price'' of
                     Some p \<Rightarrow>
                       if truthy p then
                         (case parseInt p of
                            Some x \<Rightarrow> s\<lparr>currentVariantPrice := Number_of h (num_or x 0)\<rparr>
                          | None \<Rightarrow> updateCurrentVariantPrice_fallback h s)
                       else s
                   | None \<Rightarrow> s)
                else s)
           | None \<Rightarrow> updateCurrentVariantPrice_fallback h s)
      | None \<Rightarrow> updateCurrentVariantPrice_fallback h s)"

text \<open>
  The accumulation both \<open>recalculateTotalPrice\<close> and \<open>getCalculatedTotalPrice\<close> run:
  from 0, the pattern product's price if it is checked, then each checked needle's price
  in array order.
\<close>

definition addPrice :: "'n host \<Rightarrow> 'n state \<Rightarrow> 'n \<Rightarrow> nat \<Rightarrow> 'n" where
  "addPrice h s acc a =
     (if checked (elements s a) then Number_add h acc (getCheckboxPrice h (elements s a)) else acc)"

definition totalAdditionalPrice :: "'n host \<Rightarrow> 'n state \<Rightarrow> 'n" where
  "totalAdditionalPrice h s =
     (let t1 = (case patternProductCheckbox s of
                  Some a \<Rightarrow> addPrice h s (Number_of h 0) a
                | None \<Rightarrow> Number_of h 0)
      in case patternNeedleCheckboxes s of
           Some needles \<Rightarrow> if length needles > 0 then foldl (addPrice h s) t1 needles else t1
         | None \<Rightarrow> t1)"

text \<open>
  \<open>formatPrice\<close> hands the amount to \<open>Shopify.formatMoney\<close>, else to \<open>theme.formatMoney\<close>,
  else formats it itself; the three are one function of the host here.
\<close>

definition formatPrice :: "'n host \<Rightarrow> 'n \<Rightarrow> string" where
  "formatPrice h priceInCents = formatMoney h priceInCents"

definition updatePriceDisplay :: "'n host \<Rightarrow> 'n state \<Rightarrow> 'n \<Rightarrow> bool \<Rightarrow> 'n state" where
  "updatePriceDisplay h s totalPrice' isChecked' =
     (let formattedTotal = formatPrice h totalPrice'
      in if formattedTotal = [] then s
         else s\<lparr>priceElements :=
                  map (\<lambda>e. e\<lparr>pe_textContent := formattedTotal, pe_withPatternProduct := isChecked'\<rparr>)
                    (priceElements s)\<rparr>)"

definition recalculateTotalPrice :: "'n host \<Rightarrow> 'n state \<Rightarrow> 'n state" where
  "recalculateTotalPrice h s =
     (let s1 = updateCurrentVariantPrice h s;
          mainProductPrice' = currentVariantPrice s1;
          additional = totalAdditionalPrice h s1
      in updatePriceDisplay h s1 (Number_add h mainProductPrice' additional) (Number_gt0 h additional))"

definition getCalculatedTotalPrice :: "'n host \<Rightarrow> 'n state \<Rightarrow> 'n state \<times> 'n" where
  "getCalculatedTotalPrice h s =
     (let s1 = updateCurrentVariantPrice h s
      in (s1, Number_add h (currentVariantPrice s1) (totalAdditionalPrice h s1)))"

section \<open>Checkbox change handling\<close>

definition setCountSpan :: "'n state \<Rightarrow> nat \<Rightarrow> string \<Rightarrow> 'n state" where
  "setCountSpan s a txt =
     (case countSpan (elements s a) of
        Some old \<Rightarrow> s\<lparr>elements := (elements s)(a := (elements s a)\<lparr>countSpan := Some txt\<rparr>)\<rparr>
      | None \<Rightarrow> s)"

text \<open>
  Here the \<open>catch\<close> returns, so a map that does not parse, or an entry on which
  \<open>parseInt\<close> throws, leaves the count display alone. The span receives the count as a
  string, which is its decimal text for a count below \<open>10^21\<close> in magnitude.
\<close>

definition updateInitialCountForCheckbox :: "'n host \<Rightarrow> 'n state \<Rightarrow> nat \<Rightarrow> 'n state" where
  "updateInitialCountForCheckbox h s a =
     (let checkbox = elements s a
      in if \<not> present (additionalProductCountForVariant checkbox) then s
         else
           (case JSON_parse h (or_empty (additionalProductCountForVariant checkbox)) of
              Some sizeCountObject \<Rightarrow>
                (case countFromObject sizeCountObject (or_empty (currentVariantTitle checkbox)) of
                   Some countValue \<Rightarrow> setCountSpan s a (show_int countValue)
                 | None \<Rightarrow> s)
            | None \<Rightarrow> s))"

text \<open>The same event object is dispatched on the element and on the document.\<close>

definition dispatchPatternProductChangeEvent :: "'n state \<Rightarrow> 'n pattern_change \<Rightarrow> 'n state" where
  "dispatchPatternProductChangeEvent s d =
     s\<lparr>events := events s @ [(OnThis, PatternChange d), (OnDocument, PatternChange d)]\<rparr>"

fun remove_first :: "string \<Rightarrow> (string \<times> string) list \<Rightarrow> (string \<times> string) list" where
  "remove_first k [] = []"
| "remove_first k (p # ps) = (if fst p = k then ps else p # remove_first k ps)"

text \<open>
  The hidden input \<open>pattern_product_id\<close>: set the first control of that name, appending a
  new one when there is none, or remove the first control of that name.
\<close>

definition updateFormData :: "'n state \<Rightarrow> bool \<Rightarrow> string option \<Rightarrow> 'n state" where
  "updateFormData s isChecked' additionalProductId' =
     (case form s of
        None \<Rightarrow> s
      | Some f \<Rightarrow>
          if isChecked' \<and> present additionalProductId' then
            s\<lparr>form := Some (f\<lparr>inputs :=
                AList.update ''pattern_product_id'' (or_empty additionalProductId') (inputs f)\<rparr>)\<rparr>
          else
            s\<lparr>form := Some (f\<lparr>inputs := remove_first ''pattern_product_id'' (inputs f)\<rparr>)\<rparr>)"

text \<open>The listener of the pattern product and of every needle; \<open>a\<close> is \<open>event.target\<close>.\<close>

definition handlePatternProductChange :: "'n host \<Rightarrow> 'n state \<Rightarrow> nat \<Rightarrow> 'n state" where
  "handlePatternProductChange h s a =
     (let isChecked' = checked (elements s a);
          s1 = recalculateTotalPrice h s;
          s2 = updateInitialCountForCheckbox h s1 a;
          checkbox = elements s2 a;
          additionalProductPrice' = parseFloat_or0 h (additionalProductPrice checkbox);
          countMultiplier' = countMultiplier h checkbox;
          s3 = updateCurrentVariantPrice h s2;
          mainProductPrice' = currentVariantPrice s3;
          (s4, totalPrice') = getCalculatedTotalPrice h s3;
          s5 = dispatchPatternProductChangeEvent s4
                 \<lparr>isChecked = isChecked',
                  pc_mainProductPrice = mainProductPrice',
                  patternProductPrice = Number_mul h additionalProductPrice' (Number_of h countMultiplier'),
                  patternProductPriceBase = additionalProductPrice',
                  pc_countMultiplier = countMultiplier',
                  totalPrice = totalPrice',
                  patternProductId = additionalProductId checkbox,
                  formattedPrice = or_empty (additionalProductFormattedPrice checkbox),
                  pc_currentVariantTitle = or_empty (currentVariantTitle checkbox)\<rparr>
      in updateFormData s5 isChecked' (additionalProductId checkbox))"

definition handleGenericCheckboxChange :: "'n state \<Rightarrow> nat \<Rightarrow> 'n state" where
  "handleGenericCheckboxChange s a =
     (let checkbox = elements s a;
          name = (if cb_name checkbox \<noteq> [] then cb_name checkbox else cb_id checkbox);
          ev = CheckboxChange name (checked checkbox) (cb_value checkbox)
      in s\<lparr>events := events s @ [(OnThis, ev), (OnDocument, ev)]\<rparr>)"

text \<open>A \<open>change\<close> event on node \<open>a\<close>: the controller's listeners on it run in the order they were added.\<close>

definition runListener :: "'n host \<Rightarrow> nat \<Rightarrow> 'n state \<Rightarrow> listener \<Rightarrow> 'n state" where
  "runListener h a s l =
     (case l of PatternListener \<Rightarrow> handlePatternProductChange h s a
              | GenericListener \<Rightarrow> handleGenericCheckboxChange s a)"

definition dispatchChange :: "'n host \<Rightarrow> 'n state \<Rightarrow> nat \<Rightarrow> 'n state" where
  "dispatchChange h s a =
     foldl (runListener h a) s (map snd (filter (\<lambda>p. fst p = a) (listeners s)))"

section \<open>Set-up of the managed checkboxes and the state accessors\<close>

text \<open>\<open>init\<close> calls this only when it has found the pattern product checkbox.\<close>

definition setupPatternProductCheckbox :: "'n state \<Rightarrow> 'n state" where
  "setupPatternProductCheckbox s =
     (case patternProductCheckbox s of
        Some a \<Rightarrow>
          s\<lparr>listeners := listeners s @ [(a, PatternListener)],
            checkboxes := AList.update ''pattern_product'' a (checkboxes s)\<rparr>
      | None \<Rightarrow> s)"

definition setupNeedle :: "'n host \<Rightarrow> 'n state \<Rightarrow> nat \<Rightarrow> 'n state" where
  "setupNeedle h s a =
     (let s1 = s\<lparr>listeners := listeners s @ [(a, PatternListener)]\<rparr>;
          checkbox = elements s1 a;
          name = (if cb_id checkbox \<noteq> [] then cb_id checkbox
                  else if cb_name checkbox \<noteq> [] then cb_name checkbox
                  else ''pattern_needle_'' @ digits_of (length (checkboxes s1)));
          s2 = s1\<lparr>checkboxes := AList.update name a (checkboxes s1)\<rparr>
      in updateInitialCountForCheckbox h s2 a)"

definition setupPatternNeedleCheckboxes :: "'n host \<Rightarrow> 'n state \<Rightarrow> 'n state" where
  "setupPatternNeedleCheckboxes h s =
     (case patternNeedleCheckboxes s of
        Some needles \<Rightarrow> foldl (setupNeedle h) s needles
      | None \<Rightarrow> s)"

definition setupGenericCheckbox :: "'n state \<Rightarrow> nat \<Rightarrow> 'n state" where
  "setupGenericCheckbox s a =
     (let checkbox = elements s a
      in if cb_id checkbox = ''pattern_product'' \<or> cb_name checkbox = ''pattern_needles''
            \<or> cb_name checkbox = ''pattern_needles[]'' then s
         else
           (let name = (if cb_name checkbox \<noteq> [] then cb_name checkbox
                        else if cb_id checkbox \<noteq> [] then cb_id checkbox
                        else ''checkbox-'' @ digits_of (length (checkboxes s)))
            in s\<lparr>listeners := listeners s @ [(a, GenericListener)],
                 checkboxes := AList.update name a (checkboxes s)\<rparr>))"

definition setupGenericCheckboxListeners :: "'n state \<Rightarrow> 'n state" where
  "setupGenericCheckboxListeners s = foldl setupGenericCheckbox s (ownCheckboxes s)"

subsection \<open>init\<close>

text \<open>
  The \<open>product-form-checkboxes\<close> elements of the document as \<open>init\<close> queries them: for
  each, the element \<open>querySelector("#pattern_product")\<close> finds in it and the inputs
  \<open>querySelectorAll('input[name="pattern_needles"], input[name="pattern_needles[]"]')\<close>
  finds in it, in document order. \<open>thisContainer\<close> is the controller's own element, the
  others come before it or after it in the document.
\<close>

record container =
  c_patternProduct :: "nat option"
  c_needles :: "nat list"

record document =
  thisContainer :: container
  containersBefore :: "container list"
  containersAfter :: "container list"

text \<open>
  \<open>this.querySelector("#pattern_product")\<close>, else the first one found in the containers
  of the document.
\<close>

definition findPatternProduct :: "document \<Rightarrow> nat option" where
  "findPatternProduct d =
     (case c_patternProduct (thisContainer d) of
        Some a \<Rightarrow> Some a
      | None \<Rightarrow>
          (case List.map_filter c_patternProduct
                  (containersBefore d @ [thisContainer d] @ containersAfter d) of
             [] \<Rightarrow> None
           | a # rest \<Rightarrow> Some a))"

text \<open>
  The needle array: the controller's own needles first, then those of every container that
  is not the controller's own, in the order of the document; \<open>null\<close> when there is none.
\<close>

definition collectNeedleCheckboxes :: "document \<Rightarrow> nat list option" where
  "collectNeedleCheckboxes d =
     (let needleCheckboxes =
            foldl (\<lambda>acc c. acc @ c_needles c) (c_needles (thisContainer d))
              (containersBefore d @ containersAfter d)
      in if length needleCheckboxes > 0 then Some needleCheckboxes else None)"

text \<open>
  \<open>init\<close>, from the state the constructor and the document give. The submit listener that
  \<open>setupFormSubmit\<close> puts on the form found is \<open>submit\<close> below; the subscriptions of
  \<open>setupVariantPriceListener\<close> are not part of the model.
\<close>

definition init :: "'n host \<Rightarrow> document \<Rightarrow> 'n state \<Rightarrow> 'n state" where
  "init h d s =
     (let s1 = updateCurrentVariantPrice h s;
          s2 = s1\<lparr>patternProductCheckbox := findPatternProduct d\<rparr>;
          s3 = (case patternProductCheckbox s2 of
                  Some a \<Rightarrow> updateInitialCountForCheckbox h (setupPatternProductCheckbox s2) a
                | None \<Rightarrow> s2);
          s4 = s3\<lparr>patternNeedleCheckboxes := collectNeedleCheckboxes d\<rparr>;
          s5 = (case patternNeedleCheckboxes s4 of
                  Some needles \<Rightarrow> if length needles > 0 then setupPatternNeedleCheckboxes h s4 else s4
                | None \<Rightarrow> s4)
      in setupGenericCheckboxListeners s5)"

subsection \<open>The state accessors\<close>

text \<open>The selector \<open>#name, [name="name"]\<close> handed to \<open>this.querySelector\<close>.\<close>

definition selector :: "string \<Rightarrow> string" where
  \<open>selector name = ''#'' @ name @ '', [name="'' @ name @ ''"]''\<close>

text \<open>\<open>this.checkboxes.get(name) || this.querySelector(...)\<close>: the query runs only for an unbound name.\<close>

definition findCheckbox :: "'n host \<Rightarrow> 'n state \<Rightarrow> string \<Rightarrow> dom_error + nat option" where
  "findCheckbox h s name =
     (case map_of (checkboxes s) name of
        Some a \<Rightarrow> Inr (Some a)
      | None \<Rightarrow> this_querySelector h (selector name))"

text \<open>\<open>Inr None\<close> is the result \<open>null\<close>.\<close>

definition getCheckboxState :: "'n host \<Rightarrow> 'n state \<Rightarrow> string \<Rightarrow> dom_error + bool option" where
  "getCheckboxState h s name =
     (case findCheckbox h s name of
        Inl e \<Rightarrow> Inl e
      | Inr None \<Rightarrow> Inr None
      | Inr (Some a) \<Rightarrow> Inr (Some (checked (elements s a))))"

definition setChecked :: "'n state \<Rightarrow> nat \<Rightarrow> bool \<Rightarrow> 'n state" where
  "setChecked s a b = s\<lparr>elements := (elements s)(a := (elements s a)\<lparr>checked := b\<rparr>)\<rparr>"

definition setCheckboxState :: "'n host \<Rightarrow> 'n state \<Rightarrow> string \<Rightarrow> bool \<Rightarrow> dom_error + 'n state" where
  "setCheckboxState h s name b =
     (case findCheckbox h s name of
        Inl e \<Rightarrow> Inl e
      | Inr None \<Rightarrow> Inr s
      | Inr (Some a) \<Rightarrow> Inr (dispatchChange h (setChecked s a b) a))"

section \<open>Form submission\<close>

definition enableSubmitButton :: "button option \<Rightarrow> button option" where
  "enableSubmitButton submitButton' =
     map_option (\<lambda>b. b\<lparr>disabled := False, classList := removeAll ''loading'' (classList b)\<rparr>) submitButton'"

text \<open>\<open>enableSubmitButton\<close> on the submit control of the form the handler holds.\<close>

definition enableSubmit :: "'n state \<Rightarrow> 'n state" where
  "enableSubmit s = s\<lparr>form := map_option (\<lambda>f. f\<lparr>submitButton := enableSubmitButton (submitButton f)\<rparr>) (form s)\<rparr>"

definition add_class :: "string \<Rightarrow> string list \<Rightarrow> string list" where
  "add_class c cl = (if c \<in> set cl then cl else cl @ [c])"

definition handleAddToCartError :: "'n state \<Rightarrow> string \<Rightarrow> 'n state" where
  "handleAddToCartError s message =
     (let s1 =
        (case form s of
           Some f \<Rightarrow>
             (case errorContainer f of
                Some ec \<Rightarrow>
                  s\<lparr>form := Some (f\<lparr>errorContainer := Some
                       \<lparr>ec_textContent = (if message \<noteq> [] then message else ''Failed to add product to cart''),
                        ec_role = Some ''alert'',
                        ec_classList = removeAll ''hidden'' (ec_classList ec)\<rparr>\<rparr>)\<rparr>
              | None \<Rightarrow> s)
         | None \<Rightarrow> s)
      in s1\<lparr>events := events s1 @ [(OnDocument, CartAddError message)]\<rparr>)"

text \<open>\<open>null\<close> when the variant id attribute is missing, empty or reads as \<open>NaN\<close>.\<close>

definition buildPatternProductItem :: "'n host \<Rightarrow> checkbox \<Rightarrow> item option" where
  "buildPatternProductItem h checkbox =
     (let patternQuantity = countMultiplier h checkbox
      in if present (additionalProductVariantId checkbox) then
           (case parseInt10 (or_empty (additionalProductVariantId checkbox)) of
              Some variantId \<Rightarrow> Some \<lparr>item_id = Some variantId, quantity = patternQuantity\<rparr>
            | None \<Rightarrow> None)
         else None)"

text \<open>One round of the \<open>forEach\<close> over the needles: a needle whose item is \<open>null\<close> is skipped.\<close>

definition pushNeedle :: "'n host \<Rightarrow> 'n state \<Rightarrow> item list \<Rightarrow> nat \<Rightarrow> item list" where
  "pushNeedle h s items' a =
     (if checked (elements s a) then
        (case buildPatternProductItem h (elements s a) of
           Some it \<Rightarrow> items' @ [it]
         | None \<Rightarrow> items')
      else items')"

text \<open>
  \<open>!item.id || isNaN(item.id) || item.quantity <= 0\<close>. Whether a Number is \<open>NaN\<close>, is 0
  or is at most 0 is decided on the integer it was read from: the double nearest to an
  integer is 0 only for 0 and has the sign of the integer.
\<close>

definition invalidItem :: "item \<Rightarrow> bool" where
  "invalidItem it = ((case item_id it of Some n \<Rightarrow> n = 0 | None \<Rightarrow> True) \<or> quantity it \<le> 0)"

definition sectionsUrl :: "'n host \<Rightarrow> string option \<Rightarrow> string" where
  "sectionsUrl h sectionId =
     (if present sectionId
      then ''/cart?section_id=cart-drawer&section_id='' @ encodeURIComponent h (or_empty sectionId)
      else ''/cart?section_id=cart-drawer'')"

text \<open>
  The synchronous part of \<open>handleFormSubmit\<close>, for the form \<open>event.target\<close> the event
  fired on: the state and the event after it, and the request handed to \<open>fetch\<close> if it
  gets there. The listener sits on the form the controller found, so what the handler does
  to \<open>event.target\<close> it does to the form of the state.
\<close>

definition handleFormSubmit ::
    "'n host \<Rightarrow> 'n state \<Rightarrow> form \<Rightarrow> submit_event \<Rightarrow> 'n state \<times> submit_event \<times> request option" where
  "handleFormSubmit h s target' ev =
     (let hasPatternProduct =
            (case patternProductCheckbox s of Some a \<Rightarrow> checked (elements s a) | None \<Rightarrow> False);
          hasPatternNeedles =
            list_ex (\<lambda>a. checked (elements s a))
              (case patternNeedleCheckboxes s of Some needles \<Rightarrow> needles | None \<Rightarrow> [])
      in if \<not> hasPatternProduct \<and> \<not> hasPatternNeedles then (s, ev, None)
         else
           (let ev1 = ev\<lparr>defaultPrevented := True, propagationStopped := True,
                        immediatePropagationStopped := True\<rparr>;
                form1 = target'\<lparr>submitButton :=
                          map_option (\<lambda>b. b\<lparr>disabled := True, classList := add_class ''loading'' (classList b)\<rparr>)
                            (submitButton target')\<rparr>;
                s1 = s\<lparr>form := Some form1\<rparr>;
                sectionId = map_of (inputs form1) ''section-id''
            in case map_of (inputs form1) ''id'' of
                 None \<Rightarrow> (enableSubmit s1, ev1, None)
               | Some idValue \<Rightarrow>
                   (let variantId = parseInt10 idValue;
                        quantity' =
                          (case map_of (inputs form1) ''quantity'' of
                             Some q \<Rightarrow> num_or (parseInt10 q) 1
                           | None \<Rightarrow> 1);
                        items0 =
                          (case patternNeedleCheckboxes s1 of
                             Some needles \<Rightarrow>
                               if length needles > 0 then foldl (pushNeedle h s1) [] needles else []
                           | None \<Rightarrow> []);
                        patternItem =
                          (case patternProductCheckbox s1 of
                             Some a \<Rightarrow>
                               if checked (elements s1 a)
                               then Some (buildPatternProductItem h (elements s1 a)) else None
                           | None \<Rightarrow> None)
                    in case patternItem of
                         Some None \<Rightarrow>
                           (handleAddToCartError (enableSubmit s1)
                              ''Pattern product variant not available. Please try again.'', ev1, None)
                       | _ \<Rightarrow>
                           (let items1 = (case patternItem of Some (Some it) \<Rightarrow> items0 @ [it] | _ \<Rightarrow> items0);
                                items2 = items1 @ [\<lparr>item_id = variantId, quantity = quantity'\<rparr>]
                            in if length items2 = 0 then (enableSubmit s1, ev1, None)
                               else if length (filter invalidItem items2) > 0 then (enableSubmit s1, ev1, None)
                               else (s1, ev1,
                                     Some \<lparr>url = addToCartUrl (rootUrl h), items = items2,
                                           sections_url = sectionsUrl h sectionId\<rparr>)))))"

text \<open>
  How the request ends: \<open>fetch\<close> rejects, or a response arrives with its \<open>ok\<close> flag and a
  body that \<open>response.json()\<close> rejects (with a message) or parses.
\<close>

datatype fetch_outcome = NetworkError string | Response bool "string + json"

text \<open>\<open>data.description || data.message || data.error || "Failed to add to cart"\<close>, as a message.\<close>

definition truthyProp :: "json \<Rightarrow> string \<Rightarrow> json option" where
  "truthyProp data k = (case getProp data k of Some v \<Rightarrow> if truthy v then Some v else None | None \<Rightarrow> None)"

definition errorMessage :: "json \<Rightarrow> string option" where
  "errorMessage data =
     (case truthyProp data ''description'' of
        Some v \<Rightarrow> toString v
      | None \<Rightarrow>
          (case truthyProp data ''message'' of
             Some v \<Rightarrow> toString v
           | None \<Rightarrow>
               (case truthyProp data ''error'' of
                  Some v \<Rightarrow> toString v
                | None \<Rightarrow> Some ''Failed to add to cart'')))"

text \<open>
  The first \<open>then\<close>: the data, or the message of the error thrown. Reading a property of
  \<open>null\<close> throws a TypeError, whose message is the engine's (\<open>typeError_message\<close>); so
  does \<open>new Error(errorMessage)\<close> when the message has no string
  (\<open>toPrimitiveError_message\<close>).
\<close>

definition responseData :: "'n host \<Rightarrow> fetch_outcome \<Rightarrow> string + json" where
  "responseData h outcome =
     (case outcome of
        NetworkError m \<Rightarrow> Inl m
      | Response ok (Inl m) \<Rightarrow> Inl m
      | Response ok (Inr data) \<Rightarrow>
          if \<not> ok then
            (if data = JNull then Inl (typeError_message h)
             else (case errorMessage data of
                     Some m \<Rightarrow> Inl m
                   | None \<Rightarrow> Inl (toPrimitiveError_message h)))
          else Inr data)"

text \<open>
  \<open>handleAddToCartSuccess\<close>: the state after it, and the message of the error it throws
  if \<open>data\<close> is \<open>null\<close>. What it did before throwing stays done.
\<close>

definition handleAddToCartSuccess :: "'n host \<Rightarrow> 'n state \<Rightarrow> json \<Rightarrow> request \<Rightarrow> 'n state \<times> string option" where
  "handleAddToCartSuccess h s data formData =
     (let refreshed =
            (if cartElement_getCart h then (s\<lparr>events := events s @ [(OnDocument, GetCart)]\<rparr>, None)
             else
               (let s1 = s\<lparr>events := events s @ [(OnDocument, CartRefresh)]\<rparr>
                in if data = JNull then (s1, Some (typeError_message h))
                   else
                     (case truthyProp data ''sections'' of
                        Some sections \<Rightarrow>
                          (s1\<lparr>events := events s1 @ [(OnDocument, UpdateCartSections sections)]\<rparr>, None)
                      | None \<Rightarrow>
                          if sections_url formData \<noteq> []
                          then (s1\<lparr>events := events s1 @ [(OnDocument, FetchCartSections (sections_url formData))]\<rparr>, None)
                          else (s1, None))))
      in case refreshed of
           (s2, Some e) \<Rightarrow> (s2, Some e)
         | (s2, None) \<Rightarrow>
             if data = JNull then (s2, Some (typeError_message h))
             else
               (s2\<lparr>events := events s2 @
                     [(OnDocument, CartAdd (case truthyProp data ''items'' of Some v \<Rightarrow> v | None \<Rightarrow> JArr []) data)]\<rparr>,
                None))"

text \<open>The rest of the promise chain: \<open>then\<close>, \<open>catch\<close>, \<open>finally\<close>.\<close>

definition fetchSettled :: "'n host \<Rightarrow> 'n state \<Rightarrow> request \<Rightarrow> fetch_outcome \<Rightarrow> 'n state" where
  "fetchSettled h s formData outcome =
     (let (s1, thrown) =
            (case responseData h outcome of
               Inl e \<Rightarrow> (s, Some e)
             | Inr data \<Rightarrow> handleAddToCartSuccess h s data formData);
          s2 = (case thrown of Some e \<Rightarrow> handleAddToCartError s1 e | None \<Rightarrow> s1)
      in enableSubmit s2)"

text \<open>A submit event on the form, through to the end of the request when one is made.\<close>

definition submitFlow ::
    "'n host \<Rightarrow> 'n state \<Rightarrow> form \<Rightarrow> submit_event \<Rightarrow> fetch_outcome \<Rightarrow> 'n state \<times> submit_event" where
  "submitFlow h s target' ev outcome =
     (case handleFormSubmit h s target' ev of
        (s1, ev1, None) \<Rightarrow> (s1, ev1)
      | (s1, ev1, Some req) \<Rightarrow> (fetchSettled h s1 req outcome, ev1))"

section \<open>The claims' own notions\<close>

text \<open>
  Follows the claims' words: the add-on checkboxes are the pattern product and every pattern
  needle; the sum of a list of amounts, added up from 0 in the order of the list (Number
  addition need not be associative); the contribution of an add-on, its base price times
  its multiplier; the sum of the contributions over exactly the checked add-ons.
\<close>

definition addOns :: "'n state \<Rightarrow> nat list" where
  "addOns s =
     (case patternProductCheckbox s of Some a \<Rightarrow> [a] | None \<Rightarrow> []) @
     (case patternNeedleCheckboxes s of Some needles \<Rightarrow> needles | None \<Rightarrow> [])"

definition Number_sum :: "'n host \<Rightarrow> 'n list \<Rightarrow> 'n" where
  "Number_sum h xs = foldl (Number_add h) (Number_of h 0) xs"

definition contribution :: "'n host \<Rightarrow> checkbox \<Rightarrow> 'n" where
  "contribution h cb =
     Number_mul h (parseFloat_or0 h (additionalProductPrice cb)) (Number_of h (countMultiplier h cb))"

definition checkedAddOnsSum :: "'n host \<Rightarrow> 'n state \<Rightarrow> 'n" where
  "checkedAddOnsSum h s =
     Number_sum h
       (map (\<lambda>a. contribution h (elements s a))
          (filter (\<lambda>a. checked (elements s a)) (addOns s)))"

definition anyAddOnChecked :: "'n state \<Rightarrow> bool" where
  "anyAddOnChecked s = (\<exists>a \<in> set (addOns s). checked (elements s a))"

text \<open>The items of the checked needles, in the order of the array, where an item can be built.\<close>

definition checkedNeedleItems :: "'n host \<Rightarrow> 'n state \<Rightarrow> item list" where
  "checkedNeedleItems h s =
     List.map_filter (\<lambda>a. buildPatternProductItem h (elements s a))
       (filter (\<lambda>a. checked (elements s a))
          (case patternNeedleCheckboxes s of Some needles \<Rightarrow> needles | None \<Rightarrow> []))"

text \<open>
  The pattern product's item when its checkbox is checked and the item can be built; the
  main product's item as read from the form; and the order of the claims: needles, then
  the pattern product, then the main product.
\<close>

definition checkedPatternItems :: "'n host \<Rightarrow> 'n state \<Rightarrow> item list" where
  "checkedPatternItems h s =
     (case patternProductCheckbox s of
        Some a \<Rightarrow>
          if checked (elements s a)
          then (case buildPatternProductItem h (elements s a) of Some it \<Rightarrow> [it] | None \<Rightarrow> [])
          else []
      | None \<Rightarrow> [])"

definition mainProductItem :: "form \<Rightarrow> item" where
  "mainProductItem f =
     \<lparr>item_id = (case map_of (inputs f) ''id'' of Some v \<Rightarrow> parseInt10 v | None \<Rightarrow> None),
      quantity = (case map_of (inputs f) ''quantity'' of Some q \<Rightarrow> num_or (parseInt10 q) 1 | None \<Rightarrow> 1)\<rparr>"

definition orderedItems :: "'n host \<Rightarrow> 'n state \<Rightarrow> form \<Rightarrow> item list" where
  "orderedItems h s f = checkedNeedleItems h s @ checkedPatternItems h s @ [mainProductItem f]"

text \<open>
  A text begins with an integer: after white space and an optional sign comes a decimal
  digit. The checked pattern product has no usable variant id.
\<close>

definition startsWithInteger :: "string \<Rightarrow> bool" where
  "startsWithInteger v =
     (case dropWhile is_space v of
        [] \<Rightarrow> False
      | c # r \<Rightarrow>
          if c = CHR ''-'' \<or> c = CHR ''+'' then (case r of [] \<Rightarrow> False | d # r' \<Rightarrow> is_digit d)
          else is_digit c)"

definition patternItemMissing :: "'n host \<Rightarrow> 'n state \<Rightarrow> bool" where
  "patternItemMissing h s =
     (case patternProductCheckbox s of
        Some a \<Rightarrow> checked (elements s a) \<and> buildPatternProductItem h (elements s a) = None
      | None \<Rightarrow> False)"

text \<open>
  The integers the handlers read are safe integers, so that the engine's Numbers are these
  integers: the id and the quantity of the form; the variant id and the multiplier of an
  add-on; those of the form and of every add-on of the page; the price in the variant
  script and the multiplier of every add-on.
\<close>

definition safeForm :: "form \<Rightarrow> bool" where
  "safeForm f =
     ((case map_of (inputs f) ''id'' of Some v \<Rightarrow> safeNum (parseInt10 v) | None \<Rightarrow> True)
      \<and> (case map_of (inputs f) ''quantity'' of Some q \<Rightarrow> safeNum (parseInt10 q) | None \<Rightarrow> True))"

definition safeAddOn :: "'n host \<Rightarrow> checkbox \<Rightarrow> bool" where
  "safeAddOn h cb =
     (safeNum (parseInt10 (or_empty (additionalProductVariantId cb)))
      \<and> safeInteger (countMultiplier h cb))"

definition safeNumbers :: "'n host \<Rightarrow> 'n state \<Rightarrow> form \<Rightarrow> bool" where
  "safeNumbers h s f = (safeForm f \<and> list_all (\<lambda>a. safeAddOn h (elements s a)) (addOns s))"

definition safeVariantPrice :: "'n host \<Rightarrow> 'n state \<Rightarrow> bool" where
  "safeVariantPrice h s =
     (case variantScript s of
        Some text \<Rightarrow>
          (case JSON_parse h text of
             Some variantData \<Rightarrow>
               (case getProp variantData ''price'' of
                  Some p \<Rightarrow> (case parseInt p of Some x \<Rightarrow> safeNum x | None \<Rightarrow> True)
                | None \<Rightarrow> True)
           | None \<Rightarrow> True)
      | None \<Rightarrow> True)"

definition safeAmounts :: "'n host \<Rightarrow> 'n state \<Rightarrow> bool" where
  "safeAmounts h s =
     (safeVariantPrice h s
      \<and> list_all (\<lambda>a. safeInteger (countMultiplier h (elements s a))) (addOns s))"

text \<open>
  Follows the claim's words: the needle checkboxes in DOM order, for containers that do not
  nest.
\<close>

definition needlesInDomOrder :: "document \<Rightarrow> nat list" where
  "needlesInDomOrder d =
     concat (map c_needles (containersBefore d)) @ c_needles (thisContainer d)
       @ concat (map c_needles (containersAfter d))"

text \<open>A form while its submission is under way.\<close>

definition submitting :: "form \<Rightarrow> form" where
  "submitting f =
     f\<lparr>submitButton :=
         map_option (\<lambda>b. b\<lparr>disabled := True, classList := add_class ''loading'' (classList b)\<rparr>)
           (submitButton f)\<rparr>"

text \<open>A submit event the handler has taken over.\<close>

definition taken :: "submit_event \<Rightarrow> submit_event" where
  "taken ev = ev\<lparr>defaultPrevented := True, propagationStopped := True, immediatePropagationStopped := True\<rparr>"

text \<open>
  \<open>t\<close> differs from \<open>s\<close> at most in the count displays, the hidden field
  \<open>pattern_product_id\<close>, the submit control and error container, the cached variant price,
  the price display and the events dispatched.
\<close>

definition frame :: "'n state \<Rightarrow> 'n state \<Rightarrow> bool" where
  "frame s t \<longleftrightarrow>
     patternProductCheckbox t = patternProductCheckbox s
     \<and> patternNeedleCheckboxes t = patternNeedleCheckboxes s
     \<and> checkboxes t = checkboxes s
     \<and> listeners t = listeners s
     \<and> ownCheckboxes t = ownCheckboxes s
     \<and> variantScript t = variantScript s
     \<and> (\<forall>x. elements t x = (elements s x)\<lparr>countSpan := countSpan (elements t x)\<rparr>)
     \<and> rel_option (\<lambda>f g. \<forall>k. k \<noteq> ''pattern_product_id'' \<longrightarrow> map_of (inputs g) k = map_of (inputs f) k)
          (form s) (form t)"

text \<open>A click on checkbox \<open>a\<close> that leaves it checked or not, as \<open>b\<close> says.\<close>

definition toggle :: "'n host \<Rightarrow> 'n state \<Rightarrow> nat \<Rightarrow> bool \<Rightarrow> 'n state" where
  "toggle h s a b = dispatchChange h (setChecked s a b) a"

text \<open>The submit listener, which is on the form only when \<open>setupFormSubmit\<close> found one.\<close>

definition submit :: "'n host \<Rightarrow> 'n state \<Rightarrow> submit_event \<Rightarrow> 'n state \<times> submit_event \<times> request option" where
  "submit h s ev = (case form s of Some f \<Rightarrow> handleFormSubmit h s f ev | None \<Rightarrow> (s, ev, None))"

text \<open>
  Follows the claim's words: the root with a single trailing slash, then \<open>cart/add.js\<close>.
\<close>

definition single_slash_url :: "string \<Rightarrow> string" where
  "single_slash_url r = rev (dropWhile (\<lambda>c. c = CHR ''/'') (rev r)) @ ''/'' @ ''cart/add.js''"

section \<open>A concrete page for the examples\<close>

text \<open>
  The Numbers of the examples are the integers and \<open>NaN\<close> (\<open>None\<close>), with the arithmetic
  of the engine on them, which is exact as long as the integers are safe.
\<close>

definition num_add :: "num \<Rightarrow> num \<Rightarrow> num" where
  "num_add x y = (case x of Some a \<Rightarrow> (case y of Some b \<Rightarrow> Some (a + b) | None \<Rightarrow> None) | None \<Rightarrow> None)"

definition num_mul :: "num \<Rightarrow> num \<Rightarrow> num" where
  "num_mul x y = (case x of Some a \<Rightarrow> (case y of Some b \<Rightarrow> Some (a * b) | None \<Rightarrow> None) | None \<Rightarrow> None)"

definition num_positive :: "num \<Rightarrow> bool" where
  "num_positive x = (case x of Some a \<Rightarrow> a > 0 | None \<Rightarrow> False)"

text \<open>
  \<open>JSON.parse\<close> on the documents the examples use; any other text, such as \<open>{bad json\<close>,
  stands for a document that does not parse.
\<close>

definition example_JSON_parse :: "string \<Rightarrow> json option" where
  \<open>example_JSON_parse doc =
     map_of
       [(''{"Large": 2}'', JObj [(''Large'', JNum ''2'')]),
        (''{"Large": -3}'', JObj [(''Large'', JNum ''-3'')]),
        (''{"Large": 1e21}'', JObj [(''Large'', JNum ''1e+21'')]),
        (''{"title": "Large", "price": 5000}'', JObj [(''title'', JStr ''Large''), (''price'', JNum ''5000'')])]
       doc\<close>

text \<open>
  \<open>this.querySelector\<close> on the example page, where no element outside the checkbox map
  matches a selector: \<open>null\<close>, but a selector that begins with \<open>#\<close> and a digit is not a
  valid selector (an identifier does not begin with a digit), and the query throws.
\<close>

definition example_querySelector :: "string \<Rightarrow> dom_error + nat option" where
  "example_querySelector sel =
     (case sel of
        c1 # c2 # rest \<Rightarrow> if c1 = CHR ''#'' \<and> is_digit c2 then Inl SyntaxError else Inr None
      | _ \<Rightarrow> Inr None)"

text \<open>
  The host of the examples. On the decimal integers of the examples \<open>parseFloat\<close> reads
  what \<open>parseInt\<close> reads.
\<close>

definition example_host :: "num host" where
  "example_host =
     \<lparr>Number_of = Some,
      Number_add = num_add,
      Number_mul = num_mul,
      Number_gt0 = num_positive,
      JSON_parse = example_JSON_parse,
      parseFloat = parseInt10,
      formatMoney = (\<lambda>p. case p of Some n \<Rightarrow> show_int n | None \<Rightarrow> ''NaN''),
      encodeURIComponent = (\<lambda>x. x),
      this_querySelector = example_querySelector,
      routes_root = None,
      routes_shop_url = None,
      cartElement_getCart = False,
      typeError_message = ''Cannot read properties of null'',
      toPrimitiveError_message = ''Cannot convert object to primitive value''\<rparr>"

definition blank_checkbox :: checkbox where
  "blank_checkbox =
     \<lparr>cb_id = [], cb_name = [], cb_value = ''on'', checked = False,
      additionalProductPrice = None, additionalProductId = None,
      additionalProductVariantId = None, additionalProductFormattedPrice = None,
      additionalProductCountForVariant = None, currentVariantTitle = None,
      mainProductPrice = None, countSpan = None\<rparr>"

text \<open>A checked pattern product at 1200 with the map \<open>{"Large": 2}\<close> and the title Large.\<close>

definition pattern_large :: checkbox where
  \<open>pattern_large =
     blank_checkbox
       \<lparr>cb_id := ''pattern_product'', checked := True,
        additionalProductPrice := Some ''1200'', additionalProductId := Some ''501'',
        additionalProductVariantId := Some ''77'',
        additionalProductCountForVariant := Some ''{"Large": 2}'',
        currentVariantTitle := Some ''Large''\<rparr>\<close>

text \<open>The same checkbox with the map \<open>{"Large": -3}\<close>.\<close>

definition pattern_negative :: checkbox where
  \<open>pattern_negative = pattern_large\<lparr>additionalProductCountForVariant := Some ''{"Large": -3}''\<rparr>\<close>

text \<open>The same checkbox with the map \<open>{"Large": 1e21}\<close>.\<close>

definition pattern_exponent :: checkbox where
  \<open>pattern_exponent = pattern_large\<lparr>additionalProductCountForVariant := Some ''{"Large": 1e21}''\<rparr>\<close>

text \<open>The same checkbox with the map \<open>{bad json\<close>.\<close>

definition pattern_malformed :: checkbox where
  "pattern_malformed = pattern_large\<lparr>additionalProductCountForVariant := Some ''{bad json''\<rparr>"

text \<open>A needle with catalogue variant id \<open>v\<close> (its text), product id \<open>p\<close> and price 300.\<close>

definition needle :: "string \<Rightarrow> string \<Rightarrow> string option \<Rightarrow> bool \<Rightarrow> checkbox" where
  "needle i p v c =
     blank_checkbox
       \<lparr>cb_id := i, cb_name := ''pattern_needles[]'', checked := c,
        additionalProductPrice := Some ''300'', additionalProductId := Some p,
        additionalProductVariantId := v\<rparr>"

definition example_form :: form where
  "example_form =
     \<lparr>inputs = [(''id'', ''99''), (''quantity'', ''1''), (''section-id'', ''main'')],
      submitButton = Some \<lparr>disabled = False, classList = [''button'']\<rparr>,
      errorContainer = Some \<lparr>ec_textContent = [], ec_role = None, ec_classList = [''hidden'']\<rparr>\<rparr>"

text \<open>
  The pattern product at node 10 and two needles (variant ids 11 and 22) at nodes 11 and 12,
  with the listeners and the map as the set-up functions leave them; the selected variant
  costs 5000.
\<close>

definition example_state :: "checkbox \<Rightarrow> checkbox \<Rightarrow> checkbox \<Rightarrow> num state" where
  \<open>example_state c0 c1 c2 =
     \<lparr>elements = (\<lambda>_. blank_checkbox)(10 := c0, 11 := c1, 12 := c2),
      ownCheckboxes = [10, 11, 12],
      checkboxes = [(''pattern_product'', 10), (''needle_a'', 11), (''needle_b'', 12)],
      patternProductCheckbox = Some 10,
      patternNeedleCheckboxes = Some [11, 12],
      currentVariantPrice = Some 0,
      listeners = [(10, PatternListener), (11, PatternListener), (12, PatternListener)],
      form = Some example_form,
      variantScript = Some ''{"title": "Large", "price": 5000}'',
      priceElements = [\<lparr>pe_textContent = ''5000'', pe_withPatternProduct = False\<rparr>],
      events = []\<rparr>\<close>


definition fresh_event :: submit_event where
  "fresh_event = \<lparr>defaultPrevented = False, propagationStopped = False, immediatePropagationStopped = False\<rparr>"

text \<open>The example page with the pattern product and the first needle checked.\<close>

definition example_page :: "num state" where
  "example_page =
     example_state pattern_large
       (needle ''needle_a'' ''601'' (Some ''11'') True)
       (needle ''needle_b'' ''602'' (Some ''22'') False)"

text \<open>
  The second scenario of the specification: both needles checked, the pattern product not.
\<close>

definition needles_only_page :: "num state" where
  "needles_only_page =
     example_state (pattern_large\<lparr>checked := False\<rparr>)
       (needle ''needle_a'' ''601'' (Some ''11'') True)
       (needle ''needle_b'' ''602'' (Some ''22'') True)"

text \<open>The first needle is checked and has no variant id attribute.\<close>

definition missing_needle_page :: "num state" where
  "missing_needle_page =
     example_state pattern_large
       (needle ''needle_a'' ''601'' None True)
       (needle ''needle_b'' ''602'' (Some ''22'') True)"

text \<open>The pattern product is checked and has no variant id attribute.\<close>

definition missing_pattern_page :: "num state" where
  "missing_pattern_page =
     example_state (pattern_large\<lparr>additionalProductVariantId := None\<rparr>)
       (needle ''needle_a'' ''601'' (Some ''11'') True)
       (needle ''needle_b'' ''602'' (Some ''22'') False)"

text \<open>The pattern product is checked and its variant id attribute is \<open>42px\<close>.\<close>

definition suffixed_pattern_page :: "num state" where
  "suffixed_pattern_page =
     example_state (pattern_large\<lparr>additionalProductVariantId := Some ''42px''\<rparr>)
       (needle ''needle_a'' ''601'' (Some ''11'') True)
       (needle ''needle_b'' ''602'' (Some ''22'') False)"

text \<open>
  A document with two containers: the first holds the needle at node 11, the second, which
  is the controller's own, the pattern product and the needle at node 12. The page as the
  constructor leaves it, with both needles checked and the pattern product not, and as
  \<open>init\<close> then sets it up.
\<close>

definition two_containers :: document where
  "two_containers =
     \<lparr>thisContainer = \<lparr>c_patternProduct = Some 10, c_needles = [12]\<rparr>,
      containersBefore = [\<lparr>c_patternProduct = None, c_needles = [11]\<rparr>],
      containersAfter = []\<rparr>"

definition constructed_page :: "num state" where
  "constructed_page =
     needles_only_page
       \<lparr>patternProductCheckbox := None, patternNeedleCheckboxes := None, checkboxes := [],
        listeners := [], ownCheckboxes := [10, 12]\<rparr>"

definition second_container_page :: "num state" where
  "second_container_page =
     needles_only_page
       \<lparr>currentVariantPrice := Some 5000,
        patternNeedleCheckboxes := Some [12, 11],
        checkboxes := [(''pattern_product'', 10), (''needle_b'', 12), (''needle_a'', 11)],
        listeners := [(10, PatternListener), (12, PatternListener), (11, PatternListener)],
        ownCheckboxes := [10, 12]\<rparr>"

text \<open>The pattern product is checked and its map gives the multiplier \<open>-3\<close>.\<close>

definition negative_multiplier_page :: "num state" where
  "negative_multiplier_page =
     example_state pattern_negative
       (needle ''needle_a'' ''601'' (Some ''11'') True)
       (needle ''needle_b'' ''602'' (Some ''22'') False)"

text \<open>
  The example form without its quantity field, without its id field, and with the quantity
  \<open>-2\<close>.
\<close>

definition no_quantity_form :: form where
  "no_quantity_form = example_form\<lparr>inputs := [(''id'', ''99''), (''section-id'', ''main'')]\<rparr>"

definition no_id_form :: form where
  "no_id_form = example_form\<lparr>inputs := [(''quantity'', ''1''), (''section-id'', ''main'')]\<rparr>"

definition negative_quantity_form :: form where
  "negative_quantity_form =
     example_form\<lparr>inputs := [(''id'', ''99''), (''quantity'', ''-2''), (''section-id'', ''main'')]\<rparr>"

text \<open>Nothing is checked.\<close>

definition unchecked_page :: "num state" where
  "unchecked_page =
     example_state (pattern_large\<lparr>checked := False\<rparr>)
       (needle ''needle_a'' ''601'' (Some ''11'') False)
       (needle ''needle_b'' ''602'' (Some ''22'') False)"

text \<open>The request of the example pages, but for its items.\<close>

definition example_request :: "item list \<Rightarrow> request" where
  "example_request its =
     \<lparr>url = ''/cart/add.js'', items = its,
      sections_url = ''/cart?section_id=cart-drawer&section_id=main''\<rparr>"

section \<open>Facts about the built-ins\<close>

lemma of_char_digit_char: "n < 10 \<Longrightarrow> (of_char (digit_char n) :: nat) = 48 + n"
  by (simp add: digit_char_def)

lemma is_digit_digit_char: "n < 10 \<Longrightarrow> is_digit (digit_char n)"
  by (simp add: is_digit_def of_char_digit_char)

lemma digit_val_digit_char: "n < 10 \<Longrightarrow> digit_val (digit_char n) = n"
  by (simp add: digit_val_def of_char_digit_char)

lemma digits_of_all_digits: "\<forall>c \<in> set (digits_of n). is_digit c"
proof (induction n rule: digits_of.induct)
  case (1 n)
  show ?case
  proof (cases "n < 10")
    case True
    then show ?thesis by (subst digits_of.simps) (simp add: is_digit_digit_char)
  next
    case False
    with 1 show ?thesis by (subst digits_of.simps) (simp add: is_digit_digit_char)
  qed
qed

lemma digits_of_nonempty: "digits_of n \<noteq> []"
  by (subst digits_of.simps) simp

lemma digits_value_snoc: "digits_value (ds @ [c]) = 10 * digits_value ds + digit_val c"
  by (simp add: digits_value_def)

lemma digits_value_digits_of: "digits_value (digits_of n) = n"
proof (induction n rule: digits_of.induct)
  case (1 n)
  show ?case
  proof (cases "n < 10")
    case True
    then show ?thesis
      by (subst digits_of.simps) (simp add: digits_value_def digit_val_digit_char)
  next
    case False
    with 1 show ?thesis
      by (subst digits_of.simps) (simp add: digits_value_snoc digit_val_digit_char)
  qed
qed

lemma parse_digits_digits_of: "parse_digits (digits_of n) = Some n"
proof -
  have tw: "takeWhile is_digit (digits_of n) = digits_of n"
    by (rule takeWhile_eq_all_conv [THEN iffD2]) (rule digits_of_all_digits)
  show ?thesis
    unfolding parse_digits_def Let_def tw
    by (simp add: digits_of_nonempty digits_value_digits_of)
qed

lemma is_digit_not_space: "is_digit c \<Longrightarrow> \<not> is_space c"
  by (auto simp: is_digit_def is_space_def)

lemma is_digit_not_sign: "is_digit c \<Longrightarrow> c \<noteq> CHR ''-'' \<and> c \<noteq> CHR ''+''"
  by (auto simp: is_digit_def)

lemma parseInt10_digits_of: "parseInt10 (digits_of n) = Some (int n)"
proof -
  obtain c r where cr: "digits_of n = c # r"
    using digits_of_nonempty by (cases "digits_of n") auto
  have d: "is_digit c" using digits_of_all_digits [of n] cr by simp
  have "parse_digits (c # r) = Some n" using parse_digits_digits_of [of n] cr by simp
  then show ?thesis
    using is_digit_not_space [OF d] is_digit_not_sign [OF d] cr
    by (simp add: parseInt10_def)
qed

text \<open>Reading back the decimal text of an integer gives the integer.\<close>

lemma parseInt10_show_int: "parseInt10 (show_int i) = Some i"
proof (cases "i < 0")
  case True
  have "\<not> is_space CHR ''-''" by (simp add: is_space_def)
  then show ?thesis using True
    by (simp add: show_int_def parseInt10_def parse_digits_digits_of)
next
  case False
  then show ?thesis by (simp add: show_int_def parseInt10_digits_of)
qed

lemma parseInt_JNum: "parseInt (JNum t) = Some (parseInt10 t)"
  by (simp add: parseInt_def)

text \<open>A safe integer is written in plain decimal, and reads back as itself.\<close>

lemma parseInt_JNum_show_int: "parseInt (JNum (show_int n)) = Some (Some n)"
  by (simp add: parseInt_def parseInt10_show_int)

lemma num_or_nonzero: "d \<noteq> 0 \<Longrightarrow> num_or x d \<noteq> 0"
  by (simp add: num_or_def split: option.splits)

section \<open>The cart-add URL: facts\<close>

lemma endsWith_slash: "endsWith r ''/'' \<longleftrightarrow> r \<noteq> [] \<and> last r = CHR ''/''"
proof (cases r rule: rev_cases)
  case Nil
  then show ?thesis by (simp add: endsWith_def)
next
  case (snoc ys y)
  then show ?thesis by (auto simp: endsWith_def)
qed

lemma endsWith_two_slashes:
  "endsWith r ''//'' \<longleftrightarrow> (\<exists>ys. r = ys @ ''//'')"
proof
  assume "endsWith r ''//''"
  then have "r = take (length r - 2) r @ ''//''"
    by (metis append_take_drop_id endsWith_def length_Cons list.size(3) numeral_2_eq_2)
  then show "\<exists>ys. r = ys @ ''//''" by blast
next
  assume "\<exists>ys. r = ys @ ''//''"
  then show "endsWith r ''//''" by (auto simp: endsWith_def)
qed

lemma normalizedRoot_endsWith: "endsWith (normalizedRoot r) ''/''"
  by (simp add: normalizedRoot_def endsWith_slash)

lemma normalizedRoot_idem: "normalizedRoot (normalizedRoot r) = normalizedRoot r"
  using normalizedRoot_endsWith [of r] by (simp add: normalizedRoot_def [of "normalizedRoot r"])

lemma normalizedRoot_double:
  "endsWith (normalizedRoot r) ''//'' \<longleftrightarrow> endsWith r ''//''"
proof (cases "endsWith r ''/''")
  case True
  then show ?thesis by (simp add: normalizedRoot_def)
next
  case False
  then have n: "normalizedRoot r = r @ ''/''" by (simp add: normalizedRoot_def)
  have "\<not> endsWith r ''//''"
    using False by (auto simp: endsWith_two_slashes endsWith_slash)
  moreover have "\<not> endsWith (r @ ''/'') ''//''"
  proof
    assume "endsWith (r @ ''/'') ''//''"
    then obtain ys where "r @ ''/'' = ys @ ''//''" by (auto simp: endsWith_two_slashes)
    then have "r = ys @ ''/''" by simp
    with False show False by (simp add: endsWith_slash)
  qed
  ultimately show ?thesis by (simp add: n)
qed

lemma single_slash_url_eq:
  assumes "\<not> endsWith r ''//''"
  shows "addToCartUrl r = single_slash_url r"
proof (cases "endsWith r ''/''")
  case True
  then obtain ys where r: "r = ys @ ''/''"
    by (metis append_butlast_last_id endsWith_slash)
  have "ys = [] \<or> last ys \<noteq> CHR ''/''"
  proof (rule ccontr)
    assume "\<not> (ys = [] \<or> last ys \<noteq> CHR ''/'')"
    then have "ys = butlast ys @ ''/''" by (metis append_butlast_last_id)
    then have "r = butlast ys @ ''//''" using r by (metis append.assoc append_Cons append_Nil)
    with assms show False by (auto simp: endsWith_two_slashes)
  qed
  then have "dropWhile (\<lambda>c. c = CHR ''/'') (rev ys) = rev ys"
    by (cases ys rule: rev_cases) auto
  then show ?thesis using True r
    by (simp add: addToCartUrl_def normalizedRoot_def single_slash_url_def)
next
  case False
  then have "r = [] \<or> last r \<noteq> CHR ''/''" by (simp add: endsWith_slash)
  then have "dropWhile (\<lambda>c. c = CHR ''/'') (rev r) = rev r"
    by (cases r rule: rev_cases) auto
  then show ?thesis using False
    by (simp add: addToCartUrl_def normalizedRoot_def single_slash_url_def)
qed

lemma rootUrl_nonempty: "rootUrl h \<noteq> []"
  by (simp add: rootUrl_def split: option.splits)

section \<open>The quantity multiplier\<close>

lemma parseInt_falsy_words:
  "parseInt JNull = Some None" "parseInt (JBool False) = Some None" "parseInt (JStr []) = Some None"
  "parseInt (JNum ''0'') = Some (Some 0)"
  by (simp_all add: parseInt_def parseInt10_def parse_digits_def is_space_def is_digit_def
      digits_value_def digit_val_def)

text \<open>An entry that is falsy is not read; reading it would give the default as well.\<close>

lemma falsy_parse_default:
  "\<not> truthy v \<Longrightarrow> (case parseInt v of Some x \<Rightarrow> num_or x 1 | None \<Rightarrow> 1) = 1"
  by (cases v) (simp_all add: num_or_def parseInt_falsy_words)

lemma countFromObject_nonzero: "countFromObject obj t \<noteq> Some 0"
  by (auto simp: countFromObject_def num_or_def split: option.splits if_splits)

lemma countFromObject_own_key:
  assumes "t \<noteq> []" and "map_of kvs t = Some v"
  shows "(case countFromObject (JObj kvs) t of Some c \<Rightarrow> c | None \<Rightarrow> 1) =
           (case parseInt v of Some x \<Rightarrow> num_or x 1 | None \<Rightarrow> 1)"
proof (cases "truthy v")
  case True
  then show ?thesis using assms by (simp add: countFromObject_def split: option.splits)
next
  case False
  then show ?thesis using assms falsy_parse_default [OF False] by (simp add: countFromObject_def)
qed

lemma countMultiplier_nonzero: "countMultiplier h cb \<noteq> 0"
  using countFromObject_nonzero
  by (auto simp: countMultiplier_def split: option.splits)

lemma countMultiplier_entry:
  assumes "present (additionalProductCountForVariant cb)"
    and "JSON_parse h (or_empty (additionalProductCountForVariant cb)) = Some (JObj kvs)"
    and "or_empty (currentVariantTitle cb) \<noteq> []"
    and "map_of kvs (or_empty (currentVariantTitle cb)) = Some v"
  shows "countMultiplier h cb = (case parseInt v of Some x \<Rightarrow> num_or x 1 | None \<Rightarrow> 1)"
  using assms countFromObject_own_key [OF assms(3,4)]
  by (simp add: countMultiplier_def)

lemma example_parse_large: \<open>example_JSON_parse ''{"Large": 2}'' = Some (JObj [(''Large'', JNum ''2'')])\<close>
  by (simp add: example_JSON_parse_def)

lemma example_parse_negative: \<open>example_JSON_parse ''{"Large": -3}'' = Some (JObj [(''Large'', JNum ''-3'')])\<close>
  by (simp add: example_JSON_parse_def)

lemma example_parse_exponent: \<open>example_JSON_parse ''{"Large": 1e21}'' = Some (JObj [(''Large'', JNum ''1e+21'')])\<close>
  by (simp add: example_JSON_parse_def)

lemma example_parse_bad: \<open>example_JSON_parse ''{bad json'' = None\<close>
  by (simp add: example_JSON_parse_def)

lemmas parseInt10_eval =
  parseInt10_def parse_digits_def is_space_def is_digit_def digits_value_def digit_val_def

lemma parseInt_examples:
  "parseInt (JNum ''2'') = Some (Some 2)" "parseInt (JNum ''-3'') = Some (Some (- 3))"
  "parseInt (JNum ''1e+21'') = Some (Some 1)" "parseInt (JNum ''5000'') = Some (Some 5000)"
  by (simp_all add: parseInt_def parseInt10_eval)


lemma countMultiplier_negative: "countMultiplier example_host pattern_negative = - 3"
  by (simp add: countMultiplier_def example_host_def pattern_negative_def pattern_large_def
      blank_checkbox_def present_def or_empty_def example_parse_negative countFromObject_def
      parseInt_examples num_or_def)

lemma countMultiplier_exponent: "countMultiplier example_host pattern_exponent = 1"
  by (simp add: countMultiplier_def example_host_def pattern_exponent_def pattern_large_def
      blank_checkbox_def present_def or_empty_def example_parse_exponent countFromObject_def
      parseInt_examples num_or_def)

section \<open>The cart-add URL: the claim\<close>

text \<open>
  C10, as amended. The request URL is the configured root (\<open>/\<close> when none is configured),
  with one slash appended exactly when the root does not end in one, followed by
  \<open>cart/add.js\<close>. The normalised root ends in a slash, normalising is idempotent and adds
  no double slash: the result ends in \<open>//\<close> only if the root did. For every root that
  does not itself end in \<open>//\<close> the URL is the root with a single trailing slash followed
  by \<open>cart/add.js\<close>.
\<close>

theorem cart_add_url:
  "url_of = addToCartUrl (rootUrl h) \<longrightarrow>
     url_of = normalizedRoot (rootUrl h) @ ''cart/add.js''
     \<and> rootUrl h \<noteq> []
     \<and> (routes_root h = None \<and> routes_shop_url h = None \<longrightarrow> url_of = ''/cart/add.js'')
     \<and> normalizedRoot r = (if endsWith r ''/'' then r else r @ ''/'')
     \<and> endsWith (normalizedRoot r) ''/''
     \<and> normalizedRoot (normalizedRoot r) = normalizedRoot r
     \<and> (endsWith (normalizedRoot r) ''//'' \<longleftrightarrow> endsWith r ''//'')
     \<and> (\<not> endsWith r ''//'' \<longrightarrow> addToCartUrl r = single_slash_url r)"
proof (intro impI conjI)
  assume u: "url_of = addToCartUrl (rootUrl h)"
  then show "url_of = normalizedRoot (rootUrl h) @ ''cart/add.js''" by (simp add: addToCartUrl_def)
  show "rootUrl h \<noteq> []" by (rule rootUrl_nonempty)
  show "normalizedRoot r = (if endsWith r ''/'' then r else r @ ''/'')" by (simp add: normalizedRoot_def)
  show "endsWith (normalizedRoot r) ''/''" by (rule normalizedRoot_endsWith)
  show "normalizedRoot (normalizedRoot r) = normalizedRoot r" by (rule normalizedRoot_idem)
  show "endsWith (normalizedRoot r) ''//'' \<longleftrightarrow> endsWith r ''//''" by (rule normalizedRoot_double)
  {
    assume "routes_root h = None \<and> routes_shop_url h = None"
    then show "url_of = ''/cart/add.js''"
      using u by (simp add: rootUrl_def addToCartUrl_def normalizedRoot_def endsWith_def)
  }
  {
    assume "\<not> endsWith r ''//''"
    then show "addToCartUrl r = single_slash_url r" by (rule single_slash_url_eq)
  }
qed

text \<open>
  C10 as stated fails for a root that ends in two slashes: it is kept as it is, and the URL
  has a double slash between root and path.
\<close>

theorem cart_add_url_counterexample:
  "addToCartUrl ''shop//'' = ''shop//cart/add.js'' \<and> addToCartUrl ''shop//'' \<noteq> single_slash_url ''shop//''"
  by (simp add: addToCartUrl_def normalizedRoot_def endsWith_def single_slash_url_def)

theorem cart_add_url_witness:
  "addToCartUrl (rootUrl example_host) = ''/cart/add.js''
   \<and> \<not> endsWith ''/en'' ''//''
   \<and> addToCartUrl ''/en'' = ''/en/cart/add.js''
   \<and> single_slash_url ''/en'' = ''/en/cart/add.js''
   \<and> routes_root example_host = None \<and> routes_shop_url example_host = None"
proof -
  have e: "\<not> endsWith ''/en'' ''//''" by (simp add: endsWith_def)
  have s: "single_slash_url ''/en'' = ''/en/cart/add.js''" by (simp add: single_slash_url_def)
  have r: "routes_root example_host = None \<and> routes_shop_url example_host = None"
    by (simp add: example_host_def)
  have d: "addToCartUrl (rootUrl example_host) = ''/cart/add.js''"
    using cart_add_url [of "addToCartUrl (rootUrl example_host)" example_host "''/en''"] r by blast
  have u: "addToCartUrl ''/en'' = single_slash_url ''/en''"
    using cart_add_url [of "addToCartUrl (rootUrl example_host)" example_host "''/en''"] e by blast
  show ?thesis
    using d u e s r by simp
qed

section \<open>Prices\<close>

text \<open>The loop over the needles adds the prices of the checked ones, in order, to what it starts from.\<close>

lemma addPrice_checked:
  "checked (elements s a) \<Longrightarrow> addPrice h s acc a = Number_add h acc (getCheckboxPrice h (elements s a))"
  by (simp add: addPrice_def)

lemma addPrice_unchecked: "\<not> checked (elements s a) \<Longrightarrow> addPrice h s acc a = acc"
  by (simp add: addPrice_def)

lemma foldl_addPrice:
  "foldl (addPrice h s) acc xs =
     foldl (Number_add h) acc
       (map (\<lambda>a. getCheckboxPrice h (elements s a)) (filter (\<lambda>a. checked (elements s a)) xs))"
proof (induction xs arbitrary: acc)
  case Nil
  then show ?case by simp
next
  case (Cons x xs)
  show ?case
  proof (cases "checked (elements s x)")
    case True
    then show ?thesis by (simp add: Cons.IH addPrice_checked)
  next
    case False
    then show ?thesis by (simp add: Cons.IH addPrice_unchecked)
  qed
qed

lemma totalAdditionalPrice_sum:
  "totalAdditionalPrice h s =
     Number_sum h (map (\<lambda>a. getCheckboxPrice h (elements s a))
                     (filter (\<lambda>a. checked (elements s a)) (addOns s)))"
proof -
  have pp: "(case patternProductCheckbox s of
               Some a \<Rightarrow> addPrice h s (Number_of h 0) a
             | None \<Rightarrow> Number_of h 0) =
      foldl (Number_add h) (Number_of h 0)
        (map (\<lambda>a. getCheckboxPrice h (elements s a))
          (filter (\<lambda>a. checked (elements s a))
             (case patternProductCheckbox s of Some a \<Rightarrow> [a] | None \<Rightarrow> [])))"
    by (simp add: addPrice_def split: option.splits)
  show ?thesis
  proof (cases "patternNeedleCheckboxes s")
    case None
    then show ?thesis by (simp add: totalAdditionalPrice_def addOns_def Number_sum_def pp)
  next
    case (Some needles)
    then show ?thesis
      by (cases "needles = []")
         (simp_all add: totalAdditionalPrice_def addOns_def Number_sum_def pp foldl_addPrice)
  qed
qed

lemma totalAdditionalPrice_checkedAddOnsSum: "totalAdditionalPrice h s = checkedAddOnsSum h s"
  by (simp add: totalAdditionalPrice_sum checkedAddOnsSum_def getCheckboxPrice_def contribution_def)

text \<open>Reading the variant price changes nothing but the cached price.\<close>

lemma updateCurrentVariantPrice_fallback_frame:
  "updateCurrentVariantPrice_fallback h s =
     s\<lparr>currentVariantPrice := currentVariantPrice (updateCurrentVariantPrice_fallback h s)\<rparr>"
  by (simp add: updateCurrentVariantPrice_fallback_def split: option.splits)

lemma updateCurrentVariantPrice_frame:
  "updateCurrentVariantPrice h s =
     s\<lparr>currentVariantPrice := currentVariantPrice (updateCurrentVariantPrice h s)\<rparr>"
  using updateCurrentVariantPrice_fallback_frame [of h s]
  by (simp add: updateCurrentVariantPrice_def split: option.splits)

lemma checkedAddOnsSum_price_update [simp]:
  "checkedAddOnsSum h (s\<lparr>currentVariantPrice := p\<rparr>) = checkedAddOnsSum h s"
  by (simp add: checkedAddOnsSum_def addOns_def)

lemma checkedAddOnsSum_updateCurrentVariantPrice [simp]:
  "checkedAddOnsSum h (updateCurrentVariantPrice h s) = checkedAddOnsSum h s"
  by (subst updateCurrentVariantPrice_frame) (rule checkedAddOnsSum_price_update)

lemma getCalculatedTotalPrice_eq:
  "snd (getCalculatedTotalPrice h s) =
     Number_add h (currentVariantPrice (updateCurrentVariantPrice h s)) (checkedAddOnsSum h s)"
  by (simp add: getCalculatedTotalPrice_def Let_def totalAdditionalPrice_checkedAddOnsSum)

lemma priceElements_updateCurrentVariantPrice [simp]:
  "priceElements (updateCurrentVariantPrice h s) = priceElements s"
  by (subst updateCurrentVariantPrice_frame) simp


lemma countMultiplier_checked_update [simp]:
  "countMultiplier h (cb\<lparr>checked := b\<rparr>) = countMultiplier h cb"
  by (simp add: countMultiplier_def split: option.splits)

lemma contribution_checked_update [simp]:
  "contribution h (cb\<lparr>checked := b\<rparr>) = contribution h cb"
  by (simp add: contribution_def)

lemma getCheckboxPrice_checked_update [simp]:
  "getCheckboxPrice h (cb\<lparr>checked := b\<rparr>) = getCheckboxPrice h cb"
  by (simp add: getCheckboxPrice_def)

lemma elements_setChecked:
  "elements (setChecked s a b) x = (if x = a then (elements s a)\<lparr>checked := b\<rparr> else elements s x)"
  by (simp add: setChecked_def)


lemma currentVariantPrice_setChecked [simp]:
  "currentVariantPrice (updateCurrentVariantPrice h (setChecked s a b)) =
     currentVariantPrice (updateCurrentVariantPrice h s)"
  by (simp add: updateCurrentVariantPrice_def updateCurrentVariantPrice_fallback_def setChecked_def
      split: option.splits)


lemma safeAmounts_setChecked [simp]: "safeAmounts h (setChecked s a b) = safeAmounts h s"
proof -
  have "list_all (\<lambda>x. safeInteger (countMultiplier h (elements (setChecked s a b) x))) xs =
        list_all (\<lambda>x. safeInteger (countMultiplier h (elements s x))) xs" for xs
    by (induction xs) (simp_all add: elements_setChecked)
  then show ?thesis
    by (simp add: safeAmounts_def safeVariantPrice_def setChecked_def addOns_def)
qed

lemma example_parse_variant:
  \<open>example_JSON_parse ''{"title": "Large", "price": 5000}'' =
     Some (JObj [(''title'', JStr ''Large''), (''price'', JNum ''5000'')])\<close>
  by (simp add: example_JSON_parse_def)

lemma parseInt10_1200: "parseInt10 ''1200'' = Some 1200"
  by (simp add: parseInt10_eval)

lemmas example_checkbox_defs =
  pattern_large_def pattern_negative_def pattern_exponent_def pattern_malformed_def needle_def
  blank_checkbox_def

lemma example_arith:
  "Number_of example_host = Some" "Number_add example_host = num_add"
  "Number_mul example_host = num_mul" "Number_gt0 example_host = num_positive"
  "JSON_parse example_host = example_JSON_parse" "parseFloat example_host = parseInt10"
  by (simp_all add: example_host_def)

lemma example_prices:
  "contribution example_host pattern_large = Some 2400"
  "contribution example_host (needle i p v c) = Some 300"
  by (simp_all add: contribution_def example_checkbox_defs parseFloat_or0_def present_def or_empty_def
      example_arith parseInt10_eval countMultiplier_def example_parse_large countFromObject_def
      parseInt_examples num_or_def num_mul_def)


lemma example_checked:
  "checked pattern_large" "checked (needle i p v c) = c"
  by (simp_all add: example_checkbox_defs)

lemma example_variant_price:
  "currentVariantPrice (updateCurrentVariantPrice example_host (example_state c0 c1 c2)) = Some 5000"
  by (simp add: updateCurrentVariantPrice_def example_state_def example_arith example_parse_variant
      parseInt_examples num_or_def)



lemma example_page_fields:
  "addOns example_page = [10, 11, 12]"
  "elements example_page 10 = pattern_large"
  "elements example_page 11 = needle ''needle_a'' ''601'' (Some ''11'') True"
  "elements example_page 12 = needle ''needle_b'' ''602'' (Some ''22'') False"
  by (simp_all add: example_page_def example_state_def addOns_def)

lemma example_page_variant_price:
  "currentVariantPrice (updateCurrentVariantPrice example_host example_page) = Some 5000"
  by (simp add: example_page_def example_variant_price)


lemma example_page_total: "snd (getCalculatedTotalPrice example_host example_page) = Some 7700"
  by (simp add: getCalculatedTotalPrice_eq checkedAddOnsSum_def example_page_fields example_prices
      example_page_variant_price example_checked Number_sum_def example_arith num_add_def)



section \<open>Form submission: what the handler does\<close>

lemma intercept_condition:
  "((case patternProductCheckbox s of Some a \<Rightarrow> checked (elements s a) | None \<Rightarrow> False)
     \<or> list_ex (\<lambda>a. checked (elements s a))
          (case patternNeedleCheckboxes s of Some needles \<Rightarrow> needles | None \<Rightarrow> []))
   = anyAddOnChecked s"
  by (auto simp: anyAddOnChecked_def addOns_def list_ex_iff split: option.splits)

lemma handleFormSubmit_not_intercepted:
  "\<not> anyAddOnChecked s \<Longrightarrow> handleFormSubmit h s f ev = (s, ev, None)"
  unfolding intercept_condition [symmetric]
  by (simp add: handleFormSubmit_def)

text \<open>The loop over the needles appends, in array order, the item of each checked needle that has one.\<close>

lemma foldl_pushNeedle:
  "foldl (pushNeedle h s) acc xs =
     acc @ List.map_filter (\<lambda>a. buildPatternProductItem h (elements s a))
             (filter (\<lambda>a. checked (elements s a)) xs)"
proof (induction xs arbitrary: acc)
  case Nil
  then show ?case by (simp add: map_filter_simps)
next
  case (Cons x xs)
  show ?case
  proof (cases "checked (elements s x)")
    case True
    show ?thesis
    proof (cases "buildPatternProductItem h (elements s x)")
      case None
      with True have "pushNeedle h s acc x = acc" by (simp add: pushNeedle_def)
      with True None show ?thesis by (simp add: Cons.IH map_filter_simps)
    next
      case (Some it)
      with True have "pushNeedle h s acc x = acc @ [it]" by (simp add: pushNeedle_def)
      with True Some show ?thesis by (simp add: Cons.IH map_filter_simps)
    qed
  next
    case False
    then have "pushNeedle h s acc x = acc" by (simp add: pushNeedle_def)
    with False show ?thesis by (simp add: Cons.IH)
  qed
qed

lemma needle_loop:
  "(case patternNeedleCheckboxes s of
      Some needles \<Rightarrow> if length needles > 0 then foldl (pushNeedle h s) [] needles else []
    | None \<Rightarrow> []) = checkedNeedleItems h s"
  by (simp add: checkedNeedleItems_def foldl_pushNeedle map_filter_simps split: option.splits)

lemma case_not_Some_None:
  "x \<noteq> Some None \<Longrightarrow> (case x of None \<Rightarrow> B | Some None \<Rightarrow> A | Some (Some z) \<Rightarrow> B) = B"
  by (cases x) (auto split: option.splits)

lemma pushNeedle_form_update: "pushNeedle h (s\<lparr>form := x\<rparr>) = pushNeedle h s"
  by (simp add: pushNeedle_def fun_eq_iff)

lemma pattern_step:
  "(case patternProductCheckbox s of
      Some a \<Rightarrow> if checked (elements s a) then Some (buildPatternProductItem h (elements s a)) else None
    | None \<Rightarrow> None) = Some None \<longleftrightarrow> patternItemMissing h s"
  by (simp add: patternItemMissing_def split: option.splits)

lemma pattern_push:
  "\<not> patternItemMissing h s \<Longrightarrow>
   (case (case patternProductCheckbox s of
            Some a \<Rightarrow> if checked (elements s a) then Some (buildPatternProductItem h (elements s a)) else None
          | None \<Rightarrow> None) of
      Some (Some it) \<Rightarrow> items0 @ [it]
    | _ \<Rightarrow> items0) = items0 @ checkedPatternItems h s"
  by (simp add: patternItemMissing_def checkedPatternItems_def split: option.splits)

lemma form_update_fields [simp]:
  "elements (s\<lparr>form := x\<rparr>) = elements s"
  "patternProductCheckbox (s\<lparr>form := x\<rparr>) = patternProductCheckbox s"
  "patternNeedleCheckboxes (s\<lparr>form := x\<rparr>) = patternNeedleCheckboxes s"
  by simp_all

lemma notions_form_update [simp]:
  "checkedNeedleItems h (s\<lparr>form := x\<rparr>) = checkedNeedleItems h s"
  "checkedPatternItems h (s\<lparr>form := x\<rparr>) = checkedPatternItems h s"
  "patternItemMissing h (s\<lparr>form := x\<rparr>) = patternItemMissing h s"
  by (simp_all add: checkedNeedleItems_def checkedPatternItems_def patternItemMissing_def
      split: option.splits)

text \<open>The four ways an intercepted submission goes.\<close>

lemma handleFormSubmit_intercepted:
  assumes "anyAddOnChecked s"
  shows "handleFormSubmit h s f ev =
     (if map_of (inputs f) ''id'' = None then (enableSubmit (s\<lparr>form := Some (submitting f)\<rparr>), taken ev, None)
      else if patternItemMissing h s then
        (handleAddToCartError (enableSubmit (s\<lparr>form := Some (submitting f)\<rparr>))
           ''Pattern product variant not available. Please try again.'', taken ev, None)
      else if \<exists>it \<in> set (orderedItems h s f). invalidItem it then
        (enableSubmit (s\<lparr>form := Some (submitting f)\<rparr>), taken ev, None)
      else (s\<lparr>form := Some (submitting f)\<rparr>, taken ev,
            Some \<lparr>url = addToCartUrl (rootUrl h), items = orderedItems h s f,
                  sections_url = sectionsUrl h (map_of (inputs f) ''section-id'')\<rparr>))"
proof -
  have c: "\<not> (\<not> (case patternProductCheckbox s of Some a \<Rightarrow> checked (elements s a) | None \<Rightarrow> False)
     \<and> \<not> list_ex (\<lambda>a. checked (elements s a))
          (case patternNeedleCheckboxes s of Some needles \<Rightarrow> needles | None \<Rightarrow> []))"
    using assms intercept_condition [of s] by simp
  have i: "inputs (submitting f) = inputs f" by (simp add: submitting_def)
  have inv: "(length (filter invalidItem xs) > 0) = (\<exists>it \<in> set xs. invalidItem it)" for xs
    by (simp add: filter_empty_conv)
  show ?thesis
  proof (cases "map_of (inputs f) ''id''")
    case None
    then show ?thesis
      unfolding handleFormSubmit_def Let_def
      by (simp only: c if_False submitting_def [symmetric] taken_def [symmetric] i option.case)
         simp
  next
    case (Some idv)
    show ?thesis
    proof (cases "patternItemMissing h s")
      case True
      then show ?thesis
        unfolding handleFormSubmit_def Let_def
        by (simp only: c if_False submitting_def [symmetric] taken_def [symmetric] i Some option.case
              form_update_fields pushNeedle_form_update needle_loop)
           (simp add: pattern_step [THEN iffD2] split: option.splits)
    next
      case False
      then have pne: "(case patternProductCheckbox s of
            Some a \<Rightarrow> if checked (elements s a) then Some (buildPatternProductItem h (elements s a)) else None
          | None \<Rightarrow> None) \<noteq> Some None"
        by (simp add: pattern_step)
      have m: "\<lparr>item_id = parseInt10 idv,
               quantity = (case map_of (inputs f) ''quantity'' of Some q \<Rightarrow> num_or (parseInt10 q) 1 | None \<Rightarrow> 1)\<rparr>
             = mainProductItem f"
        by (simp add: mainProductItem_def Some)
      show ?thesis
        unfolding handleFormSubmit_def Let_def
        by (simp only: c if_False submitting_def [symmetric] taken_def [symmetric] i Some option.case
              form_update_fields pushNeedle_form_update needle_loop case_not_Some_None [OF pne] pattern_push [OF False] m)
           (auto simp: orderedItems_def False filter_empty_conv)
    qed
  qed
qed

section \<open>The submit control\<close>

lemma enableSubmit_button:
  "form s = Some f \<Longrightarrow>
   \<exists>f'. form (enableSubmit s) = Some f' \<and> submitButton f' = enableSubmitButton (submitButton f)"
  by (simp add: enableSubmit_def)

lemma handleAddToCartError_button:
  "form s = Some f \<Longrightarrow>
   \<exists>f'. form (handleAddToCartError s m) = Some f' \<and> submitButton f' = submitButton f
        \<and> inputs f' = inputs f"
  by (simp add: handleAddToCartError_def Let_def split: option.splits)

lemma handleAddToCartSuccess_form: "form (fst (handleAddToCartSuccess h s data req)) = form s"
  by (simp add: handleAddToCartSuccess_def Let_def split: option.splits prod.splits if_splits)

lemma enableSubmitButton_submitting:
  "enableSubmitButton (submitButton (submitting f)) = enableSubmitButton (submitButton f)"
  by (cases "submitButton f") (simp_all add: enableSubmitButton_def submitting_def add_class_def)

text \<open>Whatever the request's outcome, the chain ends by enabling the submit control.\<close>

lemma fetchSettled_button:
  assumes "form s = Some f"
  shows "\<exists>f'. form (fetchSettled h s req outcome) = Some f'
           \<and> submitButton f' = enableSubmitButton (submitButton f)"
proof -
  obtain s1 thrown where st: "(case responseData h outcome of
               Inl e \<Rightarrow> (s, Some e)
             | Inr data \<Rightarrow> handleAddToCartSuccess h s data req) = (s1, thrown)"
    by (cases "(case responseData h outcome of
               Inl e \<Rightarrow> (s, Some e)
             | Inr data \<Rightarrow> handleAddToCartSuccess h s data req)") auto
  have f1: "form s1 = Some f"
  proof (cases "responseData h outcome")
    case (Inl e)
    with st assms show ?thesis by simp
  next
    case (Inr data)
    with st have "s1 = fst (handleAddToCartSuccess h s data req)" by simp
    with assms show ?thesis by (simp add: handleAddToCartSuccess_form)
  qed
  obtain f2 where f2: "form (case thrown of Some e \<Rightarrow> handleAddToCartError s1 e | None \<Rightarrow> s1) = Some f2"
      "submitButton f2 = submitButton f"
    using f1 handleAddToCartError_button [OF f1] by (cases thrown) auto
  show ?thesis
    using enableSubmit_button [OF f2(1)] f2(2)
    by (simp add: fetchSettled_def st)
qed

lemma submitFlow_button:
  assumes "anyAddOnChecked s"
  shows "\<exists>f'. form (fst (submitFlow h s f ev outcome)) = Some f'
           \<and> submitButton f' = enableSubmitButton (submitButton f)"
proof -
  let ?s1 = "s\<lparr>form := Some (submitting f)\<rparr>"
  have e: "\<exists>f'. form (enableSubmit ?s1) = Some f' \<and> submitButton f' = enableSubmitButton (submitButton f)"
    using enableSubmit_button [of ?s1 "submitting f"] by (simp add: enableSubmitButton_submitting)
  then obtain f1 where f1: "form (enableSubmit ?s1) = Some f1"
      "submitButton f1 = enableSubmitButton (submitButton f)" by blast
  have a: "\<exists>f'. form (handleAddToCartError (enableSubmit ?s1) m) = Some f'
          \<and> submitButton f' = enableSubmitButton (submitButton f)" for m
    using handleAddToCartError_button [OF f1(1), of m] f1(2) by auto
  have r: "\<exists>f'. form (fetchSettled h ?s1 req outcome) = Some f'
           \<and> submitButton f' = enableSubmitButton (submitButton f)" for req
    using fetchSettled_button [of ?s1 "submitting f" h req outcome]
    by (simp add: enableSubmitButton_submitting)
  show ?thesis
    unfolding submitFlow_def handleFormSubmit_intercepted [OF assms]
    using e a r by simp
qed

text \<open>
  However an intercepted submission goes, the form ends with the submit control it had,
  enabled.
\<close>

lemma submitFlow_control:
  assumes "anyAddOnChecked s"
  shows "map_option submitButton (form (fst (submitFlow h s f ev outcome))) =
           Some (map_option (\<lambda>b. b\<lparr>disabled := False, classList := removeAll ''loading'' (classList b)\<rparr>)
                   (submitButton f))"
  using submitFlow_button [OF assms, of h f ev outcome]
  by (auto simp: enableSubmitButton_def)

lemma handleFormSubmit_aborted_control:
  assumes "anyAddOnChecked s" and "snd (snd (handleFormSubmit h s f ev)) = None"
  shows "map_option submitButton (form (fst (handleFormSubmit h s f ev))) =
           Some (map_option (\<lambda>b. b\<lparr>disabled := False, classList := removeAll ''loading'' (classList b)\<rparr>)
                   (submitButton f))"
proof -
  have "fst (submitFlow h s f ev outcome) = fst (handleFormSubmit h s f ev)" for outcome
    using assms(2) by (cases "handleFormSubmit h s f ev") (simp add: submitFlow_def)
  then show ?thesis
    using submitFlow_control [OF assms(1), of h f ev "NetworkError []"] by simp
qed

section \<open>The example pages, evaluated\<close>

lemma example_state_fields:
  "elements (example_state c0 c1 c2) 10 = c0"
  "elements (example_state c0 c1 c2) 11 = c1"
  "elements (example_state c0 c1 c2) 12 = c2"
  "patternProductCheckbox (example_state c0 c1 c2) = Some 10"
  "patternNeedleCheckboxes (example_state c0 c1 c2) = Some [11, 12]"
  "form (example_state c0 c1 c2) = Some example_form"
  "events (example_state c0 c1 c2) = []"
  "addOns (example_state c0 c1 c2) = [10, 11, 12]"
  by (simp_all add: example_state_def addOns_def)

lemma example_items:
  "buildPatternProductItem example_host pattern_large = Some \<lparr>item_id = Some 77, quantity = 2\<rparr>"
  "buildPatternProductItem example_host (pattern_large\<lparr>checked := False\<rparr>) = Some \<lparr>item_id = Some 77, quantity = 2\<rparr>"
  "buildPatternProductItem example_host (pattern_large\<lparr>additionalProductVariantId := None\<rparr>) = None"
  "buildPatternProductItem example_host (needle i p (Some ''11'') c) = Some \<lparr>item_id = Some 11, quantity = 1\<rparr>"
  "buildPatternProductItem example_host (needle i p (Some ''22'') c) = Some \<lparr>item_id = Some 22, quantity = 1\<rparr>"
  "buildPatternProductItem example_host (needle i p None c) = None"
  by (simp_all add: buildPatternProductItem_def countMultiplier_def example_checkbox_defs present_def
      or_empty_def example_arith example_parse_large countFromObject_def parseInt_examples num_or_def
      parseInt10_eval)

lemma example_item_suffixed:
  "buildPatternProductItem example_host (pattern_large\<lparr>additionalProductVariantId := Some ''42px''\<rparr>) =
     Some \<lparr>item_id = Some 42, quantity = 2\<rparr>"
  by (simp add: buildPatternProductItem_def countMultiplier_def example_checkbox_defs present_def
      or_empty_def example_arith example_parse_large countFromObject_def parseInt_examples num_or_def
      parseInt10_eval)

lemma example_checked_more:
  "\<not> checked (pattern_large\<lparr>checked := False\<rparr>)"
  "checked (pattern_large\<lparr>additionalProductVariantId := None\<rparr>)"
  "checked (pattern_large\<lparr>additionalProductVariantId := Some ''42px''\<rparr>)"
  by (simp_all add: example_checkbox_defs)

lemma example_form_fields:
  "map_of (inputs example_form) ''id'' = Some ''99''"
  "map_of (inputs example_form) ''section-id'' = Some ''main''"
  "mainProductItem example_form = \<lparr>item_id = Some 99, quantity = 1\<rparr>"
  by (simp_all add: example_form_def mainProductItem_def parseInt10_eval num_or_def)

lemma example_url:
  "addToCartUrl (rootUrl example_host) = ''/cart/add.js''"
  "sectionsUrl example_host (Some ''main'') = ''/cart?section_id=cart-drawer&section_id=main''"
  by (simp_all add: addToCartUrl_def rootUrl_def example_host_def normalizedRoot_def endsWith_def
      sectionsUrl_def present_def or_empty_def)

lemmas example_eval =
  example_state_fields example_items example_item_suffixed example_checked example_checked_more
  example_form_fields example_url map_filter_simps

text \<open>The integers of the example pages are safe.\<close>

lemma example_safeForm: "safeForm example_form"
  by (simp add: safeForm_def example_form_def parseInt10_eval safeNum_def safeInteger_def)

lemma example_safeAddOn:
  "safeAddOn example_host pattern_large"
  "safeAddOn example_host (pattern_large\<lparr>checked := False\<rparr>)"
  "safeAddOn example_host (pattern_large\<lparr>additionalProductVariantId := None\<rparr>)"
  "safeAddOn example_host (pattern_large\<lparr>additionalProductVariantId := Some ''42px''\<rparr>)"
  "safeAddOn example_host (needle i p (Some ''11'') c)"
  "safeAddOn example_host (needle i p (Some ''22'') c)"
  "safeAddOn example_host (needle i p None c)"
  by (simp_all add: safeAddOn_def countMultiplier_def example_checkbox_defs present_def
      or_empty_def example_arith example_parse_large countFromObject_def parseInt_examples num_or_def
      parseInt10_eval safeNum_def safeInteger_def)

lemma example_safeNumbers:
  "safeNumbers example_host example_page example_form"
  "safeNumbers example_host needles_only_page example_form"
  "safeNumbers example_host missing_needle_page example_form"
  "safeNumbers example_host missing_pattern_page example_form"
  "safeNumbers example_host suffixed_pattern_page example_form"
  "safeNumbers example_host unchecked_page example_form"
  by (simp_all add: safeNumbers_def example_safeForm example_page_def needles_only_page_def
      missing_needle_page_def missing_pattern_page_def suffixed_pattern_page_def unchecked_page_def
      example_state_fields example_safeAddOn)

lemma example_page_request:
  "handleFormSubmit example_host example_page example_form ev =
     (example_page\<lparr>form := Some (submitting example_form)\<rparr>, taken ev,
      Some (example_request
        [\<lparr>item_id = Some 11, quantity = 1\<rparr>, \<lparr>item_id = Some 77, quantity = 2\<rparr>,
         \<lparr>item_id = Some 99, quantity = 1\<rparr>]))"
proof -
  have a: "anyAddOnChecked example_page"
    by (simp add: anyAddOnChecked_def example_page_def example_eval)
  have m: "\<not> patternItemMissing example_host example_page"
    by (simp add: patternItemMissing_def example_page_def example_eval)
  have o: "orderedItems example_host example_page example_form =
      [\<lparr>item_id = Some 11, quantity = 1\<rparr>, \<lparr>item_id = Some 77, quantity = 2\<rparr>,
       \<lparr>item_id = Some 99, quantity = 1\<rparr>]"
    by (simp add: orderedItems_def checkedNeedleItems_def checkedPatternItems_def example_page_def
        example_eval)
  show ?thesis
    unfolding handleFormSubmit_intercepted [OF a] o
    by (simp add: m example_eval invalidItem_def example_request_def)
qed

lemma needles_only_request:
  "handleFormSubmit example_host needles_only_page example_form ev =
     (needles_only_page\<lparr>form := Some (submitting example_form)\<rparr>, taken ev,
      Some (example_request
        [\<lparr>item_id = Some 11, quantity = 1\<rparr>, \<lparr>item_id = Some 22, quantity = 1\<rparr>,
         \<lparr>item_id = Some 99, quantity = 1\<rparr>]))"
proof -
  have a: "anyAddOnChecked needles_only_page"
    by (simp add: anyAddOnChecked_def needles_only_page_def example_eval)
  have m: "\<not> patternItemMissing example_host needles_only_page"
    by (simp add: patternItemMissing_def needles_only_page_def example_eval)
  have o: "orderedItems example_host needles_only_page example_form =
      [\<lparr>item_id = Some 11, quantity = 1\<rparr>, \<lparr>item_id = Some 22, quantity = 1\<rparr>,
       \<lparr>item_id = Some 99, quantity = 1\<rparr>]"
    by (simp add: orderedItems_def checkedNeedleItems_def checkedPatternItems_def needles_only_page_def
        example_eval)
  show ?thesis
    unfolding handleFormSubmit_intercepted [OF a] o
    by (simp add: m example_eval invalidItem_def example_request_def)
qed

lemma missing_needle_request:
  "handleFormSubmit example_host missing_needle_page example_form ev =
     (missing_needle_page\<lparr>form := Some (submitting example_form)\<rparr>, taken ev,
      Some (example_request
        [\<lparr>item_id = Some 22, quantity = 1\<rparr>, \<lparr>item_id = Some 77, quantity = 2\<rparr>,
         \<lparr>item_id = Some 99, quantity = 1\<rparr>]))"
proof -
  have a: "anyAddOnChecked missing_needle_page"
    by (simp add: anyAddOnChecked_def missing_needle_page_def example_eval)
  have m: "\<not> patternItemMissing example_host missing_needle_page"
    by (simp add: patternItemMissing_def missing_needle_page_def example_eval)
  have o: "orderedItems example_host missing_needle_page example_form =
      [\<lparr>item_id = Some 22, quantity = 1\<rparr>, \<lparr>item_id = Some 77, quantity = 2\<rparr>,
       \<lparr>item_id = Some 99, quantity = 1\<rparr>]"
    by (simp add: orderedItems_def checkedNeedleItems_def checkedPatternItems_def missing_needle_page_def
        example_eval)
  show ?thesis
    unfolding handleFormSubmit_intercepted [OF a] o
    by (simp add: m example_eval invalidItem_def example_request_def)
qed

lemma suffixed_pattern_request:
  "handleFormSubmit example_host suffixed_pattern_page example_form ev =
     (suffixed_pattern_page\<lparr>form := Some (submitting example_form)\<rparr>, taken ev,
      Some (example_request
        [\<lparr>item_id = Some 11, quantity = 1\<rparr>, \<lparr>item_id = Some 42, quantity = 2\<rparr>,
         \<lparr>item_id = Some 99, quantity = 1\<rparr>]))"
proof -
  have a: "anyAddOnChecked suffixed_pattern_page"
    by (simp add: anyAddOnChecked_def suffixed_pattern_page_def example_eval)
  have m: "\<not> patternItemMissing example_host suffixed_pattern_page"
    by (simp add: patternItemMissing_def suffixed_pattern_page_def example_eval)
  have o: "orderedItems example_host suffixed_pattern_page example_form =
      [\<lparr>item_id = Some 11, quantity = 1\<rparr>, \<lparr>item_id = Some 42, quantity = 2\<rparr>,
       \<lparr>item_id = Some 99, quantity = 1\<rparr>]"
    by (simp add: orderedItems_def checkedNeedleItems_def checkedPatternItems_def suffixed_pattern_page_def
        example_eval)
  show ?thesis
    unfolding handleFormSubmit_intercepted [OF a] o
    by (simp add: m example_eval invalidItem_def example_request_def)
qed

lemma example_page_orderedItems:
  "orderedItems example_host example_page f =
     [\<lparr>item_id = Some 11, quantity = 1\<rparr>, \<lparr>item_id = Some 77, quantity = 2\<rparr>, mainProductItem f]"
  by (simp add: orderedItems_def checkedNeedleItems_def checkedPatternItems_def example_page_def
      example_eval)

lemma other_forms_fields:
  "map_of (inputs no_quantity_form) ''id'' = Some ''99''"
  "map_of (inputs no_quantity_form) ''section-id'' = Some ''main''"
  "mainProductItem no_quantity_form = \<lparr>item_id = Some 99, quantity = 1\<rparr>"
  "map_of (inputs no_id_form) ''id'' = None"
  "map_of (inputs negative_quantity_form) ''id'' = Some ''99''"
  "mainProductItem negative_quantity_form = \<lparr>item_id = Some 99, quantity = - 2\<rparr>"
  "submitButton no_quantity_form = Some \<lparr>disabled = False, classList = [''button'']\<rparr>"
  "submitButton no_id_form = Some \<lparr>disabled = False, classList = [''button'']\<rparr>"
  "submitButton negative_quantity_form = Some \<lparr>disabled = False, classList = [''button'']\<rparr>"
  "submitButton example_form = Some \<lparr>disabled = False, classList = [''button'']\<rparr>"
  by (simp_all add: no_quantity_form_def no_id_form_def negative_quantity_form_def example_form_def
      mainProductItem_def parseInt10_eval num_or_def)

lemma other_forms_safe: "safeForm no_quantity_form" "safeForm no_id_form" "safeForm negative_quantity_form"
  by (simp_all add: safeForm_def no_quantity_form_def no_id_form_def negative_quantity_form_def
      example_form_def parseInt10_eval safeNum_def safeInteger_def)

lemma example_page_anyAddOnChecked: "anyAddOnChecked example_page"
  by (simp add: anyAddOnChecked_def example_page_def example_eval)

lemma example_page_not_missing: "\<not> patternItemMissing example_host example_page"
  by (simp add: patternItemMissing_def example_page_def example_eval)

lemma no_quantity_request:
  "handleFormSubmit example_host example_page no_quantity_form ev =
     (example_page\<lparr>form := Some (submitting no_quantity_form)\<rparr>, taken ev,
      Some (example_request
        [\<lparr>item_id = Some 11, quantity = 1\<rparr>, \<lparr>item_id = Some 77, quantity = 2\<rparr>,
         \<lparr>item_id = Some 99, quantity = 1\<rparr>]))"
  unfolding handleFormSubmit_intercepted [OF example_page_anyAddOnChecked] example_page_orderedItems
  by (simp add: example_page_not_missing other_forms_fields example_url invalidItem_def example_request_def)

lemma no_id_request:
  "snd (snd (handleFormSubmit example_host example_page no_id_form ev)) = None"
  unfolding handleFormSubmit_intercepted [OF example_page_anyAddOnChecked]
  by (simp add: other_forms_fields)

lemma negative_quantity_request:
  "snd (snd (handleFormSubmit example_host example_page negative_quantity_form ev)) = None"
  unfolding handleFormSubmit_intercepted [OF example_page_anyAddOnChecked] example_page_orderedItems
  by (simp add: example_page_not_missing other_forms_fields invalidItem_def)

lemma negative_multiplier_request:
  "snd (snd (handleFormSubmit example_host negative_multiplier_page example_form ev)) = None"
proof -
  have a: "anyAddOnChecked negative_multiplier_page"
    by (simp add: anyAddOnChecked_def negative_multiplier_page_def example_eval)
  have b: "buildPatternProductItem example_host pattern_negative = Some \<lparr>item_id = Some 77, quantity = - 3\<rparr>"
    unfolding buildPatternProductItem_def countMultiplier_negative
    by (simp add: pattern_negative_def pattern_large_def blank_checkbox_def present_def or_empty_def
        parseInt10_eval)
  have c: "checked pattern_negative" by (simp add: example_checkbox_defs)
  have m: "\<not> patternItemMissing example_host negative_multiplier_page"
    by (simp add: patternItemMissing_def negative_multiplier_page_def example_eval b)
  have o: "orderedItems example_host negative_multiplier_page example_form =
      [\<lparr>item_id = Some 11, quantity = 1\<rparr>, \<lparr>item_id = Some 77, quantity = - 3\<rparr>,
       \<lparr>item_id = Some 99, quantity = 1\<rparr>]"
    by (simp add: orderedItems_def checkedNeedleItems_def checkedPatternItems_def
        negative_multiplier_page_def example_eval b c)
  show ?thesis
    unfolding handleFormSubmit_intercepted [OF a] o
    by (simp add: m example_eval invalidItem_def)
qed

lemma example_flags:
  "anyAddOnChecked example_page" "anyAddOnChecked missing_pattern_page"
  "\<not> anyAddOnChecked unchecked_page" "patternItemMissing example_host missing_pattern_page"
  by (simp_all add: anyAddOnChecked_def patternItemMissing_def example_page_def missing_pattern_page_def
      unchecked_page_def example_eval)

section \<open>Form submission: the claims\<close>

lemma request_made:
  assumes "snd (snd (handleFormSubmit h s f ev)) = Some req"
  shows "anyAddOnChecked s" and "map_of (inputs f) ''id'' \<noteq> None" and "\<not> patternItemMissing h s"
    and "\<forall>it \<in> set (orderedItems h s f). \<not> invalidItem it"
    and "items req = orderedItems h s f"
proof -
  show a: "anyAddOnChecked s"
    using assms handleFormSubmit_not_intercepted [of s h f ev] by (cases "anyAddOnChecked s") auto
  show i: "map_of (inputs f) ''id'' \<noteq> None"
    using assms unfolding handleFormSubmit_intercepted [OF a] by (auto split: if_splits)
  show m: "\<not> patternItemMissing h s"
    using assms unfolding handleFormSubmit_intercepted [OF a] by (auto split: if_splits)
  show v: "\<forall>it \<in> set (orderedItems h s f). \<not> invalidItem it"
    using assms unfolding handleFormSubmit_intercepted [OF a] by (auto split: if_splits)
  show "items req = orderedItems h s f"
    using assms i m v unfolding handleFormSubmit_intercepted [OF a] by (auto split: if_splits)
qed

lemma request_built:
  assumes "anyAddOnChecked s" and "map_of (inputs f) ''id'' \<noteq> None" and "\<not> patternItemMissing h s"
    and "\<forall>it \<in> set (orderedItems h s f). \<not> invalidItem it"
  shows "handleFormSubmit h s f ev =
           (s\<lparr>form := Some (submitting f)\<rparr>, taken ev,
            Some \<lparr>url = addToCartUrl (rootUrl h),
                  items = checkedNeedleItems h s @ checkedPatternItems h s @ [mainProductItem f],
                  sections_url = sectionsUrl h (map_of (inputs f) ''section-id'')\<rparr>)"
  using assms(2,3,4)
  by (simp add: handleFormSubmit_intercepted [OF assms(1)] orderedItems_def)

text \<open>
  C5. The handler takes the submission over exactly when an add-on checkbox (the pattern
  product or a needle) is checked. With none checked it returns the state and the event as
  they were and makes no request. With one checked it prevents the default and stops both
  propagations; and when the form has its id field, the checked pattern product has an
  item and no item is invalid, it leaves the form submitting and hands \<open>fetch\<close> its own
  payload: the cart-add URL, the items of the checked needles, of the checked pattern
  product and of the main product, and the sections URL. A request is made in no other case.
  The integers of the page are safe integers.
\<close>

theorem takes_over_iff_addon_checked:
  "(\<not> anyAddOnChecked s \<longrightarrow> handleFormSubmit h s f ev = (s, ev, None))
   \<and> (anyAddOnChecked s \<longrightarrow> fst (snd (handleFormSubmit h s f ev)) = taken ev)
   \<and> (defaultPrevented (fst (snd (handleFormSubmit h s f fresh_event))) \<longleftrightarrow> anyAddOnChecked s)
   \<and> (propagationStopped (fst (snd (handleFormSubmit h s f fresh_event))) \<longleftrightarrow> anyAddOnChecked s)
   \<and> (immediatePropagationStopped (fst (snd (handleFormSubmit h s f fresh_event))) \<longleftrightarrow> anyAddOnChecked s)
   \<and> (anyAddOnChecked s \<and> safeNumbers h s f \<and> map_of (inputs f) ''id'' \<noteq> None
        \<and> \<not> patternItemMissing h s \<and> (\<forall>it \<in> set (orderedItems h s f). \<not> invalidItem it) \<longrightarrow>
        handleFormSubmit h s f ev =
          (s\<lparr>form := Some (submitting f)\<rparr>, taken ev,
           Some \<lparr>url = addToCartUrl (rootUrl h),
                 items = checkedNeedleItems h s @ checkedPatternItems h s @ [mainProductItem f],
                 sections_url = sectionsUrl h (map_of (inputs f) ''section-id'')\<rparr>))
   \<and> (snd (snd (handleFormSubmit h s f ev)) \<noteq> None \<longrightarrow>
        anyAddOnChecked s \<and> map_of (inputs f) ''id'' \<noteq> None
        \<and> \<not> patternItemMissing h s \<and> (\<forall>it \<in> set (orderedItems h s f). \<not> invalidItem it))"
proof (intro conjI impI)
  assume "\<not> anyAddOnChecked s"
  then show "handleFormSubmit h s f ev = (s, ev, None)"
    by (rule handleFormSubmit_not_intercepted)
next
  assume "anyAddOnChecked s"
  then show "fst (snd (handleFormSubmit h s f ev)) = taken ev"
    by (simp add: handleFormSubmit_intercepted)
next
  show "defaultPrevented (fst (snd (handleFormSubmit h s f fresh_event))) \<longleftrightarrow> anyAddOnChecked s"
    by (cases "anyAddOnChecked s")
       (simp_all add: handleFormSubmit_intercepted handleFormSubmit_not_intercepted taken_def fresh_event_def)
  show "propagationStopped (fst (snd (handleFormSubmit h s f fresh_event))) \<longleftrightarrow> anyAddOnChecked s"
    by (cases "anyAddOnChecked s")
       (simp_all add: handleFormSubmit_intercepted handleFormSubmit_not_intercepted taken_def fresh_event_def)
  show "immediatePropagationStopped (fst (snd (handleFormSubmit h s f fresh_event))) \<longleftrightarrow> anyAddOnChecked s"
    by (cases "anyAddOnChecked s")
       (simp_all add: handleFormSubmit_intercepted handleFormSubmit_not_intercepted taken_def fresh_event_def)
next
  assume "anyAddOnChecked s \<and> safeNumbers h s f \<and> map_of (inputs f) ''id'' \<noteq> None
        \<and> \<not> patternItemMissing h s \<and> (\<forall>it \<in> set (orderedItems h s f). \<not> invalidItem it)"
  then show "handleFormSubmit h s f ev =
          (s\<lparr>form := Some (submitting f)\<rparr>, taken ev,
           Some \<lparr>url = addToCartUrl (rootUrl h),
                 items = checkedNeedleItems h s @ checkedPatternItems h s @ [mainProductItem f],
                 sections_url = sectionsUrl h (map_of (inputs f) ''section-id'')\<rparr>)"
    by (intro request_built) simp_all
next
  assume "snd (snd (handleFormSubmit h s f ev)) \<noteq> None"
  then obtain req where r: "snd (snd (handleFormSubmit h s f ev)) = Some req" by auto
  show "anyAddOnChecked s" by (rule request_made(1) [OF r])
  show "map_of (inputs f) ''id'' \<noteq> None" by (rule request_made(2) [OF r])
  show "\<not> patternItemMissing h s" by (rule request_made(3) [OF r])
  show "\<forall>it \<in> set (orderedItems h s f). \<not> invalidItem it" by (rule request_made(4) [OF r])
qed

text \<open>
  With nothing checked the example page is left alone. With the pattern product and the
  first needle checked the event is taken and the request carries the items 11, 77 (twice)
  and 99.
\<close>

theorem takes_over_witness:
  "\<not> anyAddOnChecked unchecked_page
   \<and> handleFormSubmit example_host unchecked_page example_form fresh_event = (unchecked_page, fresh_event, None)
   \<and> anyAddOnChecked example_page
   \<and> safeNumbers example_host example_page example_form
   \<and> map_of (inputs example_form) ''id'' \<noteq> None
   \<and> \<not> patternItemMissing example_host example_page
   \<and> list_all (\<lambda>it. \<not> invalidItem it) (orderedItems example_host example_page example_form)
   \<and> handleFormSubmit example_host example_page example_form fresh_event =
       (example_page\<lparr>form := Some (submitting example_form)\<rparr>, taken fresh_event,
        Some \<lparr>url = ''/cart/add.js'',
              items = [\<lparr>item_id = Some 11, quantity = 1\<rparr>, \<lparr>item_id = Some 77, quantity = 2\<rparr>,
                       \<lparr>item_id = Some 99, quantity = 1\<rparr>],
              sections_url = ''/cart?section_id=cart-drawer&section_id=main''\<rparr>)
   \<and> taken fresh_event =
       \<lparr>defaultPrevented = True, propagationStopped = True, immediatePropagationStopped = True\<rparr>"
proof -
  have u: "\<not> anyAddOnChecked unchecked_page" by (rule example_flags)
  have a: "anyAddOnChecked example_page" by (rule example_flags)
  have sn: "safeNumbers example_host example_page example_form" by (rule example_safeNumbers)
  have i: "map_of (inputs example_form) ''id'' \<noteq> None" by (simp add: example_form_fields)
  have m: "\<not> patternItemMissing example_host example_page" by (rule example_page_not_missing)
  have v: "\<forall>it \<in> set (orderedItems example_host example_page example_form). \<not> invalidItem it"
    by (simp add: example_page_orderedItems example_form_fields invalidItem_def)
  have 1: "handleFormSubmit example_host unchecked_page example_form fresh_event = (unchecked_page, fresh_event, None)"
    using takes_over_iff_addon_checked [of unchecked_page example_host example_form fresh_event] u
    by blast
  have 2: "handleFormSubmit example_host example_page example_form fresh_event =
          (example_page\<lparr>form := Some (submitting example_form)\<rparr>, taken fresh_event,
           Some \<lparr>url = addToCartUrl (rootUrl example_host),
                 items = checkedNeedleItems example_host example_page @ checkedPatternItems example_host example_page
                           @ [mainProductItem example_form],
                 sections_url = sectionsUrl example_host (map_of (inputs example_form) ''section-id'')\<rparr>)"
    using takes_over_iff_addon_checked [of example_page example_host example_form fresh_event] a sn i m v
    by blast
  have o: "checkedNeedleItems example_host example_page @ checkedPatternItems example_host example_page
             @ [mainProductItem example_form] =
           [\<lparr>item_id = Some 11, quantity = 1\<rparr>, \<lparr>item_id = Some 77, quantity = 2\<rparr>,
            \<lparr>item_id = Some 99, quantity = 1\<rparr>]"
    using example_page_orderedItems [of example_form] by (simp add: orderedItems_def example_form_fields)
  have t: "taken fresh_event =
       \<lparr>defaultPrevented = True, propagationStopped = True, immediatePropagationStopped = True\<rparr>"
    by (simp add: taken_def fresh_event_def)
  show ?thesis
    using u a sn i m v 1 t unfolding 2 o
    by (simp add: example_url example_form_fields list_all_iff)
qed

text \<open>
  C7. Once an add-on is checked, however the submission goes (no main variant id field, no
  pattern item, an invalid item, a request that fails in the network, over HTTP or in its
  handlers, or one that succeeds), the form at the end of the flow has the submit control it
  had, with the disabled flag cleared and the class \<open>loading\<close> removed: a control that
  was there is there, enabled.
\<close>

theorem submit_control_reenabled:
  "anyAddOnChecked s \<longrightarrow>
     map_option submitButton (form (fst (submitFlow h s f ev outcome))) =
       Some (map_option (\<lambda>b. b\<lparr>disabled := False, classList := removeAll ''loading'' (classList b)\<rparr>)
               (submitButton f))
     \<and> (\<forall>b. submitButton f = Some b \<longrightarrow>
           (\<exists>b'. map_option submitButton (form (fst (submitFlow h s f ev outcome))) = Some (Some b')
                 \<and> \<not> disabled b' \<and> ''loading'' \<notin> set (classList b')))
     \<and> (snd (snd (handleFormSubmit h s f ev)) = None \<longrightarrow>
           fst (submitFlow h s f ev outcome) = fst (handleFormSubmit h s f ev))"
proof (intro impI conjI allI)
  assume a: "anyAddOnChecked s"
  show c: "map_option submitButton (form (fst (submitFlow h s f ev outcome))) =
       Some (map_option (\<lambda>b. b\<lparr>disabled := False, classList := removeAll ''loading'' (classList b)\<rparr>)
               (submitButton f))"
    by (rule submitFlow_control [OF a])
  {
    fix b
    assume "submitButton f = Some b"
    then show "\<exists>b'. map_option submitButton (form (fst (submitFlow h s f ev outcome))) = Some (Some b')
                 \<and> \<not> disabled b' \<and> ''loading'' \<notin> set (classList b')"
      unfolding c by simp
  }
  {
    assume "snd (snd (handleFormSubmit h s f ev)) = None"
    then show "fst (submitFlow h s f ev outcome) = fst (handleFormSubmit h s f ev)"
      by (cases "handleFormSubmit h s f ev") (simp add: submitFlow_def)
  }
qed

text \<open>
  The example page, whose form has an enabled submit control of class \<open>button\<close>: on a
  request that fails in the network, on one refused over HTTP, on one that succeeds, with a
  form that has no id field, with a negative quantity, and with a pattern product that has
  no variant id, the control ends as it was.
\<close>

theorem submit_control_witness:
  "anyAddOnChecked example_page
   \<and> anyAddOnChecked missing_pattern_page
   \<and> submitButton example_form = Some \<lparr>disabled = False, classList = [''button'']\<rparr>
   \<and> map_option submitButton (form (fst (submitFlow example_host example_page example_form fresh_event
        (NetworkError ''Failed to fetch'')))) = Some (Some \<lparr>disabled = False, classList = [''button'']\<rparr>)
   \<and> map_option submitButton (form (fst (submitFlow example_host example_page example_form fresh_event
        (Response False (Inr (JObj [(''description'', JStr ''Sold out'')])))))) =
        Some (Some \<lparr>disabled = False, classList = [''button'']\<rparr>)
   \<and> map_option submitButton (form (fst (submitFlow example_host example_page example_form fresh_event
        (Response True (Inr (JObj [(''items'', JArr [])])))))) =
        Some (Some \<lparr>disabled = False, classList = [''button'']\<rparr>)
   \<and> snd (snd (handleFormSubmit example_host example_page no_id_form fresh_event)) = None
   \<and> map_option submitButton (form (fst (handleFormSubmit example_host example_page no_id_form fresh_event))) =
        Some (Some \<lparr>disabled = False, classList = [''button'']\<rparr>)
   \<and> snd (snd (handleFormSubmit example_host example_page negative_quantity_form fresh_event)) = None
   \<and> map_option submitButton
        (form (fst (handleFormSubmit example_host example_page negative_quantity_form fresh_event))) =
        Some (Some \<lparr>disabled = False, classList = [''button'']\<rparr>)
   \<and> map_option submitButton (form (fst (submitFlow example_host missing_pattern_page example_form fresh_event
        (NetworkError ''Failed to fetch'')))) = Some (Some \<lparr>disabled = False, classList = [''button'']\<rparr>)"
proof -
  have a: "anyAddOnChecked example_page" "anyAddOnChecked missing_pattern_page"
    by (rule example_flags)+
  have n1: "snd (snd (handleFormSubmit example_host example_page no_id_form fresh_event)) = None"
    by (rule no_id_request)
  have n2: "snd (snd (handleFormSubmit example_host example_page negative_quantity_form fresh_event)) = None"
    by (rule negative_quantity_request)
  note i1 = submit_control_reenabled [of example_page example_host example_form fresh_event
      "NetworkError ''Failed to fetch''"]
  note i2 = submit_control_reenabled [of example_page example_host example_form fresh_event
      "Response False (Inr (JObj [(''description'', JStr ''Sold out'')]))"]
  note i3 = submit_control_reenabled [of example_page example_host example_form fresh_event
      "Response True (Inr (JObj [(''items'', JArr [])]))"]
  note i4 = submit_control_reenabled [of example_page example_host no_id_form fresh_event
      "NetworkError ''Failed to fetch''"]
  note i5 = submit_control_reenabled [of example_page example_host negative_quantity_form fresh_event
      "NetworkError ''Failed to fetch''"]
  note i6 = submit_control_reenabled [of missing_pattern_page example_host example_form fresh_event
      "NetworkError ''Failed to fetch''"]
  from i4 a n1 have e4: "fst (submitFlow example_host example_page no_id_form fresh_event
        (NetworkError ''Failed to fetch'')) = fst (handleFormSubmit example_host example_page no_id_form fresh_event)"
    by blast
  from i4 a have "map_option submitButton (form (fst (submitFlow example_host example_page no_id_form fresh_event
        (NetworkError ''Failed to fetch'')))) =
       Some (map_option (\<lambda>b. b\<lparr>disabled := False, classList := removeAll ''loading'' (classList b)\<rparr>)
               (submitButton no_id_form))"
    by blast
  then have 4: "map_option submitButton (form (fst (handleFormSubmit example_host example_page no_id_form fresh_event))) =
        Some (Some \<lparr>disabled = False, classList = [''button'']\<rparr>)"
    unfolding e4 by (simp add: other_forms_fields)
  from i5 a n2 have e5: "fst (submitFlow example_host example_page negative_quantity_form fresh_event
        (NetworkError ''Failed to fetch'')) =
        fst (handleFormSubmit example_host example_page negative_quantity_form fresh_event)"
    by blast
  from i5 a have "map_option submitButton (form (fst (submitFlow example_host example_page negative_quantity_form
        fresh_event (NetworkError ''Failed to fetch'')))) =
       Some (map_option (\<lambda>b. b\<lparr>disabled := False, classList := removeAll ''loading'' (classList b)\<rparr>)
               (submitButton negative_quantity_form))"
    by blast
  then have 5: "map_option submitButton
        (form (fst (handleFormSubmit example_host example_page negative_quantity_form fresh_event))) =
        Some (Some \<lparr>disabled = False, classList = [''button'']\<rparr>)"
    unfolding e5 by (simp add: other_forms_fields)
  show ?thesis
    using i1 i2 i3 i6 a n1 n2 4 5 by (simp add: other_forms_fields)
qed

text \<open>
  C8. When the submission reaches the request, the main product's item is there, last, so
  the items are never empty. Where the id field and the quantity field of the form hold
  safe integers, the quantity of that item is positive and is the integer read from the
  quantity field, or 1 when the field is absent or does not read as a non-zero integer; its
  id is the non-zero integer read from the id field.
\<close>

theorem main_item_last_with_quantity:
  "snd (snd (handleFormSubmit h s f ev)) = Some req \<and> safeForm f \<longrightarrow>
     items req \<noteq> []
     \<and> last (items req) = mainProductItem f
     \<and> 0 < quantity (last (items req))
     \<and> safeInteger (quantity (last (items req)))
     \<and> quantity (last (items req)) =
         (case map_of (inputs f) ''quantity'' of
            None \<Rightarrow> 1
          | Some q \<Rightarrow> (case parseInt10 q of None \<Rightarrow> 1 | Some n \<Rightarrow> if n = 0 then 1 else n))
     \<and> (\<exists>v n. map_of (inputs f) ''id'' = Some v \<and> parseInt10 v = Some n \<and> n \<noteq> 0 \<and> safeInteger n
           \<and> item_id (last (items req)) = Some n)"
proof
  assume rs: "snd (snd (handleFormSubmit h s f ev)) = Some req \<and> safeForm f"
  then have r: "snd (snd (handleFormSubmit h s f ev)) = Some req" and sf: "safeForm f" by simp_all
  note facts = request_made [OF r]
  have l: "last (items req) = mainProductItem f"
    using facts(5) by (simp add: orderedItems_def)
  have "\<not> invalidItem (mainProductItem f)"
    using facts(4) by (simp add: orderedItems_def)
  then have q: "0 < quantity (mainProductItem f)"
    and i: "\<exists>n. item_id (mainProductItem f) = Some n \<and> n \<noteq> 0"
    by (auto simp: invalidItem_def split: option.splits)
  have qv: "quantity (mainProductItem f) =
         (case map_of (inputs f) ''quantity'' of
            None \<Rightarrow> 1
          | Some q \<Rightarrow> (case parseInt10 q of None \<Rightarrow> 1 | Some n \<Rightarrow> if n = 0 then 1 else n))"
    by (simp add: mainProductItem_def num_or_def split: option.splits)
  have qs: "safeInteger (quantity (mainProductItem f))"
    using sf unfolding qv
    by (auto simp: safeForm_def safeNum_def safeInteger_def split: option.splits)
  have iv: "\<exists>v n. map_of (inputs f) ''id'' = Some v \<and> parseInt10 v = Some n \<and> n \<noteq> 0 \<and> safeInteger n
           \<and> item_id (mainProductItem f) = Some n"
    using i facts(2) sf by (auto simp: mainProductItem_def safeForm_def safeNum_def)
  show "items req \<noteq> []
     \<and> last (items req) = mainProductItem f
     \<and> 0 < quantity (last (items req))
     \<and> safeInteger (quantity (last (items req)))
     \<and> quantity (last (items req)) =
         (case map_of (inputs f) ''quantity'' of
            None \<Rightarrow> 1
          | Some q \<Rightarrow> (case parseInt10 q of None \<Rightarrow> 1 | Some n \<Rightarrow> if n = 0 then 1 else n))
     \<and> (\<exists>v n. map_of (inputs f) ''id'' = Some v \<and> parseInt10 v = Some n \<and> n \<noteq> 0 \<and> safeInteger n
           \<and> item_id (last (items req)) = Some n)"
    using facts(5) q qs qv iv unfolding l by (simp add: orderedItems_def)
qed

text \<open>
  The example page sends three items, the main product (id 99, quantity 1) last; so it does
  when the form has no quantity field.
\<close>

theorem main_item_witness:
  "snd (snd (handleFormSubmit example_host example_page example_form fresh_event)) =
     Some (example_request
        [\<lparr>item_id = Some 11, quantity = 1\<rparr>, \<lparr>item_id = Some 77, quantity = 2\<rparr>,
         \<lparr>item_id = Some 99, quantity = 1\<rparr>])
   \<and> safeForm example_form
   \<and> last (items (example_request
        [\<lparr>item_id = Some 11, quantity = 1\<rparr>, \<lparr>item_id = Some 77, quantity = 2\<rparr>,
         \<lparr>item_id = Some 99, quantity = 1\<rparr>])) = mainProductItem example_form
   \<and> mainProductItem example_form = \<lparr>item_id = Some 99, quantity = 1\<rparr>
   \<and> map_of (inputs example_form) ''quantity'' = Some ''1''
   \<and> snd (snd (handleFormSubmit example_host example_page no_quantity_form fresh_event)) =
     Some (example_request
        [\<lparr>item_id = Some 11, quantity = 1\<rparr>, \<lparr>item_id = Some 77, quantity = 2\<rparr>,
         \<lparr>item_id = Some 99, quantity = 1\<rparr>])
   \<and> safeForm no_quantity_form
   \<and> map_of (inputs no_quantity_form) ''quantity'' = None
   \<and> mainProductItem no_quantity_form = \<lparr>item_id = Some 99, quantity = 1\<rparr>"
proof -
  have q: "map_of (inputs example_form) ''quantity'' = Some ''1''"
      "map_of (inputs no_quantity_form) ''quantity'' = None"
    by (simp_all add: example_form_def no_quantity_form_def)
  show ?thesis
    using main_item_last_with_quantity [of example_host example_page example_form fresh_event
      "example_request
        [\<lparr>item_id = Some 11, quantity = 1\<rparr>, \<lparr>item_id = Some 77, quantity = 2\<rparr>,
         \<lparr>item_id = Some 99, quantity = 1\<rparr>]"]
      main_item_last_with_quantity [of example_host example_page no_quantity_form fresh_event
      "example_request
        [\<lparr>item_id = Some 11, quantity = 1\<rparr>, \<lparr>item_id = Some 77, quantity = 2\<rparr>,
         \<lparr>item_id = Some 99, quantity = 1\<rparr>]"]
    by (simp add: example_page_request no_quantity_request example_form_fields other_forms_fields
        example_safeForm other_forms_safe q)
qed

text \<open>
  C1, as amended. The multiplier, by which \<open>getCheckboxPrice\<close> multiplies the base price
  and which \<open>buildPatternProductItem\<close> takes as the quantity, is never 0. It is 1 when the
  size count attribute is absent or empty, when \<open>JSON.parse\<close> throws on it (nothing
  propagates: the result is a plain number), and when the current variant title is empty.
  It is 1 when the parsed map is an object without the current title as a key. When the
  parsed map is an object that has the (non-empty) current title as a key, the
  multiplier is 1 if \<open>parseInt\<close> throws on that entry or reads no integer from it, and
  otherwise the integer read (a safe integer), replaced by 1 exactly when it is 0: a
  negative integer is kept. An entry that is a safe integer reads as itself. No request
  carries an item with a quantity that is not positive: the validation of the submit
  handler makes none then.
\<close>

theorem multiplier_default_and_entry:
  "countMultiplier h cb \<noteq> 0
   \<and> (\<not> present (additionalProductCountForVariant cb) \<longrightarrow> countMultiplier h cb = 1)
   \<and> (JSON_parse h (or_empty (additionalProductCountForVariant cb)) = None \<longrightarrow> countMultiplier h cb = 1)
   \<and> (or_empty (currentVariantTitle cb) = [] \<longrightarrow> countMultiplier h cb = 1)
   \<and> (present (additionalProductCountForVariant cb)
        \<and> JSON_parse h (or_empty (additionalProductCountForVariant cb)) = Some (JObj kvs)
        \<and> or_empty (currentVariantTitle cb) \<noteq> []
        \<and> map_of kvs (or_empty (currentVariantTitle cb)) = Some v
      \<longrightarrow> (parseInt v = None \<longrightarrow> countMultiplier h cb = 1)
          \<and> (parseInt v = Some None \<longrightarrow> countMultiplier h cb = 1)
          \<and> (parseInt v = Some (Some n) \<and> safeInteger n \<longrightarrow>
                countMultiplier h cb = (if n = 0 then 1 else n))
          \<and> (v = JNum (show_int n) \<and> safeInteger n \<longrightarrow>
                countMultiplier h cb = (if n = 0 then 1 else n)))
   \<and> (JSON_parse h (or_empty (additionalProductCountForVariant cb)) = Some (JObj kvs)
        \<and> map_of kvs (or_empty (currentVariantTitle cb)) = None \<longrightarrow> countMultiplier h cb = 1)
   \<and> getCheckboxPrice h cb =
        Number_mul h (parseFloat_or0 h (additionalProductPrice cb)) (Number_of h (countMultiplier h cb))
   \<and> (buildPatternProductItem h cb = Some it \<longrightarrow> quantity it = countMultiplier h cb)
   \<and> (snd (snd (handleFormSubmit h s f ev)) = Some req \<longrightarrow> (\<forall>x \<in> set (items req). 0 < quantity x))"
proof (intro conjI impI)
  show "countMultiplier h cb \<noteq> 0" by (rule countMultiplier_nonzero)
next
  show "getCheckboxPrice h cb =
        Number_mul h (parseFloat_or0 h (additionalProductPrice cb)) (Number_of h (countMultiplier h cb))"
    by (simp add: getCheckboxPrice_def)
next
  assume "buildPatternProductItem h cb = Some it"
  then show "quantity it = countMultiplier h cb"
    by (auto simp: buildPatternProductItem_def Let_def split: if_splits option.splits)
next
  assume "\<not> present (additionalProductCountForVariant cb)"
  then show "countMultiplier h cb = 1" by (simp add: countMultiplier_def)
next
  assume "JSON_parse h (or_empty (additionalProductCountForVariant cb)) = None"
  then show "countMultiplier h cb = 1" by (simp add: countMultiplier_def)
next
  assume "or_empty (currentVariantTitle cb) = []"
  then show "countMultiplier h cb = 1"
    by (simp add: countMultiplier_def countFromObject_def split: option.splits)
next
  assume "JSON_parse h (or_empty (additionalProductCountForVariant cb)) = Some (JObj kvs)
        \<and> map_of kvs (or_empty (currentVariantTitle cb)) = None"
  then show "countMultiplier h cb = 1"
    by (simp add: countMultiplier_def countFromObject_def)
next
  assume r: "snd (snd (handleFormSubmit h s f ev)) = Some req"
  show "\<forall>x \<in> set (items req). 0 < quantity x"
    using request_made(4) [OF r] unfolding request_made(5) [OF r]
    by (auto simp: invalidItem_def)
next
  assume a: "present (additionalProductCountForVariant cb)
        \<and> JSON_parse h (or_empty (additionalProductCountForVariant cb)) = Some (JObj kvs)
        \<and> or_empty (currentVariantTitle cb) \<noteq> []
        \<and> map_of kvs (or_empty (currentVariantTitle cb)) = Some v"
  then have m: "countMultiplier h cb = (case parseInt v of Some x \<Rightarrow> num_or x 1 | None \<Rightarrow> 1)"
    by (simp add: countMultiplier_entry)
  {
    assume "parseInt v = None"
    with m show "countMultiplier h cb = 1" by simp
  }
  {
    assume "parseInt v = Some None"
    with m show "countMultiplier h cb = 1" by (simp add: num_or_def)
  }
  {
    assume "parseInt v = Some (Some n) \<and> safeInteger n"
    with m show "countMultiplier h cb = (if n = 0 then 1 else n)" by (simp add: num_or_def)
  }
  {
    assume "v = JNum (show_int n) \<and> safeInteger n"
    with m show "countMultiplier h cb = (if n = 0 then 1 else n)"
      by (simp add: parseInt_JNum_show_int num_or_def)
  }
qed

text \<open>
  C1 as stated fails: with the map \<open>{"Large": -3}\<close> and the title Large the multiplier is
  \<open>-3\<close>, not clamped to 1 and not positive.
\<close>

theorem multiplier_counterexample:
  "countMultiplier example_host pattern_negative = - 3 \<and> \<not> 0 < countMultiplier example_host pattern_negative"
  by (simp add: countMultiplier_negative)

text \<open>
  The ways to a multiplier, on the example page: the entry 2, the entry \<open>1e21\<close>, which
  \<open>parseInt\<close> reads as 1, a map that does not parse, no map. The example page sends the
  quantities 1, 2 and 1; the page whose pattern product has the multiplier \<open>-3\<close> sends
  nothing.
\<close>

theorem multiplier_witness:
  \<open>present (additionalProductCountForVariant pattern_large)
   \<and> JSON_parse example_host (or_empty (additionalProductCountForVariant pattern_large)) = Some (JObj [(''Large'', JNum ''2'')])
   \<and> or_empty (currentVariantTitle pattern_large) \<noteq> []
   \<and> map_of [(''Large'', JNum ''2'')] (or_empty (currentVariantTitle pattern_large)) = Some (JNum ''2'')
   \<and> JNum ''2'' = JNum (show_int 2) \<and> safeInteger 2
   \<and> countMultiplier example_host pattern_large = 2
   \<and> JSON_parse example_host (or_empty (additionalProductCountForVariant pattern_exponent)) = Some (JObj [(''Large'', JNum ''1e+21'')])
   \<and> parseInt (JNum ''1e+21'') = Some (Some 1)
   \<and> countMultiplier example_host pattern_exponent = 1
   \<and> JSON_parse example_host (or_empty (additionalProductCountForVariant pattern_malformed)) = None
   \<and> countMultiplier example_host pattern_malformed = 1
   \<and> \<not> present (additionalProductCountForVariant blank_checkbox)
   \<and> countMultiplier example_host blank_checkbox = 1
   \<and> buildPatternProductItem example_host pattern_large = Some \<lparr>item_id = Some 77, quantity = 2\<rparr>
   \<and> snd (snd (handleFormSubmit example_host example_page example_form fresh_event)) =
        Some (example_request
          [\<lparr>item_id = Some 11, quantity = 1\<rparr>, \<lparr>item_id = Some 77, quantity = 2\<rparr>,
           \<lparr>item_id = Some 99, quantity = 1\<rparr>])
   \<and> snd (snd (handleFormSubmit example_host negative_multiplier_page example_form fresh_event)) = None\<close>
proof -
  have p: "present (additionalProductCountForVariant pattern_large)"
      "present (additionalProductCountForVariant pattern_exponent)"
    by (simp_all add: pattern_exponent_def pattern_large_def blank_checkbox_def present_def)
  have j: \<open>JSON_parse example_host (or_empty (additionalProductCountForVariant pattern_large)) = Some (JObj [(''Large'', JNum ''2'')])\<close>
    by (simp add: pattern_large_def blank_checkbox_def or_empty_def example_arith example_parse_large)
  have je: \<open>JSON_parse example_host (or_empty (additionalProductCountForVariant pattern_exponent)) = Some (JObj [(''Large'', JNum ''1e+21'')])\<close>
    by (simp add: pattern_exponent_def pattern_large_def blank_checkbox_def or_empty_def example_arith
        example_parse_exponent)
  have t: "or_empty (currentVariantTitle pattern_large) = ''Large''"
      "or_empty (currentVariantTitle pattern_exponent) = ''Large''"
    by (simp_all add: pattern_exponent_def pattern_large_def blank_checkbox_def or_empty_def)
  have b: "JSON_parse example_host (or_empty (additionalProductCountForVariant pattern_malformed)) = None"
    by (simp add: pattern_malformed_def pattern_large_def blank_checkbox_def or_empty_def example_arith example_parse_bad)
  have a: "\<not> present (additionalProductCountForVariant blank_checkbox)"
    by (simp add: blank_checkbox_def present_def)
  have n: "JNum ''2'' = JNum (show_int 2)" "safeInteger 2" "safeInteger 1"
    by (simp_all add: show_int_def digits_of.simps digit_char_def char_of_def bit_iff_odd safeInteger_def)
  have e: "parseInt (JNum ''1e+21'') = Some (Some 1)" by (rule parseInt_examples)
  have r: "snd (snd (handleFormSubmit example_host example_page example_form fresh_event)) =
        Some (example_request
          [\<lparr>item_id = Some 11, quantity = 1\<rparr>, \<lparr>item_id = Some 77, quantity = 2\<rparr>,
           \<lparr>item_id = Some 99, quantity = 1\<rparr>])"
    by (simp add: example_page_request)
  have i: "buildPatternProductItem example_host pattern_large = Some \<lparr>item_id = Some 77, quantity = 2\<rparr>"
    by (rule example_items)
  note i1 = multiplier_default_and_entry [of example_host pattern_large "[(''Large'', JNum ''2'')]" "JNum ''2''" 2
      "\<lparr>item_id = Some 77, quantity = 2\<rparr>" example_page example_form fresh_event
      "example_request
          [\<lparr>item_id = Some 11, quantity = 1\<rparr>, \<lparr>item_id = Some 77, quantity = 2\<rparr>,
           \<lparr>item_id = Some 99, quantity = 1\<rparr>]"]
  note i2 = multiplier_default_and_entry [of example_host pattern_exponent "[(''Large'', JNum ''1e+21'')]"
      "JNum ''1e+21''" 1]
  note i3 = multiplier_default_and_entry [of example_host pattern_malformed]
  note i4 = multiplier_default_and_entry [of example_host blank_checkbox]
  from i1 p j t n have 1: "countMultiplier example_host pattern_large = 2" by simp
  from i2 p je t e n have 2: "countMultiplier example_host pattern_exponent = 1" by simp
  from i3 b have 3: "countMultiplier example_host pattern_malformed = 1" by blast
  from i4 a have 4: "countMultiplier example_host blank_checkbox = 1" by blast
  show ?thesis
    using p j je t b a n e r i 1 2 3 4 negative_multiplier_request [of fresh_event] by simp
qed

section \<open>What a change event leaves alone\<close>

lemma frame_refl [simp]: "frame s s"
  by (simp add: frame_def option.rel_refl)

lemma frame_trans: "frame s t \<Longrightarrow> frame t u \<Longrightarrow> frame s u"
proof -
  assume st: "frame s t" and tu: "frame t u"
  have e: "elements u x = (elements s x)\<lparr>countSpan := countSpan (elements u x)\<rparr>" for x
  proof -
    have a: "elements u x = (elements t x)\<lparr>countSpan := countSpan (elements u x)\<rparr>"
      using tu by (simp add: frame_def)
    have b: "elements t x = (elements s x)\<lparr>countSpan := countSpan (elements t x)\<rparr>"
      using st by (simp add: frame_def)
    show ?thesis by (subst a, subst b) simp
  qed
  have f: "rel_option (\<lambda>f g. \<forall>k. k \<noteq> ''pattern_product_id'' \<longrightarrow> map_of (inputs g) k = map_of (inputs f) k)
          (form s) (form u)"
  proof (cases "form s")
    case None
    then show ?thesis using st tu by (cases "form t"; cases "form u") (simp_all add: frame_def)
  next
    case (Some a)
    then show ?thesis using st tu by (cases "form t"; cases "form u") (simp_all add: frame_def)
  qed
  show "frame s u"
    using st tu e f by (simp add: frame_def)
qed

lemma frame_fields:
  assumes "frame s t"
  shows "patternProductCheckbox t = patternProductCheckbox s"
    and "patternNeedleCheckboxes t = patternNeedleCheckboxes s"
    and "checkboxes t = checkboxes s"
    and "listeners t = listeners s"
    and "addOns t = addOns s"
    and "checked (elements t x) = checked (elements s x)"
    and "additionalProductId (elements t x) = additionalProductId (elements s x)"
    and "buildPatternProductItem h (elements t x) = buildPatternProductItem h (elements s x)"
proof -
  have e: "elements t x = (elements s x)\<lparr>countSpan := countSpan (elements t x)\<rparr>"
    using assms by (simp add: frame_def)
  show "patternProductCheckbox t = patternProductCheckbox s"
    and "patternNeedleCheckboxes t = patternNeedleCheckboxes s"
    and "checkboxes t = checkboxes s" and "listeners t = listeners s"
    using assms by (simp_all add: frame_def)
  then show "addOns t = addOns s" by (simp add: addOns_def)
  show "checked (elements t x) = checked (elements s x)"
    by (subst e) simp
  show "additionalProductId (elements t x) = additionalProductId (elements s x)"
    by (subst e) simp
  show "buildPatternProductItem h (elements t x) = buildPatternProductItem h (elements s x)"
    by (subst e) (simp add: buildPatternProductItem_def countMultiplier_def split: option.splits)
qed

lemma frame_simple_updates [simp]:
  "frame s (s\<lparr>currentVariantPrice := p\<rparr>)"
  "frame s (s\<lparr>priceElements := q\<rparr>)"
  "frame s (s\<lparr>events := e\<rparr>)"
  by (simp_all add: frame_def option.rel_refl)

lemma frame_updateCurrentVariantPrice: "frame s (updateCurrentVariantPrice h s)"
  by (subst updateCurrentVariantPrice_frame) simp

lemma frame_updatePriceDisplay: "frame s (updatePriceDisplay h s p c)"
  by (simp add: updatePriceDisplay_def Let_def)

lemma frame_recalculateTotalPrice: "frame s (recalculateTotalPrice h s)"
  unfolding recalculateTotalPrice_def Let_def
  by (rule frame_trans [OF frame_updateCurrentVariantPrice frame_updatePriceDisplay])

lemma frame_setCountSpan: "frame s (setCountSpan s a txt)"
  by (simp add: setCountSpan_def frame_def option.rel_refl split: option.splits)

lemma frame_updateInitialCountForCheckbox: "frame s (updateInitialCountForCheckbox h s a)"
  by (simp add: updateInitialCountForCheckbox_def Let_def frame_setCountSpan split: option.splits)

lemma frame_getCalculatedTotalPrice: "frame s (fst (getCalculatedTotalPrice h s))"
  by (simp add: getCalculatedTotalPrice_def Let_def frame_updateCurrentVariantPrice)

lemma frame_dispatchPatternProductChangeEvent: "frame s (dispatchPatternProductChangeEvent s d)"
  by (simp add: dispatchPatternProductChangeEvent_def)

lemma map_of_remove_first: "k' \<noteq> k \<Longrightarrow> map_of (remove_first k xs) k' = map_of xs k'"
  by (induction xs) auto

lemma frame_updateFormData: "frame s (updateFormData s c i)"
  by (simp add: updateFormData_def frame_def option.rel_refl update_conv' map_of_remove_first
      split: option.splits)


lemma form_preserved [simp]:
  "form (updateCurrentVariantPrice h s) = form s"
  "form (updatePriceDisplay h s p c) = form s"
  "form (setCountSpan s a txt) = form s"
  "form (dispatchPatternProductChangeEvent s d) = form s"
  by (subst updateCurrentVariantPrice_frame)
     (simp_all add: updatePriceDisplay_def Let_def setCountSpan_def
       dispatchPatternProductChangeEvent_def split: option.splits)

lemma form_preserved_more [simp]:
  "form (recalculateTotalPrice h s) = form s"
  "form (updateInitialCountForCheckbox h s a) = form s"
  "form (fst (getCalculatedTotalPrice h s)) = form s"
  by (simp_all add: recalculateTotalPrice_def updateInitialCountForCheckbox_def
      getCalculatedTotalPrice_def Let_def split: option.splits)

lemma form_updateFormData:
  "form (updateFormData s c i) =
     map_option (\<lambda>f. f\<lparr>inputs :=
        (if c \<and> present i then AList.update ''pattern_product_id'' (or_empty i) (inputs f)
         else remove_first ''pattern_product_id'' (inputs f))\<rparr>) (form s)"
  by (cases "form s") (auto simp: updateFormData_def)

text \<open>
  The change handler as a chain of its steps; \<open>t\<close> is the state just before
  \<open>updateFormData\<close>.
\<close>

lemma handlePatternProductChange_steps:
  "\<exists>t. frame s t \<and> form t = form s
       \<and> handlePatternProductChange h s a =
           updateFormData t (checked (elements s a)) (additionalProductId (elements s a))"
proof -
  let ?s1 = "recalculateTotalPrice h s"
  let ?s2 = "updateInitialCountForCheckbox h ?s1 a"
  let ?s3 = "updateCurrentVariantPrice h ?s2"
  let ?s4 = "fst (getCalculatedTotalPrice h ?s3)"
  have f2: "frame s ?s2"
    by (rule frame_trans [OF frame_recalculateTotalPrice frame_updateInitialCountForCheckbox])
  have f4: "frame s ?s4"
    by (rule frame_trans [OF frame_trans [OF f2 frame_updateCurrentVariantPrice]
          frame_getCalculatedTotalPrice])
  have i: "additionalProductId (elements ?s2 a) = additionalProductId (elements s a)"
    by (rule frame_fields(7) [OF f2])
  obtain d where "handlePatternProductChange h s a =
      updateFormData (dispatchPatternProductChangeEvent ?s4 d) (checked (elements s a))
        (additionalProductId (elements ?s2 a))"
    by (simp add: handlePatternProductChange_def Let_def split_beta)
  moreover have "frame s (dispatchPatternProductChangeEvent ?s4 d)"
    by (rule frame_trans [OF f4 frame_dispatchPatternProductChangeEvent])
  moreover have "form (dispatchPatternProductChangeEvent ?s4 d) = form s"
    by simp
  ultimately show ?thesis using i by metis
qed

lemma frame_handlePatternProductChange: "frame s (handlePatternProductChange h s a)"
proof -
  obtain t where "frame s t"
    "handlePatternProductChange h s a =
       updateFormData t (checked (elements s a)) (additionalProductId (elements s a))"
    using handlePatternProductChange_steps by blast
  then show ?thesis using frame_trans [OF _ frame_updateFormData] by simp
qed

lemma form_handlePatternProductChange:
  "form (handlePatternProductChange h s a) =
     map_option (\<lambda>f. f\<lparr>inputs :=
        (if checked (elements s a) \<and> present (additionalProductId (elements s a))
         then AList.update ''pattern_product_id'' (or_empty (additionalProductId (elements s a))) (inputs f)
         else remove_first ''pattern_product_id'' (inputs f))\<rparr>) (form s)"
proof -
  obtain t where "form t = form s"
    "handlePatternProductChange h s a =
       updateFormData t (checked (elements s a)) (additionalProductId (elements s a))"
    using handlePatternProductChange_steps by blast
  then show ?thesis by (simp add: form_updateFormData)
qed

lemma frame_handleGenericCheckboxChange: "frame s (handleGenericCheckboxChange s a)"
  by (simp add: handleGenericCheckboxChange_def Let_def)

lemma frame_runListener: "frame s (runListener h a s l)"
  by (cases l) (simp_all add: runListener_def frame_handlePatternProductChange
      frame_handleGenericCheckboxChange)

lemma frame_foldl_runListener: "frame s (foldl (runListener h a) s ls)"
proof (induction ls arbitrary: s)
  case Nil
  then show ?case by simp
next
  case (Cons l ls)
  show ?case
    using frame_trans [OF frame_runListener [of s h a l] Cons.IH [of "runListener h a s l"]]
    by simp
qed

lemma frame_dispatchChange: "frame s (dispatchChange h s a)"
  by (simp add: dispatchChange_def frame_foldl_runListener)

lemma frame_setChecked: "frame s t \<Longrightarrow> frame (setChecked s a b) (setChecked t a b)"
proof -
  assume st: "frame s t"
  have e: "elements t x = (elements s x)\<lparr>countSpan := countSpan (elements t x)\<rparr>" for x
    using st by (simp add: frame_def)
  have "elements (setChecked t a b) x =
          (elements (setChecked s a b) x)\<lparr>countSpan := countSpan (elements (setChecked t a b) x)\<rparr>" for x
    by (cases "x = a") (simp_all add: setChecked_def, (subst e, simp)+)
  then show ?thesis using st by (simp add: frame_def setChecked_def)
qed

lemma setChecked_commute:
  "a \<noteq> b \<Longrightarrow> setChecked (setChecked s a x) b y = setChecked (setChecked s b y) a x"
  by (simp add: setChecked_def fun_upd_twist)

text \<open>Two clicks on different checkboxes, in either order, end in states that differ by the frame of one state.\<close>

lemma frame_toggle_toggle:
  "frame (setChecked (setChecked s a x) b y) (toggle h (toggle h s a x) b y)"
proof -
  have "frame (setChecked s a x) (toggle h s a x)"
    by (simp add: toggle_def frame_dispatchChange)
  then have "frame (setChecked (setChecked s a x) b y) (setChecked (toggle h s a x) b y)"
    by (rule frame_setChecked)
  moreover have "frame (setChecked (toggle h s a x) b y) (toggle h (toggle h s a x) b y)"
    by (simp add: toggle_def frame_dispatchChange)
  ultimately show ?thesis by (rule frame_trans)
qed

section \<open>The request does not see the frame\<close>

lemma frame_notions:
  assumes "frame s t"
  shows "checkedNeedleItems h t = checkedNeedleItems h s"
    and "checkedPatternItems h t = checkedPatternItems h s"
    and "patternItemMissing h t = patternItemMissing h s"
    and "anyAddOnChecked t = anyAddOnChecked s"
  by (simp_all add: checkedNeedleItems_def checkedPatternItems_def patternItemMissing_def
      anyAddOnChecked_def frame_fields [OF assms] split: option.splits)

lemma frame_request:
  assumes "frame s t"
  shows "snd (snd (submit h t ev)) = snd (snd (submit h s ev))"
proof (cases "form s")
  case None
  then have "form t = None" using assms by (cases "form t") (simp_all add: frame_def)
  with None show ?thesis by (simp add: submit_def)
next
  case (Some f)
  then obtain g where g: "form t = Some g"
    and k: "\<And>k. k \<noteq> ''pattern_product_id'' \<Longrightarrow> map_of (inputs g) k = map_of (inputs f) k"
    using assms by (cases "form t") (simp_all add: frame_def)
  have i: "map_of (inputs g) ''id'' = map_of (inputs f) ''id''"
    and q: "map_of (inputs g) ''quantity'' = map_of (inputs f) ''quantity''"
    and c: "map_of (inputs g) ''section-id'' = map_of (inputs f) ''section-id''"
    by (simp_all add: k)
  have m: "mainProductItem g = mainProductItem f"
    by (simp add: mainProductItem_def i q)
  have o: "orderedItems h t g = orderedItems h s f"
    by (simp add: orderedItems_def m frame_notions [OF assms])
  show ?thesis
  proof (cases "anyAddOnChecked s")
    case True
    then have "anyAddOnChecked t" by (simp add: frame_notions [OF assms])
    then show ?thesis
      using True
      by (simp add: submit_def Some g handleFormSubmit_intercepted i c o frame_notions [OF assms])
  next
    case False
    then have "\<not> anyAddOnChecked t" by (simp add: frame_notions [OF assms])
    then show ?thesis
      using False by (simp add: submit_def Some g handleFormSubmit_not_intercepted)
  qed
qed

lemma toggle_order_request:
  assumes "a \<noteq> b"
  shows "snd (snd (submit h (toggle h (toggle h s a x) b y) ev)) =
         snd (snd (submit h (toggle h (toggle h s b y) a x) ev))"
proof -
  have "snd (snd (submit h (toggle h (toggle h s a x) b y) ev)) =
        snd (snd (submit h (setChecked (setChecked s a x) b y) ev))"
    by (rule frame_request [OF frame_toggle_toggle])
  also have "\<dots> = snd (snd (submit h (setChecked (setChecked s b y) a x) ev))"
    by (simp add: setChecked_commute [OF assms])
  also have "\<dots> = snd (snd (submit h (toggle h (toggle h s b y) a x) ev))"
    by (rule frame_request [OF frame_toggle_toggle, symmetric])
  finally show ?thesis .
qed

section \<open>The needle array\<close>

lemma foldl_append_needles:
  "foldl (\<lambda>acc c. acc @ c_needles c) xs cs = xs @ concat (map c_needles cs)"
  by (induction cs arbitrary: xs) simp_all

lemma collectNeedleCheckboxes_eq:
  "collectNeedleCheckboxes d =
     (if c_needles (thisContainer d) @ concat (map c_needles (containersBefore d @ containersAfter d)) = []
      then None
      else Some (c_needles (thisContainer d)
                 @ concat (map c_needles (containersBefore d @ containersAfter d))))"
  by (simp add: collectNeedleCheckboxes_def foldl_append_needles Let_def)

lemma needles_updateInitialCountForCheckbox [simp]:
  "patternNeedleCheckboxes (updateInitialCountForCheckbox h s a) = patternNeedleCheckboxes s"
  by (rule frame_fields(2) [OF frame_updateInitialCountForCheckbox])

lemma needles_setupNeedle [simp]:
  "patternNeedleCheckboxes (setupNeedle h s a) = patternNeedleCheckboxes s"
  by (simp add: setupNeedle_def Let_def)

lemma needles_foldl_setupNeedle:
  "patternNeedleCheckboxes (foldl (setupNeedle h) s xs) = patternNeedleCheckboxes s"
  by (induction xs arbitrary: s) simp_all

lemma needles_setupGenericCheckbox [simp]:
  "patternNeedleCheckboxes (setupGenericCheckbox s a) = patternNeedleCheckboxes s"
  by (simp add: setupGenericCheckbox_def Let_def)

lemma needles_foldl_setupGenericCheckbox:
  "patternNeedleCheckboxes (foldl setupGenericCheckbox s xs) = patternNeedleCheckboxes s"
  by (induction xs arbitrary: s) simp_all

text \<open>\<open>init\<close> leaves the needle array as it collected it.\<close>

lemma needles_init: "patternNeedleCheckboxes (init h d s) = collectNeedleCheckboxes d"
  by (simp add: init_def Let_def setupGenericCheckboxListeners_def needles_foldl_setupGenericCheckbox
      setupPatternNeedleCheckboxes_def needles_foldl_setupNeedle split: option.splits)

lemma needles_toggle: "patternNeedleCheckboxes (toggle h s a b) = patternNeedleCheckboxes s"
proof -
  have "frame (setChecked s a b) (toggle h s a b)"
    by (simp add: toggle_def frame_dispatchChange)
  then show ?thesis using frame_fields(2) by (fastforce simp: setChecked_def)
qed

lemma checkedNeedleItems_collected:
  assumes "patternNeedleCheckboxes s = collectNeedleCheckboxes d"
  shows "checkedNeedleItems h s =
     List.map_filter (\<lambda>a. buildPatternProductItem h (elements s a))
       (filter (\<lambda>a. checked (elements s a)) (c_needles (thisContainer d)))
     @ List.map_filter (\<lambda>a. buildPatternProductItem h (elements s a))
         (filter (\<lambda>a. checked (elements s a))
            (concat (map c_needles (containersBefore d @ containersAfter d))))"
proof -
  have m: "List.map_filter g (xs @ ys) = List.map_filter g xs @ List.map_filter g ys" for g :: "nat \<Rightarrow> item option" and xs ys
    by (simp add: List.map_filter_def)
  define xs where "xs = c_needles (thisContainer d)"
  define ys where "ys = concat (map c_needles (containersBefore d @ containersAfter d))"
  have c: "collectNeedleCheckboxes d = (if xs @ ys = [] then None else Some (xs @ ys))"
    unfolding xs_def ys_def by (rule collectNeedleCheckboxes_eq)
  have k: "(case (if xs @ ys = [] then None else Some (xs @ ys)) of Some needles \<Rightarrow> needles | None \<Rightarrow> []) = xs @ ys"
    by simp
  have "checkedNeedleItems h s =
     List.map_filter (\<lambda>a. buildPatternProductItem h (elements s a)) (filter (\<lambda>a. checked (elements s a)) xs)
     @ List.map_filter (\<lambda>a. buildPatternProductItem h (elements s a)) (filter (\<lambda>a. checked (elements s a)) ys)"
    unfolding checkedNeedleItems_def assms c k by (simp add: m)
  then show ?thesis unfolding xs_def ys_def .
qed

lemma updateInitialCountForCheckbox_no_span:
  "countSpan (elements s a) = None \<Longrightarrow> updateInitialCountForCheckbox h s a = s"
  by (simp add: updateInitialCountForCheckbox_def setCountSpan_def Let_def split: option.splits)

lemma setupNeedle_no_span:
  "countSpan (elements s a) = None \<Longrightarrow> cb_id (elements s a) \<noteq> [] \<Longrightarrow>
   setupNeedle h s a =
     s\<lparr>listeners := listeners s @ [(a, PatternListener)],
       checkboxes := AList.update (cb_id (elements s a)) a (checkboxes s)\<rparr>"
  by (simp add: setupNeedle_def Let_def updateInitialCountForCheckbox_no_span)

lemma constructed_page_fields:
  "elements constructed_page 10 = pattern_large\<lparr>checked := False\<rparr>"
  "elements constructed_page 11 = needle ''needle_a'' ''601'' (Some ''11'') True"
  "elements constructed_page 12 = needle ''needle_b'' ''602'' (Some ''22'') True"
  "ownCheckboxes constructed_page = [10, 12]"
  "checkboxes constructed_page = []"
  "listeners constructed_page = []"
  by (simp_all add: constructed_page_def needles_only_page_def example_state_def)

lemma example_ids:
  "countSpan (pattern_large\<lparr>checked := False\<rparr>) = None" "countSpan (needle i p v c) = None"
  "cb_id (needle i p v c) = i" "cb_id (pattern_large\<lparr>checked := False\<rparr>) = ''pattern_product''"
  "cb_name (needle i p v c) = ''pattern_needles[]''"
  by (simp_all add: example_checkbox_defs)

lemma foldl_fixed: "(\<And>x. x \<in> set xs \<Longrightarrow> f s x = s) \<Longrightarrow> foldl f s xs = s"
  by (induction xs) simp_all

lemma setupGenericCheckboxListeners_skips:
  assumes "\<And>a. a \<in> set (ownCheckboxes s) \<Longrightarrow>
             cb_id (elements s a) = ''pattern_product'' \<or> cb_name (elements s a) = ''pattern_needles''
             \<or> cb_name (elements s a) = ''pattern_needles[]''"
  shows "setupGenericCheckboxListeners s = s"
  unfolding setupGenericCheckboxListeners_def
proof (rule foldl_fixed)
  fix x
  assume "x \<in> set (ownCheckboxes s)"
  then show "setupGenericCheckbox s x = s"
    using assms by (auto simp: setupGenericCheckbox_def Let_def)
qed

lemma init_two_containers: "init example_host two_containers constructed_page = second_container_page"
proof -
  have 1: "updateCurrentVariantPrice example_host constructed_page =
      constructed_page\<lparr>currentVariantPrice := Some 5000\<rparr>"
    by (subst updateCurrentVariantPrice_frame)
       (simp add: constructed_page_def needles_only_page_def updateCurrentVariantPrice_def
          example_state_def example_arith example_parse_variant parseInt_examples num_or_def)
  have 2: "findPatternProduct two_containers = Some 10"
    by (simp add: findPatternProduct_def two_containers_def)
  have 3: "collectNeedleCheckboxes two_containers = Some [12, 11]"
    by (simp add: collectNeedleCheckboxes_def two_containers_def)
  let ?s2 = "constructed_page\<lparr>currentVariantPrice := Some 5000, patternProductCheckbox := Some 10\<rparr>"
  let ?s3 = "?s2\<lparr>listeners := [(10, PatternListener)], checkboxes := [(''pattern_product'', 10)]\<rparr>"
  have s3: "updateInitialCountForCheckbox example_host (setupPatternProductCheckbox ?s2) 10 = ?s3"
    by (subst updateInitialCountForCheckbox_no_span)
       (simp_all add: setupPatternProductCheckbox_def constructed_page_fields example_ids)
  let ?s4 = "?s3\<lparr>patternNeedleCheckboxes := Some [12, 11]\<rparr>"
  let ?s5 = "?s4\<lparr>listeners := [(10, PatternListener), (12, PatternListener), (11, PatternListener)],
        checkboxes := [(''pattern_product'', 10), (''needle_b'', 12), (''needle_a'', 11)]\<rparr>"
  have s5: "setupPatternNeedleCheckboxes example_host ?s4 = ?s5"
    by (simp add: setupPatternNeedleCheckboxes_def setupNeedle_no_span constructed_page_fields example_ids)
  have s6: "setupGenericCheckboxListeners ?s5 = ?s5"
    by (rule setupGenericCheckboxListeners_skips) (auto simp: constructed_page_fields example_ids)
  have "init example_host two_containers constructed_page = setupGenericCheckboxListeners ?s5"
    unfolding init_def Let_def 1 2 3
    by (simp add: s3 s5)
  also note s6
  also have "?s5 = second_container_page"
    by (simp add: second_container_page_def constructed_page_def needles_only_page_def example_state_def)
  finally show ?thesis .
qed

lemma second_container_request:
  "handleFormSubmit example_host second_container_page example_form ev =
     (second_container_page\<lparr>form := Some (submitting example_form)\<rparr>, taken ev,
      Some (example_request
        [\<lparr>item_id = Some 22, quantity = 1\<rparr>, \<lparr>item_id = Some 11, quantity = 1\<rparr>,
         \<lparr>item_id = Some 99, quantity = 1\<rparr>]))"
proof -
  have f: "elements second_container_page 10 = pattern_large\<lparr>checked := False\<rparr>"
      "elements second_container_page 11 = needle ''needle_a'' ''601'' (Some ''11'') True"
      "elements second_container_page 12 = needle ''needle_b'' ''602'' (Some ''22'') True"
      "patternProductCheckbox second_container_page = Some 10"
      "patternNeedleCheckboxes second_container_page = Some [12, 11]"
      "addOns second_container_page = [10, 12, 11]"
    by (simp_all add: second_container_page_def needles_only_page_def example_state_def addOns_def)
  have a: "anyAddOnChecked second_container_page"
    by (simp add: anyAddOnChecked_def f example_eval)
  have m: "\<not> patternItemMissing example_host second_container_page"
    by (simp add: patternItemMissing_def f example_eval)
  have o: "orderedItems example_host second_container_page example_form =
      [\<lparr>item_id = Some 22, quantity = 1\<rparr>, \<lparr>item_id = Some 11, quantity = 1\<rparr>,
       \<lparr>item_id = Some 99, quantity = 1\<rparr>]"
    by (simp add: orderedItems_def checkedNeedleItems_def checkedPatternItems_def f example_eval)
  show ?thesis
    unfolding handleFormSubmit_intercepted [OF a] o
    by (simp add: m example_eval invalidItem_def example_request_def)
qed

text \<open>
  C3, as amended. \<open>init\<close> collects the needle array: the needles of the controller's own
  element in document order, then those of the other containers in document order, and
  clicks leave the array as it is. An intercepted submission whose form has the id field,
  whose checked pattern product has an item and whose items are all valid makes a request,
  and a request is made in no other case; the items of a request are the items of the
  checked needles in the order of that array (a checked needle without an item is left out),
  then the pattern product's item if its checkbox is checked, then the main product's item,
  last. When no needle of another container precedes the controller's own element, the
  array is in DOM order. The request is a function of the page as it is at the submission:
  clicking two checkboxes in one order or the other gives the same request. The integers of
  the page are safe integers.
\<close>

theorem items_in_fixed_order:
  "patternNeedleCheckboxes (init h d s0) = collectNeedleCheckboxes d
   \<and> patternNeedleCheckboxes (toggle h s a x) = patternNeedleCheckboxes s
   \<and> (patternNeedleCheckboxes s = collectNeedleCheckboxes d \<longrightarrow>
        checkedNeedleItems h s =
          List.map_filter (\<lambda>a. buildPatternProductItem h (elements s a))
            (filter (\<lambda>a. checked (elements s a)) (c_needles (thisContainer d)))
          @ List.map_filter (\<lambda>a. buildPatternProductItem h (elements s a))
              (filter (\<lambda>a. checked (elements s a))
                 (concat (map c_needles (containersBefore d @ containersAfter d)))))
   \<and> (concat (map c_needles (containersBefore d)) = [] \<longrightarrow>
        c_needles (thisContainer d) @ concat (map c_needles (containersBefore d @ containersAfter d)) =
          needlesInDomOrder d)
   \<and> (safeNumbers h s f \<and> anyAddOnChecked s \<and> map_of (inputs f) ''id'' \<noteq> None
        \<and> \<not> patternItemMissing h s \<and> (\<forall>it \<in> set (orderedItems h s f). \<not> invalidItem it) \<longrightarrow>
        (\<exists>req. snd (snd (handleFormSubmit h s f ev)) = Some req
           \<and> items req = checkedNeedleItems h s @ checkedPatternItems h s @ [mainProductItem f]))
   \<and> (safeNumbers h s f \<and> snd (snd (handleFormSubmit h s f ev)) = Some req \<longrightarrow>
        items req = checkedNeedleItems h s @ checkedPatternItems h s @ [mainProductItem f]
        \<and> last (items req) = mainProductItem f
        \<and> (\<forall>p. patternProductCheckbox s = Some p \<and> checked (elements s p) \<longrightarrow>
              (\<exists>it. buildPatternProductItem h (elements s p) = Some it \<and> checkedPatternItems h s = [it])))
   \<and> ((\<forall>p. patternProductCheckbox s = Some p \<longrightarrow> \<not> checked (elements s p)) \<longrightarrow>
         checkedPatternItems h s = [])
   \<and> (a \<noteq> b \<longrightarrow>
         snd (snd (submit h (toggle h (toggle h s a x) b y) ev)) =
         snd (snd (submit h (toggle h (toggle h s b y) a x) ev)))"
proof (intro conjI impI allI)
  show "patternNeedleCheckboxes (init h d s0) = collectNeedleCheckboxes d" by (rule needles_init)
  show "patternNeedleCheckboxes (toggle h s a x) = patternNeedleCheckboxes s" by (rule needles_toggle)
next
  assume "patternNeedleCheckboxes s = collectNeedleCheckboxes d"
  then show "checkedNeedleItems h s =
          List.map_filter (\<lambda>a. buildPatternProductItem h (elements s a))
            (filter (\<lambda>a. checked (elements s a)) (c_needles (thisContainer d)))
          @ List.map_filter (\<lambda>a. buildPatternProductItem h (elements s a))
              (filter (\<lambda>a. checked (elements s a))
                 (concat (map c_needles (containersBefore d @ containersAfter d))))"
    by (rule checkedNeedleItems_collected)
next
  assume e: "concat (map c_needles (containersBefore d)) = []"
  show "c_needles (thisContainer d) @ concat (map c_needles (containersBefore d @ containersAfter d)) =
          needlesInDomOrder d"
    by (simp only: needlesInDomOrder_def map_append concat_append e append_Nil)
next
  assume c: "safeNumbers h s f \<and> anyAddOnChecked s \<and> map_of (inputs f) ''id'' \<noteq> None
        \<and> \<not> patternItemMissing h s \<and> (\<forall>it \<in> set (orderedItems h s f). \<not> invalidItem it)"
  then have "handleFormSubmit h s f ev =
           (s\<lparr>form := Some (submitting f)\<rparr>, taken ev,
            Some \<lparr>url = addToCartUrl (rootUrl h),
                  items = checkedNeedleItems h s @ checkedPatternItems h s @ [mainProductItem f],
                  sections_url = sectionsUrl h (map_of (inputs f) ''section-id'')\<rparr>)"
    by (intro request_built) simp_all
  then show "\<exists>req. snd (snd (handleFormSubmit h s f ev)) = Some req
           \<and> items req = checkedNeedleItems h s @ checkedPatternItems h s @ [mainProductItem f]"
    by simp
next
  assume "safeNumbers h s f \<and> snd (snd (handleFormSubmit h s f ev)) = Some req"
  then have r: "snd (snd (handleFormSubmit h s f ev)) = Some req" by simp
  show o: "items req = checkedNeedleItems h s @ checkedPatternItems h s @ [mainProductItem f]"
    using request_made(5) [OF r] by (simp add: orderedItems_def)
  then show "last (items req) = mainProductItem f" by simp
  fix p
  assume "patternProductCheckbox s = Some p \<and> checked (elements s p)"
  then show "\<exists>it. buildPatternProductItem h (elements s p) = Some it \<and> checkedPatternItems h s = [it]"
    using request_made(3) [OF r]
    by (cases "buildPatternProductItem h (elements s p)")
       (simp_all add: patternItemMissing_def checkedPatternItems_def)
next
  assume "\<forall>p. patternProductCheckbox s = Some p \<longrightarrow> \<not> checked (elements s p)"
  then show "checkedPatternItems h s = []"
    by (simp add: checkedPatternItems_def split: option.splits)
next
  assume "a \<noteq> b"
  then show "snd (snd (submit h (toggle h (toggle h s a x) b y) ev)) =
         snd (snd (submit h (toggle h (toggle h s b y) a x) ev))"
    by (rule toggle_order_request)
qed

text \<open>
  C3 as stated fails: in the document whose first container holds the needle at node 11
  and whose second container, the controller's own, holds the needle at node 12, \<open>init\<close>
  collects the array 12, 11; with both needles checked the items sent are 22, 11 and 99,
  while the needles in DOM order, 11 and 12, would give 11, 22.
\<close>

theorem items_order_counterexample:
  "init example_host two_containers constructed_page = second_container_page
   \<and> patternNeedleCheckboxes second_container_page = Some [12, 11]
   \<and> needlesInDomOrder two_containers = [11, 12]
   \<and> snd (snd (submit example_host second_container_page fresh_event)) =
       Some (example_request
         [\<lparr>item_id = Some 22, quantity = 1\<rparr>, \<lparr>item_id = Some 11, quantity = 1\<rparr>,
          \<lparr>item_id = Some 99, quantity = 1\<rparr>])
   \<and> List.map_filter (\<lambda>a. buildPatternProductItem example_host (elements second_container_page a))
        (filter (\<lambda>a. checked (elements second_container_page a)) (needlesInDomOrder two_containers)) =
       [\<lparr>item_id = Some 11, quantity = 1\<rparr>, \<lparr>item_id = Some 22, quantity = 1\<rparr>]"
proof -
  have f: "elements second_container_page 11 = needle ''needle_a'' ''601'' (Some ''11'') True"
      "elements second_container_page 12 = needle ''needle_b'' ''602'' (Some ''22'') True"
      "patternNeedleCheckboxes second_container_page = Some [12, 11]"
      "form second_container_page = Some example_form"
    by (simp_all add: second_container_page_def needles_only_page_def example_state_def)
  have d: "needlesInDomOrder two_containers = [11, 12]"
    by (simp add: needlesInDomOrder_def two_containers_def)
  show ?thesis
    unfolding d
    by (simp add: init_two_containers f submit_def second_container_request example_eval)
qed

text \<open>
  The example page, whose needles 11 and 12 are the controller's own: with the first needle
  and the pattern product checked the items are 11, 77 and 99. The second scenario of the
  specification: needles 11 and 22 checked, the pattern product not, main variant 99: the
  items are 11, 22, 99. Checking the two needles of the unchecked page in either order gives
  one request.
\<close>

theorem items_order_witness:
  "safeNumbers example_host example_page example_form
   \<and> anyAddOnChecked example_page
   \<and> map_of (inputs example_form) ''id'' \<noteq> None
   \<and> \<not> patternItemMissing example_host example_page
   \<and> list_all (\<lambda>it. \<not> invalidItem it) (orderedItems example_host example_page example_form)
   \<and> patternProductCheckbox example_page = Some 10 \<and> checked (elements example_page 10)
   \<and> snd (snd (handleFormSubmit example_host example_page example_form fresh_event)) =
     Some (example_request
        [\<lparr>item_id = Some 11, quantity = 1\<rparr>, \<lparr>item_id = Some 77, quantity = 2\<rparr>,
         \<lparr>item_id = Some 99, quantity = 1\<rparr>])
   \<and> checkedNeedleItems example_host example_page = [\<lparr>item_id = Some 11, quantity = 1\<rparr>]
   \<and> checkedPatternItems example_host example_page = [\<lparr>item_id = Some 77, quantity = 2\<rparr>]
   \<and> mainProductItem example_form = \<lparr>item_id = Some 99, quantity = 1\<rparr>
   \<and> safeNumbers example_host needles_only_page example_form
   \<and> snd (snd (handleFormSubmit example_host needles_only_page example_form fresh_event)) =
     Some (example_request
        [\<lparr>item_id = Some 11, quantity = 1\<rparr>, \<lparr>item_id = Some 22, quantity = 1\<rparr>,
         \<lparr>item_id = Some 99, quantity = 1\<rparr>])
   \<and> checkedNeedleItems example_host needles_only_page @ checkedPatternItems example_host needles_only_page
        @ [mainProductItem example_form] =
      [\<lparr>item_id = Some 11, quantity = 1\<rparr>, \<lparr>item_id = Some 22, quantity = 1\<rparr>,
       \<lparr>item_id = Some 99, quantity = 1\<rparr>]
   \<and> checkedPatternItems example_host needles_only_page = []
   \<and> patternNeedleCheckboxes example_page =
       collectNeedleCheckboxes \<lparr>thisContainer = \<lparr>c_patternProduct = Some 10, c_needles = [11, 12]\<rparr>,
                                 containersBefore = [], containersAfter = []\<rparr>
   \<and> (11::nat) \<noteq> 12
   \<and> snd (snd (submit example_host
         (toggle example_host (toggle example_host unchecked_page 11 True) 12 True) fresh_event)) =
      snd (snd (submit example_host
         (toggle example_host (toggle example_host unchecked_page 12 True) 11 True) fresh_event))"
proof -
  let ?d = "\<lparr>thisContainer = \<lparr>c_patternProduct = Some 10, c_needles = [11, 12]\<rparr>,
             containersBefore = [], containersAfter = []\<rparr>"
  let ?r1 = "example_request
        [\<lparr>item_id = Some 11, quantity = 1\<rparr>, \<lparr>item_id = Some 77, quantity = 2\<rparr>,
         \<lparr>item_id = Some 99, quantity = 1\<rparr>]"
  let ?r2 = "example_request
        [\<lparr>item_id = Some 11, quantity = 1\<rparr>, \<lparr>item_id = Some 22, quantity = 1\<rparr>,
         \<lparr>item_id = Some 99, quantity = 1\<rparr>]"
  note i1 = items_in_fixed_order [of example_host ?d example_page example_page 11 True
      example_form fresh_event ?r1 12 True]
  note i2 = items_in_fixed_order [of example_host ?d needles_only_page needles_only_page 11 True
      example_form fresh_event ?r2 12 True]
  note i3 = items_in_fixed_order [of example_host ?d unchecked_page unchecked_page 11 True
      example_form fresh_event ?r2 12 True]
  have sn: "safeNumbers example_host example_page example_form"
      "safeNumbers example_host needles_only_page example_form"
    by (rule example_safeNumbers)+
  have a: "anyAddOnChecked example_page" by (rule example_flags)
  have i: "map_of (inputs example_form) ''id'' \<noteq> None" by (simp add: example_form_fields)
  have m: "\<not> patternItemMissing example_host example_page" by (rule example_page_not_missing)
  have v: "\<forall>it \<in> set (orderedItems example_host example_page example_form). \<not> invalidItem it"
    by (simp add: example_page_orderedItems example_form_fields invalidItem_def)
  have p: "patternProductCheckbox example_page = Some 10 \<and> checked (elements example_page 10)"
    by (simp add: example_page_def example_eval)
  have r1: "snd (snd (handleFormSubmit example_host example_page example_form fresh_event)) = Some ?r1"
    by (simp add: example_page_request)
  have r2: "snd (snd (handleFormSubmit example_host needles_only_page example_form fresh_event)) = Some ?r2"
    by (simp add: needles_only_request)
  have c: "patternNeedleCheckboxes example_page = collectNeedleCheckboxes ?d"
    by (simp add: example_page_def example_eval collectNeedleCheckboxes_def)
  from i1 c have n1: "checkedNeedleItems example_host example_page =
          List.map_filter (\<lambda>a. buildPatternProductItem example_host (elements example_page a))
            (filter (\<lambda>a. checked (elements example_page a)) (c_needles (thisContainer ?d)))
          @ List.map_filter (\<lambda>a. buildPatternProductItem example_host (elements example_page a))
              (filter (\<lambda>a. checked (elements example_page a))
                 (concat (map c_needles (containersBefore ?d @ containersAfter ?d))))"
    by blast
  have n1': "checkedNeedleItems example_host example_page = [\<lparr>item_id = Some 11, quantity = 1\<rparr>]"
    unfolding n1 by (simp add: example_page_fields example_eval)
  from i1 sn r1 p have "\<exists>it. buildPatternProductItem example_host (elements example_page 10) = Some it
      \<and> checkedPatternItems example_host example_page = [it]"
    by blast
  then have p1: "checkedPatternItems example_host example_page = [\<lparr>item_id = Some 77, quantity = 2\<rparr>]"
    by (auto simp: example_page_fields example_eval)
  from i2 sn r2 have o: "items ?r2 = checkedNeedleItems example_host needles_only_page
        @ checkedPatternItems example_host needles_only_page @ [mainProductItem example_form]"
    by blast
  have u: "\<forall>p. patternProductCheckbox needles_only_page = Some p \<longrightarrow> \<not> checked (elements needles_only_page p)"
    by (simp add: needles_only_page_def example_eval)
  from i2 u have e: "checkedPatternItems example_host needles_only_page = []"
    by blast
  from i3 have t: "snd (snd (submit example_host
         (toggle example_host (toggle example_host unchecked_page 11 True) 12 True) fresh_event)) =
      snd (snd (submit example_host
         (toggle example_host (toggle example_host unchecked_page 12 True) 11 True) fresh_event))"
    by simp
  show ?thesis
    using sn a i m v p r1 r2 n1' p1 c e t o [symmetric]
    by (simp add: example_request_def example_form_fields list_all_iff)
qed

section \<open>A checked add-on without a variant id\<close>

lemma buildPatternProductItem_None:
  "buildPatternProductItem h cb = None \<longleftrightarrow>
     \<not> present (additionalProductVariantId cb)
     \<or> parseInt10 (or_empty (additionalProductVariantId cb)) = None"
  by (simp add: buildPatternProductItem_def Let_def split: option.splits)

lemma patternItemMissing_checked: "patternItemMissing h s \<Longrightarrow> anyAddOnChecked s"
  by (auto simp: patternItemMissing_def anyAddOnChecked_def addOns_def split: option.splits)

lemma events_enableSubmit [simp]: "events (enableSubmit s) = events s"
  by (simp add: enableSubmit_def)

lemma events_handleAddToCartError:
  "events (handleAddToCartError s m) = events s @ [(OnDocument, CartAddError m)]"
  by (simp add: handleAddToCartError_def Let_def split: option.splits)

lemma errorContainer_handleAddToCartError:
  "form s = Some f \<Longrightarrow> errorContainer f = Some ec \<Longrightarrow> m \<noteq> [] \<Longrightarrow>
   map_option errorContainer (form (handleAddToCartError s m)) =
     Some (Some \<lparr>ec_textContent = m, ec_role = Some ''alert'',
                 ec_classList = removeAll ''hidden'' (ec_classList ec)\<rparr>)"
  by (simp add: handleAddToCartError_def Let_def)

lemma pattern_missing_abort:
  assumes "patternItemMissing h s" and "map_of (inputs f) ''id'' \<noteq> None"
  shows "handleFormSubmit h s f ev =
           (handleAddToCartError (enableSubmit (s\<lparr>form := Some (submitting f)\<rparr>))
              ''Pattern product variant not available. Please try again.'', taken ev, None)"
  using assms by (auto simp: handleFormSubmit_intercepted [OF patternItemMissing_checked [OF assms(1)]])

lemma parse_digits_None: "parse_digits s = None \<longleftrightarrow> (case s of [] \<Rightarrow> True | d # r \<Rightarrow> \<not> is_digit d)"
  by (cases s) (simp_all add: parse_digits_def Let_def)

lemma parseInt10_None: "parseInt10 v = None \<longleftrightarrow> \<not> startsWithInteger v"
proof (cases "dropWhile is_space v")
  case Nil
  show ?thesis unfolding parseInt10_def startsWithInteger_def Nil by simp
next
  case (Cons c r)
  show ?thesis
    unfolding parseInt10_def startsWithInteger_def Cons
    by (cases r) (auto simp: parse_digits_None is_digit_def)
qed

text \<open>
  C4, as amended. An add-on has no item exactly when its variant id attribute is missing,
  empty or does not begin with an integer (\<open>parseInt\<close> gives \<open>NaN\<close>). When that is so for
  the checked pattern product, no request is made and the form has the submit control it
  had, enabled; when the form has its main variant id field, the error is surfaced as
  well: the event \<open>theme:cart:add:error\<close> is dispatched and the error container, if there
  is one, shows the message. A checked needle with such a variant id is skipped by the
  loop, and the request, if one is made, carries the other items (the integers of the page
  being safe integers).
\<close>

theorem missing_pattern_variant_aborts:
  "(buildPatternProductItem h cb = None \<longleftrightarrow>
      \<not> present (additionalProductVariantId cb)
      \<or> \<not> startsWithInteger (or_empty (additionalProductVariantId cb)))
   \<and> (patternItemMissing h s \<longrightarrow>
        snd (snd (handleFormSubmit h s f ev)) = None
        \<and> map_option submitButton (form (fst (handleFormSubmit h s f ev))) =
            Some (map_option (\<lambda>b. b\<lparr>disabled := False, classList := removeAll ''loading'' (classList b)\<rparr>)
                    (submitButton f)))
   \<and> (patternItemMissing h s \<and> map_of (inputs f) ''id'' \<noteq> None \<longrightarrow>
        events (fst (handleFormSubmit h s f ev)) =
          events s @ [(OnDocument, CartAddError ''Pattern product variant not available. Please try again.'')]
        \<and> (\<forall>ec. errorContainer f = Some ec \<longrightarrow>
              map_option errorContainer (form (fst (handleFormSubmit h s f ev))) =
                Some (Some \<lparr>ec_textContent = ''Pattern product variant not available. Please try again.'',
                            ec_role = Some ''alert'',
                            ec_classList = removeAll ''hidden'' (ec_classList ec)\<rparr>)))
   \<and> (checked (elements s a) \<and> buildPatternProductItem h (elements s a) = None \<longrightarrow>
        pushNeedle h s its a = its)
   \<and> (safeNumbers h s f \<and> snd (snd (handleFormSubmit h s f ev)) = Some req \<longrightarrow>
        \<not> patternItemMissing h s
        \<and> items req = checkedNeedleItems h s @ checkedPatternItems h s @ [mainProductItem f])"
proof (intro conjI impI allI)
  show "buildPatternProductItem h cb = None \<longleftrightarrow>
      \<not> present (additionalProductVariantId cb)
      \<or> \<not> startsWithInteger (or_empty (additionalProductVariantId cb))"
    by (simp add: buildPatternProductItem_None parseInt10_None)
next
  assume m: "patternItemMissing h s"
  note a = patternItemMissing_checked [OF m]
  show n: "snd (snd (handleFormSubmit h s f ev)) = None"
    using m by (simp add: handleFormSubmit_intercepted [OF a])
  show "map_option submitButton (form (fst (handleFormSubmit h s f ev))) =
            Some (map_option (\<lambda>b. b\<lparr>disabled := False, classList := removeAll ''loading'' (classList b)\<rparr>)
                    (submitButton f))"
    by (rule handleFormSubmit_aborted_control [OF a n])
next
  assume "patternItemMissing h s \<and> map_of (inputs f) ''id'' \<noteq> None"
  then show "events (fst (handleFormSubmit h s f ev)) =
          events s @ [(OnDocument, CartAddError ''Pattern product variant not available. Please try again.'')]"
    by (simp add: pattern_missing_abort events_handleAddToCartError)
next
  fix ec
  assume p: "patternItemMissing h s \<and> map_of (inputs f) ''id'' \<noteq> None"
    and c: "errorContainer f = Some ec"
  have "\<exists>f'. form (enableSubmit (s\<lparr>form := Some (submitting f)\<rparr>)) = Some f' \<and> errorContainer f' = Some ec"
    using c by (simp add: enableSubmit_def submitting_def)
  then obtain f' where "form (enableSubmit (s\<lparr>form := Some (submitting f)\<rparr>)) = Some f'"
      "errorContainer f' = Some ec" by blast
  then show "map_option errorContainer (form (fst (handleFormSubmit h s f ev))) =
                Some (Some \<lparr>ec_textContent = ''Pattern product variant not available. Please try again.'',
                            ec_role = Some ''alert'',
                            ec_classList = removeAll ''hidden'' (ec_classList ec)\<rparr>)"
    using p by (simp add: pattern_missing_abort errorContainer_handleAddToCartError)
next
  assume "checked (elements s a) \<and> buildPatternProductItem h (elements s a) = None"
  then show "pushNeedle h s its a = its" by (simp add: pushNeedle_def)
next
  assume "safeNumbers h s f \<and> snd (snd (handleFormSubmit h s f ev)) = Some req"
  then have r: "snd (snd (handleFormSubmit h s f ev)) = Some req" by simp
  show "\<not> patternItemMissing h s" by (rule request_made(3) [OF r])
  show "items req = checkedNeedleItems h s @ checkedPatternItems h s @ [mainProductItem f]"
    using request_made(5) [OF r] by (simp add: orderedItems_def)
qed

text \<open>
  C4 as stated fails for a needle: on the page whose first needle is checked and has no
  variant id, the request is made and carries the other three items. It fails also for a
  variant id that is not a number but begins with one: on the page whose checked pattern
  product has the variant id \<open>42px\<close> the request is made, with the item 42.
\<close>

theorem missing_needle_counterexample:
  "checked (elements missing_needle_page 11)
   \<and> additionalProductVariantId (elements missing_needle_page 11) = None
   \<and> snd (snd (handleFormSubmit example_host missing_needle_page example_form fresh_event)) =
       Some (example_request
         [\<lparr>item_id = Some 22, quantity = 1\<rparr>, \<lparr>item_id = Some 77, quantity = 2\<rparr>,
          \<lparr>item_id = Some 99, quantity = 1\<rparr>])
   \<and> checked (elements suffixed_pattern_page 10)
   \<and> additionalProductVariantId (elements suffixed_pattern_page 10) = Some ''42px''
   \<and> snd (snd (handleFormSubmit example_host suffixed_pattern_page example_form fresh_event)) =
       Some (example_request
         [\<lparr>item_id = Some 11, quantity = 1\<rparr>, \<lparr>item_id = Some 42, quantity = 2\<rparr>,
          \<lparr>item_id = Some 99, quantity = 1\<rparr>])"
proof -
  have "elements missing_needle_page 11 = needle ''needle_a'' ''601'' None True"
    by (simp add: missing_needle_page_def example_state_fields)
  then have 1: "checked (elements missing_needle_page 11)
      \<and> additionalProductVariantId (elements missing_needle_page 11) = None"
    by (simp add: needle_def blank_checkbox_def)
  have "elements suffixed_pattern_page 10 = pattern_large\<lparr>additionalProductVariantId := Some ''42px''\<rparr>"
    by (simp add: suffixed_pattern_page_def example_state_fields)
  then have 2: "checked (elements suffixed_pattern_page 10)
      \<and> additionalProductVariantId (elements suffixed_pattern_page 10) = Some ''42px''"
    by (simp add: pattern_large_def blank_checkbox_def)
  show ?thesis using 1 2 by (simp add: missing_needle_request suffixed_pattern_request)
qed

text \<open>
  The page whose pattern product has no variant id: no request, the error shown, the submit
  control as it was. The page whose first needle has none: that needle is left out.
\<close>

theorem missing_pattern_variant_witness:
  "patternItemMissing example_host missing_pattern_page
   \<and> map_of (inputs example_form) ''id'' \<noteq> None
   \<and> errorContainer example_form = Some \<lparr>ec_textContent = [], ec_role = None, ec_classList = [''hidden'']\<rparr>
   \<and> submitButton example_form = Some \<lparr>disabled = False, classList = [''button'']\<rparr>
   \<and> snd (snd (handleFormSubmit example_host missing_pattern_page example_form fresh_event)) = None
   \<and> map_option submitButton
        (form (fst (handleFormSubmit example_host missing_pattern_page example_form fresh_event))) =
        Some (Some \<lparr>disabled = False, classList = [''button'']\<rparr>)
   \<and> events (fst (handleFormSubmit example_host missing_pattern_page example_form fresh_event)) =
        [(OnDocument, CartAddError ''Pattern product variant not available. Please try again.'')]
   \<and> map_option errorContainer
        (form (fst (handleFormSubmit example_host missing_pattern_page example_form fresh_event))) =
        Some (Some \<lparr>ec_textContent = ''Pattern product variant not available. Please try again.'',
                    ec_role = Some ''alert'', ec_classList = []\<rparr>)
   \<and> safeNumbers example_host missing_needle_page example_form
   \<and> snd (snd (handleFormSubmit example_host missing_needle_page example_form fresh_event)) =
       Some (example_request
         [\<lparr>item_id = Some 22, quantity = 1\<rparr>, \<lparr>item_id = Some 77, quantity = 2\<rparr>,
          \<lparr>item_id = Some 99, quantity = 1\<rparr>])
   \<and> checkedNeedleItems example_host missing_needle_page @ checkedPatternItems example_host missing_needle_page
        @ [mainProductItem example_form] =
       [\<lparr>item_id = Some 22, quantity = 1\<rparr>, \<lparr>item_id = Some 77, quantity = 2\<rparr>,
        \<lparr>item_id = Some 99, quantity = 1\<rparr>]"
proof -
  let ?r = "example_request
         [\<lparr>item_id = Some 22, quantity = 1\<rparr>, \<lparr>item_id = Some 77, quantity = 2\<rparr>,
          \<lparr>item_id = Some 99, quantity = 1\<rparr>]"
  have m: "patternItemMissing example_host missing_pattern_page" by (rule example_flags)
  have i: "map_of (inputs example_form) ''id'' \<noteq> None" by (simp add: example_form_fields)
  have c: "errorContainer example_form = Some \<lparr>ec_textContent = [], ec_role = None, ec_classList = [''hidden'']\<rparr>"
    by (simp add: example_form_def)
  have b: "submitButton example_form = Some \<lparr>disabled = False, classList = [''button'']\<rparr>"
    by (rule other_forms_fields)
  have e: "events missing_pattern_page = []" by (simp add: missing_pattern_page_def example_eval)
  have sn: "safeNumbers example_host missing_needle_page example_form" by (rule example_safeNumbers)
  have r: "snd (snd (handleFormSubmit example_host missing_needle_page example_form fresh_event)) = Some ?r"
    by (simp add: missing_needle_request)
  note inst = missing_pattern_variant_aborts [of example_host pattern_large missing_pattern_page
      example_form fresh_event 11 "[]" ?r]
  note inst2 = missing_pattern_variant_aborts [of example_host pattern_large missing_needle_page
      example_form fresh_event 11 "[]" ?r]
  from inst m have 1: "snd (snd (handleFormSubmit example_host missing_pattern_page example_form fresh_event)) = None
      \<and> map_option submitButton
          (form (fst (handleFormSubmit example_host missing_pattern_page example_form fresh_event))) =
          Some (map_option (\<lambda>b. b\<lparr>disabled := False, classList := removeAll ''loading'' (classList b)\<rparr>)
                  (submitButton example_form))"
    by blast
  from inst m i have 2: "events (fst (handleFormSubmit example_host missing_pattern_page example_form fresh_event)) =
        events missing_pattern_page @ [(OnDocument, CartAddError ''Pattern product variant not available. Please try again.'')]"
    by blast
  from inst m i c have 3: "map_option errorContainer
        (form (fst (handleFormSubmit example_host missing_pattern_page example_form fresh_event))) =
        Some (Some \<lparr>ec_textContent = ''Pattern product variant not available. Please try again.'',
                    ec_role = Some ''alert'',
                    ec_classList = removeAll ''hidden''
                      (ec_classList \<lparr>ec_textContent = [], ec_role = None, ec_classList = [''hidden'']\<rparr>)\<rparr>)"
    by blast
  from inst2 sn r have 4: "items ?r = checkedNeedleItems example_host missing_needle_page
        @ checkedPatternItems example_host missing_needle_page @ [mainProductItem example_form]"
    by blast
  show ?thesis using m i c b 1 2 3 e sn r 4 [symmetric] by (simp add: example_request_def)
qed

section \<open>The hidden field\<close>

lemma present_Some: "present i \<Longrightarrow> Some (or_empty i) = i"
  by (cases i) (simp_all add: present_def or_empty_def)

lemma count_update:
  "length (filter (\<lambda>p. fst p = k) (AList.update k v xs)) =
     (if filter (\<lambda>p. fst p = k) xs = [] then 1 else length (filter (\<lambda>p. fst p = k) xs))"
  by (induction xs) auto

lemma count_remove_first:
  "length (filter (\<lambda>p. fst p = k) (remove_first k xs)) = length (filter (\<lambda>p. fst p = k) xs) - 1"
  by (induction xs) auto

lemma map_of_none_if_no_key: "filter (\<lambda>p. fst p = k) xs = [] \<Longrightarrow> map_of xs k = None"
  by (induction xs) (auto split: if_splits)

lemma remove_first_last_one:
  "length (filter (\<lambda>p. fst p = k) xs) \<le> 1 \<Longrightarrow> map_of (remove_first k xs) k = None"
proof -
  assume "length (filter (\<lambda>p. fst p = k) xs) \<le> 1"
  then have "length (filter (\<lambda>p. fst p = k) (remove_first k xs)) = 0"
    by (simp add: count_remove_first)
  then show ?thesis by (simp add: map_of_none_if_no_key)
qed

text \<open>
  C6, as amended. After the handler of a change on add-on checkbox \<open>a\<close> (the pattern
  product or a needle), a form that was found holds the hidden field \<open>pattern_product_id\<close>
  with the catalogue id of \<open>a\<close> when \<open>a\<close> is checked and has a non-empty id; otherwise
  the first control of that name is removed, which leaves none when there was at most one.
  The handler keeps at most one such control and touches no other control.
\<close>

theorem hidden_field_follows_changed_checkbox:
  "(form s = Some f \<longrightarrow>
      (\<exists>f'. form (handlePatternProductChange h s a) = Some f'
         \<and> (checked (elements s a) \<and> present (additionalProductId (elements s a)) \<longrightarrow>
              map_of (inputs f') ''pattern_product_id'' = additionalProductId (elements s a))
         \<and> (\<not> (checked (elements s a) \<and> present (additionalProductId (elements s a))) \<longrightarrow>
              inputs f' = remove_first ''pattern_product_id'' (inputs f)
              \<and> (length (filter (\<lambda>p. fst p = ''pattern_product_id'') (inputs f)) \<le> 1 \<longrightarrow>
                    map_of (inputs f') ''pattern_product_id'' = None))
         \<and> (length (filter (\<lambda>p. fst p = ''pattern_product_id'') (inputs f)) \<le> 1 \<longrightarrow>
              length (filter (\<lambda>p. fst p = ''pattern_product_id'') (inputs f')) \<le> 1)
         \<and> (\<forall>k. k \<noteq> ''pattern_product_id'' \<longrightarrow> map_of (inputs f') k = map_of (inputs f) k)))
   \<and> (form s = None \<longrightarrow> form (handlePatternProductChange h s a) = None)"
proof (intro conjI impI)
  assume "form s = None"
  then show "form (handlePatternProductChange h s a) = None"
    by (simp add: form_handlePatternProductChange)
next
  assume f: "form s = Some f"
  let ?k = "''pattern_product_id''"
  show "\<exists>f'. form (handlePatternProductChange h s a) = Some f'
         \<and> (checked (elements s a) \<and> present (additionalProductId (elements s a)) \<longrightarrow>
              map_of (inputs f') ''pattern_product_id'' = additionalProductId (elements s a))
         \<and> (\<not> (checked (elements s a) \<and> present (additionalProductId (elements s a))) \<longrightarrow>
              inputs f' = remove_first ''pattern_product_id'' (inputs f)
              \<and> (length (filter (\<lambda>p. fst p = ''pattern_product_id'') (inputs f)) \<le> 1 \<longrightarrow>
                    map_of (inputs f') ''pattern_product_id'' = None))
         \<and> (length (filter (\<lambda>p. fst p = ''pattern_product_id'') (inputs f)) \<le> 1 \<longrightarrow>
              length (filter (\<lambda>p. fst p = ''pattern_product_id'') (inputs f')) \<le> 1)
         \<and> (\<forall>k. k \<noteq> ''pattern_product_id'' \<longrightarrow> map_of (inputs f') k = map_of (inputs f) k)"
  proof (cases "checked (elements s a) \<and> present (additionalProductId (elements s a))")
    case True
    then have r: "form (handlePatternProductChange h s a) =
        Some (f\<lparr>inputs := AList.update ?k (or_empty (additionalProductId (elements s a))) (inputs f)\<rparr>)"
      using f by (simp add: form_handlePatternProductChange)
    have i: "Some (or_empty (additionalProductId (elements s a))) = additionalProductId (elements s a)"
      using True by (simp add: present_Some)
    show ?thesis
      unfolding r using True i by (simp add: update_conv' count_update)
  next
    case False
    then have r: "form (handlePatternProductChange h s a) =
        Some (f\<lparr>inputs := remove_first ?k (inputs f)\<rparr>)"
      using f by (auto simp: form_handlePatternProductChange)
    show ?thesis
      unfolding r using False
      by (auto simp: remove_first_last_one count_remove_first map_of_remove_first)
  qed
qed

lemma toggle_example_page:
  "toggle example_host example_page 12 b =
     handlePatternProductChange example_host (setChecked example_page 12 b) 12"
  by (simp add: toggle_def dispatchChange_def setChecked_def example_page_def example_state_def
      runListener_def)

text \<open>
  C6 as stated fails: on the example page, where the pattern product (id 501) is checked,
  checking the second needle (id 602) leaves the field with 602.
\<close>

theorem hidden_field_counterexample:
  "patternProductCheckbox (toggle example_host example_page 12 True) = Some 10
   \<and> checked (elements (toggle example_host example_page 12 True) 10)
   \<and> additionalProductId (elements (toggle example_host example_page 12 True) 10) = Some ''501''
   \<and> map_option (\<lambda>f. map_of (inputs f) ''pattern_product_id'')
        (form (toggle example_host example_page 12 True)) = Some (Some ''602'')"
proof -
  let ?s = "setChecked example_page 12 True"
  have fr: "frame ?s (toggle example_host example_page 12 True)"
    by (simp add: toggle_def frame_dispatchChange)
  have e10: "elements ?s 10 = pattern_large"
    by (simp add: setChecked_def example_page_def example_state_def)
  have e12: "elements ?s 12 = (needle ''needle_b'' ''602'' (Some ''22'') False)\<lparr>checked := True\<rparr>"
    by (simp add: setChecked_def example_page_def example_state_def)
  have p: "patternProductCheckbox ?s = Some 10"
    by (simp add: setChecked_def example_page_def example_state_def)
  have f: "form ?s = Some example_form"
    by (simp add: setChecked_def example_page_def example_state_def)
  have 1: "patternProductCheckbox (toggle example_host example_page 12 True) = Some 10"
    using frame_fields(1) [OF fr] p by simp
  have 2: "checked (elements (toggle example_host example_page 12 True) 10)"
    using frame_fields(6) [OF fr, of 10] e10 by (simp add: example_checked)
  have 3: "additionalProductId (elements (toggle example_host example_page 12 True) 10) = Some ''501''"
    using frame_fields(7) [OF fr, of 10] e10 by (simp add: pattern_large_def blank_checkbox_def)
  have 4: "map_option (\<lambda>f. map_of (inputs f) ''pattern_product_id'')
        (form (toggle example_host example_page 12 True)) = Some (Some ''602'')"
    by (simp add: toggle_example_page form_handlePatternProductChange f e12 needle_def
        blank_checkbox_def present_def or_empty_def update_conv')
  show ?thesis using 1 2 3 4 by simp
qed

text \<open>On the example page a change of the checked pattern product leaves the field with its id 501.\<close>

theorem hidden_field_witness:
  "form example_page = Some example_form
   \<and> checked (elements example_page 10)
   \<and> present (additionalProductId (elements example_page 10))
   \<and> length (filter (\<lambda>p. fst p = ''pattern_product_id'') (inputs example_form)) \<le> 1
   \<and> map_option (\<lambda>f. map_of (inputs f) ''pattern_product_id'')
        (form (handlePatternProductChange example_host example_page 10)) = Some (Some ''501'')
   \<and> map_option (\<lambda>f. map_of (inputs f) ''id'')
        (form (handlePatternProductChange example_host example_page 10)) = Some (Some ''99'')"
proof -
  have f: "form example_page = Some example_form"
    by (simp add: example_page_def example_state_fields)
  have e: "elements example_page 10 = pattern_large" by (rule example_page_fields)
  have c: "checked (elements example_page 10) \<and> present (additionalProductId (elements example_page 10))"
    by (simp add: e pattern_large_def blank_checkbox_def present_def)
  have i: "additionalProductId (elements example_page 10) = Some ''501''"
    by (simp add: e pattern_large_def blank_checkbox_def)
  have l: "length (filter (\<lambda>p. fst p = ''pattern_product_id'') (inputs example_form)) \<le> 1"
    by (simp add: example_form_def)
  obtain f' where f': "form (handlePatternProductChange example_host example_page 10) = Some f'"
    "map_of (inputs f') ''pattern_product_id'' = additionalProductId (elements example_page 10)"
    "\<forall>k. k \<noteq> ''pattern_product_id'' \<longrightarrow> map_of (inputs f') k = map_of (inputs example_form) k"
    using hidden_field_follows_changed_checkbox [of example_page example_form example_host 10] f c
    by blast
  have "map_of (inputs f') ''id'' = Some ''99''"
    using f'(3) by (simp add: example_form_fields)
  then show ?thesis using f c l f'(1,2) i by simp
qed

section \<open>Reading and setting a checkbox by name\<close>

lemma findCheckbox_bound: "map_of (checkboxes s) name = Some a \<Longrightarrow> findCheckbox h s name = Inr (Some a)"
  by (simp add: findCheckbox_def)

lemma findCheckbox_unbound:
  "map_of (checkboxes s) name = None \<Longrightarrow> findCheckbox h s name = this_querySelector h (selector name)"
  by (simp add: findCheckbox_def)

lemma toggle_sets_checked:
  "checkboxes (dispatchChange h (setChecked s a b) a) = checkboxes s"
  "checked (elements (dispatchChange h (setChecked s a b) a) a) = b"
proof -
  have fr: "frame (setChecked s a b) (dispatchChange h (setChecked s a b) a)"
    by (rule frame_dispatchChange)
  show "checkboxes (dispatchChange h (setChecked s a b) a) = checkboxes s"
    using frame_fields(3) [OF fr] by (simp add: setChecked_def)
  show "checked (elements (dispatchChange h (setChecked s a b) a) a) = b"
    using frame_fields(6) [OF fr, of a] by (simp add: setChecked_def)
qed

lemma setupNeedle_binds:
  "map_of (checkboxes (setupNeedle h s a))
     (if cb_id (elements s a) \<noteq> [] then cb_id (elements s a)
      else if cb_name (elements s a) \<noteq> [] then cb_name (elements s a)
      else ''pattern_needle_'' @ digits_of (length (checkboxes s))) = Some a"
proof -
  have "checkboxes (updateInitialCountForCheckbox h t a) = checkboxes t" for t
    by (rule frame_fields(3) [OF frame_updateInitialCountForCheckbox])
  then show ?thesis
    by (simp add: setupNeedle_def Let_def update_conv')
qed

text \<open>
  For a name bound in the checkbox map, \<open>setCheckboxState(name, b)\<close> returns and
  \<open>getCheckboxState(name)\<close> then returns \<open>b\<close>; the map is as it was. For a name that is
  not bound, both hand the selector built from the name to \<open>this.querySelector\<close>: when
  the query finds no element, \<open>getCheckboxState\<close> returns \<open>null\<close> (it only reads) and
  \<open>setCheckboxState\<close> leaves the state as it is; when the query throws, so do they. The
  set-up binds the pattern product under \<open>pattern_product\<close> and each needle under its id,
  else its name, else a numbered key.
\<close>

lemma checkbox_state_roundtrip:
  "(map_of (checkboxes s) name = Some a \<longrightarrow>
      getCheckboxState h s name = Inr (Some (checked (elements s a)))
      \<and> (\<exists>s'. setCheckboxState h s name b = Inr s'
             \<and> getCheckboxState h s' name = Inr (Some b)
             \<and> checkboxes s' = checkboxes s))
   \<and> (map_of (checkboxes s) name = None \<and> this_querySelector h (selector name) = Inr None \<longrightarrow>
        getCheckboxState h s name = Inr None \<and> setCheckboxState h s name b = Inr s)
   \<and> (map_of (checkboxes s) name = None \<and> this_querySelector h (selector name) = Inl e \<longrightarrow>
        getCheckboxState h s name = Inl e \<and> setCheckboxState h s name b = Inl e)
   \<and> (patternProductCheckbox s = Some p \<longrightarrow>
        map_of (checkboxes (setupPatternProductCheckbox s)) ''pattern_product'' = Some p)
   \<and> map_of (checkboxes (setupNeedle h s a))
        (if cb_id (elements s a) \<noteq> [] then cb_id (elements s a)
         else if cb_name (elements s a) \<noteq> [] then cb_name (elements s a)
         else ''pattern_needle_'' @ digits_of (length (checkboxes s))) = Some a"
proof (intro conjI impI)
  assume m: "map_of (checkboxes s) name = Some a"
  show "getCheckboxState h s name = Inr (Some (checked (elements s a)))"
    by (simp add: getCheckboxState_def findCheckbox_bound [OF m])
  let ?s' = "dispatchChange h (setChecked s a b) a"
  have 1: "setCheckboxState h s name b = Inr ?s'"
    by (simp add: setCheckboxState_def findCheckbox_bound [OF m])
  have c: "checkboxes ?s' = checkboxes s" by (rule toggle_sets_checked)
  then have "map_of (checkboxes ?s') name = Some a" using m by simp
  then have 2: "getCheckboxState h ?s' name = Inr (Some b)"
    by (simp add: getCheckboxState_def findCheckbox_bound toggle_sets_checked)
  show "\<exists>s'. setCheckboxState h s name b = Inr s'
             \<and> getCheckboxState h s' name = Inr (Some b)
             \<and> checkboxes s' = checkboxes s"
    using 1 2 c by blast
next
  assume "map_of (checkboxes s) name = None \<and> this_querySelector h (selector name) = Inr None"
  then show "getCheckboxState h s name = Inr None" and "setCheckboxState h s name b = Inr s"
    by (simp_all add: getCheckboxState_def setCheckboxState_def findCheckbox_unbound)
next
  assume "map_of (checkboxes s) name = None \<and> this_querySelector h (selector name) = Inl e"
  then show "getCheckboxState h s name = Inl e" and "setCheckboxState h s name b = Inl e"
    by (simp_all add: getCheckboxState_def setCheckboxState_def findCheckbox_unbound)
next
  assume "patternProductCheckbox s = Some p"
  then show "map_of (checkboxes (setupPatternProductCheckbox s)) ''pattern_product'' = Some p"
    by (simp add: setupPatternProductCheckbox_def update_conv')
next
  show "map_of (checkboxes (setupNeedle h s a))
        (if cb_id (elements s a) \<noteq> [] then cb_id (elements s a)
         else if cb_name (elements s a) \<noteq> [] then cb_name (elements s a)
         else ''pattern_needle_'' @ digits_of (length (checkboxes s))) = Some a"
    by (rule setupNeedle_binds)
qed

text \<open>
  On the example page the second needle, bound as \<open>needle_b\<close>, reads as checked after it
  is set so, and the unknown name \<open>gift_wrap\<close> reads as \<open>null\<close>.
\<close>

lemma checkbox_state_example:
  "getCheckboxState example_host example_page ''needle_b'' = Inr (Some False)
   \<and> (\<exists>s'. setCheckboxState example_host example_page ''needle_b'' True = Inr s'
          \<and> getCheckboxState example_host s' ''needle_b'' = Inr (Some True))
   \<and> getCheckboxState example_host example_page ''gift_wrap'' = Inr None"
proof -
  have b: "map_of (checkboxes example_page) ''needle_b'' = Some 12"
    by (simp add: example_page_def example_state_def)
  have e: "checked (elements example_page 12) = False"
    by (simp add: example_page_fields example_checked)
  have u: "map_of (checkboxes example_page) ''gift_wrap'' = None"
    by (simp add: example_page_def example_state_def)
  have q: "this_querySelector example_host (selector ''gift_wrap'') = Inr None"
    by (simp add: example_host_def example_querySelector_def selector_def is_digit_def)
  note i1 = checkbox_state_roundtrip [of example_page "''needle_b''" 12 example_host True]
  note i2 = checkbox_state_roundtrip [of example_page "''gift_wrap''" 12 example_host True]
  from i1 b have 1: "getCheckboxState example_host example_page ''needle_b'' = Inr (Some (checked (elements example_page 12)))
      \<and> (\<exists>s'. setCheckboxState example_host example_page ''needle_b'' True = Inr s'
          \<and> getCheckboxState example_host s' ''needle_b'' = Inr (Some True))"
    by blast
  from i2 u q have 2: "getCheckboxState example_host example_page ''gift_wrap'' = Inr None"
    by blast
  show ?thesis using 1 2 e by simp
qed

text \<open>
  C9, on the example page, at a name that no checkbox has and that begins with a digit:
  the map does not bind \<open>1abc\<close>, the selector built from it is \<open>#1abc, [name="1abc"]\<close>,
  which is not a valid selector, and \<open>getCheckboxState\<close> and \<open>setCheckboxState\<close> throw the
  SyntaxError of the query, where the claim, and the comment above \<open>getCheckboxState\<close>
  (\<open>null if not found\<close>), say \<open>null\<close>.
\<close>

theorem checkbox_state_unbound_throws:
  \<open>map_of (checkboxes example_page) ''1abc'' = None
   \<and> list_all (\<lambda>a. cb_id (elements example_page a) \<noteq> ''1abc'' \<and> cb_name (elements example_page a) \<noteq> ''1abc'')
        (ownCheckboxes example_page)
   \<and> selector ''1abc'' = ''#1abc, [name="1abc"]''
   \<and> this_querySelector example_host (selector ''1abc'') = Inl SyntaxError
   \<and> getCheckboxState example_host example_page ''1abc'' = Inl SyntaxError
   \<and> setCheckboxState example_host example_page ''1abc'' True = Inl SyntaxError\<close>
proof -
  have u: "map_of (checkboxes example_page) ''1abc'' = None"
    by (simp add: example_page_def example_state_def)
  have n: "list_all (\<lambda>a. cb_id (elements example_page a) \<noteq> ''1abc'' \<and> cb_name (elements example_page a) \<noteq> ''1abc'')
        (ownCheckboxes example_page)"
    by (simp add: example_page_def example_state_def example_checkbox_defs)
  have s: \<open>selector ''1abc'' = ''#1abc, [name="1abc"]''\<close>
    by (simp add: selector_def)
  have q: "this_querySelector example_host (selector ''1abc'') = Inl SyntaxError"
    by (simp add: example_host_def example_querySelector_def selector_def is_digit_def)
  show ?thesis
    using u n s q
    by (simp add: getCheckboxState_def setCheckboxState_def findCheckbox_unbound)
qed

end
